theory Spec2Isabelle
  imports Complex_Main "HOL-Library.Sublist"
begin

section \<open>JavaScript values and runtime services\<close>

text \<open>
  The four service modules (weather, surf, news, events) are embedded function by
  function.  Conventions of the embedding:

  \<^item> a JavaScript \<open>number\<close> that carries a measurement or a score is a rational
    (binary rounding is not modelled, so a sum of tenths is exact here and the order of
    two nearly equal scores can differ from the engine's); the temperatures of a
    forecast, which the parser reads from an untyped document, are numbers that may be
    \<open>NaN\<close>; a time value (\<open>Date.now()\<close>, \<open>getTime()\<close>) is an integer number of
    milliseconds, and an invalid date is \<open>None\<close>; \<open>Math.round x\<close> is \<open>\<lfloor>x + 1/2\<rfloor>\<close>;
  \<^item> a string is a list of 8-bit characters, and \<open>toLowerCase\<close> maps the letters A to Z;
  \<^item> an exception is a value \<open>Inl e\<close> of a sum type, a \<open>try/catch\<close> is a case
    distinction on it;
  \<^item> every reading of the clock is a parameter (\<open>t0\<close> when a call starts, \<open>t1\<close> when
    its awaited work has settled), every upstream exchange is a parameter;
  \<^item> services of the JavaScript runtime that the code calls but does not define
    (date formatting and parsing, local calendar arithmetic, \<open>parseFloat\<close>, base64,
    \<open>Math.random\<close>) are the fields of a record \<open>Runtime\<close> passed to every function
    that uses one: \<open>parseDate s\<close> is the time value of \<open>new Date(s)\<close>, \<open>getDay t\<close> the
    local weekday of a time value, \<open>addDays t k\<close> and \<open>setHours t h\<close> the time value after
    \<open>setDate(getDate() + k)\<close> and after \<open>setHours(h, 0, 0, 0)\<close>, \<open>random i\<close> the value of the
    call of \<open>Math.random\<close> in the \<open>i\<close>-th round of a loop, \<open>matchImgSrc\<close> the first group
    of the image-tag regular expression.
\<close>

datatype error = Error string | TypeError | SyntaxError | AbortError | RangeError

record Runtime =
  toISOString :: "int \<Rightarrow> string"
  parseDate :: "string \<Rightarrow> int option"
  getDay :: "int \<Rightarrow> nat"
  addDays :: "int \<Rightarrow> int \<Rightarrow> int"
  setHours :: "int \<Rightarrow> int \<Rightarrow> int"
  parseFloat :: "string \<Rightarrow> rat"
  base64 :: "string \<Rightarrow> string"
  random :: "nat \<Rightarrow> rat"
  matchImgSrc :: "string \<Rightarrow> string option"

text \<open>\<open>new Date(t).toISOString()\<close> raises a RangeError outside the ECMAScript time range.\<close>

definition Date_toISOString :: "Runtime \<Rightarrow> int option \<Rightarrow> error + string" where
  "Date_toISOString rt d =
     (case d of None \<Rightarrow> Inl RangeError
      | Some t \<Rightarrow> if \<bar>t\<bar> \<le> 8640000000000000 then Inr (toISOString rt t) else Inl RangeError)"

definition Math_round :: "rat \<Rightarrow> rat" where
  "Math_round x = of_int \<lfloor>x + 1 / 2\<rfloor>"

text \<open>
  A number that may be \<open>NaN\<close>: \<open>None\<close> is \<open>NaN\<close>, and also the value \<open>undefined\<close> of a
  missing field, which every arithmetic operation reads as \<open>NaN\<close>.  \<open>Math.max\<close> and
  \<open>Math.min\<close> return \<open>NaN\<close> when an argument is \<open>NaN\<close>, and \<open>a >= b\<close> is false then.
\<close>

type_synonym number = "rat option"

definition Math_max :: "number \<Rightarrow> number \<Rightarrow> number" where
  "Math_max a b = (case (a, b) of (Some x, Some y) \<Rightarrow> Some (max x y) | _ \<Rightarrow> None)"

definition Math_min :: "number \<Rightarrow> number \<Rightarrow> number" where
  "Math_min a b = (case (a, b) of (Some x, Some y) \<Rightarrow> Some (min x y) | _ \<Rightarrow> None)"

definition greaterEq :: "number \<Rightarrow> number \<Rightarrow> bool" where
  "greaterEq a b = (case (a, b) of (Some x, Some y) \<Rightarrow> y \<le> x | _ \<Rightarrow> False)"

subsection \<open>Strings\<close>

definition toLowerChar :: "char \<Rightarrow> char" where
  "toLowerChar c =
     (case map_of (zip ''ABCDEFGHIJKLMNOPQRSTUVWXYZ'' ''abcdefghijklmnopqrstuvwxyz'') c of
        Some l \<Rightarrow> l | None \<Rightarrow> c)"

definition toLowerCase :: "string \<Rightarrow> string" where
  "toLowerCase s = map toLowerChar s"

text \<open>\<open>text.includes(keyword)\<close>: the keyword occurs as a contiguous substring.\<close>

fun str_includes :: "string \<Rightarrow> string \<Rightarrow> bool" where
  "str_includes [] k = (k = [])"
| "str_includes (c # cs) k = (prefix k (c # cs) \<or> str_includes cs k)"

definition isDigit :: "char \<Rightarrow> bool" where
  "isDigit c = (c \<in> set ''0123456789'')"

definition digitValue :: "char \<Rightarrow> nat" where
  "digitValue c = (case map_of (zip ''0123456789'' [0, 1, 2, 3, 4, 5, 6, 7, 8, 9]) c of
      Some d \<Rightarrow> d | None \<Rightarrow> 0)"

text \<open>\<open>parseInt\<close> on a string of decimal digits.\<close>

definition parseInt :: "string \<Rightarrow> rat" where
  "parseInt ds = of_nat (foldl (\<lambda>n c. 10 * n + digitValue c) 0 ds)"

text \<open>
  The three regular expressions of the weather parser.  \<open>/(\d+)%/\<close> finds the first
  maximal run of digits that a percent sign follows; \<open>/(\d+)/\<close> the first maximal run
  of digits; \<open>/([NSEW]+)/\<close> the first maximal run of the four letters.
\<close>

fun matchPercent :: "string \<Rightarrow> string \<Rightarrow> string option" where
  "matchPercent run [] = None"
| "matchPercent run (c # cs) =
     (if isDigit c then matchPercent (run @ [c]) cs
      else if c = CHR ''%'' \<and> run \<noteq> [] then Some run
      else matchPercent [] cs)"

definition matchRun :: "(char \<Rightarrow> bool) \<Rightarrow> string \<Rightarrow> string option" where
  "matchRun P s =
     (case dropWhile (\<lambda>c. \<not> P c) s of [] \<Rightarrow> None | c # cs \<Rightarrow> Some (takeWhile P (c # cs)))"

text \<open>Reading an array out of range gives \<open>undefined\<close>.\<close>

definition elemAt :: "'a list \<Rightarrow> nat \<Rightarrow> 'a option" where
  "elemAt xs i = (if i < length xs then Some (xs ! i) else None)"

text \<open>\<open>s || d\<close> on an optional string: a missing or empty string is falsy.\<close>

definition orElse :: "string option \<Rightarrow> string \<Rightarrow> string" where
  "orElse s d = (case s of None \<Rightarrow> d | Some v \<Rightarrow> if v = [] then d else v)"

text \<open>Decimal rendering of an integer, as a template literal prints it.\<close>

function digitsOf :: "nat \<Rightarrow> string" where
  "digitsOf n = (if n < 10 then [''0123456789'' ! n]
                 else digitsOf (n div 10) @ [''0123456789'' ! (n mod 10)])"
  by pat_completeness auto
termination
  by (relation "measure id") auto

declare digitsOf.simps [simp del]

definition numberToString :: "int \<Rightarrow> string" where
  "numberToString n = (if n < 0 then ''-'' @ digitsOf (nat (- n)) else digitsOf (nat n))"

subsection \<open>Upstream exchanges\<close>

text \<open>
  An HTTP exchange with an upstream source: after \<open>latency\<close> milliseconds it would
  settle, by itself, with \<open>outcome\<close> (the \<open>fetch\<close> rejects, or it fulfils with a
  response whose body parses or does not).
\<close>

record 'j Response =
  ok :: bool
  status :: nat
  statusText :: string
  json :: "error + 'j"

record 'j Exchange =
  latency :: nat
  outcome :: "error + 'j Response"

text \<open>
  \<open>fetch(url)\<close> with no abort signal, followed by the \<open>response.ok\<close> check and
  \<open>response.json()\<close>, as the surf and events adapters do: it settles when the upstream
  does.  The result is the settling time and what the promise settles with.
\<close>

definition fetchJson :: "'j Exchange \<Rightarrow> string \<Rightarrow> nat \<times> (error + 'j)" where
  "fetchJson x msg =
     (latency x,
      case outcome x of
        Inl e \<Rightarrow> Inl e
      | Inr response \<Rightarrow>
          if \<not> ok response then Inl (Error (msg @ '': '' @ numberToString (int (status response))))
          else json response)"

section \<open>Weather service\<close>

subsection \<open>Cache\<close>

record 'a Stamped =
  data :: 'a
  timestamp :: int

record 'a CacheEntry = "'a Stamped" +
  ttl :: int

type_synonym 'a Cache = "string \<Rightarrow> 'a CacheEntry option"

definition Cache_set :: "'a Cache \<Rightarrow> int \<Rightarrow> string \<Rightarrow> 'a \<Rightarrow> int \<Rightarrow> 'a Cache" where
  "Cache_set cache now key d ttlMinutes =
     cache(key \<mapsto> \<lparr>data = d, timestamp = now, ttl = ttlMinutes * 60 * 1000\<rparr>)"

definition Cache_get :: "'a Cache \<Rightarrow> int \<Rightarrow> string \<Rightarrow> 'a option \<times> 'a Cache" where
  "Cache_get cache now key =
     (case cache key of
        None \<Rightarrow> (None, cache)
      | Some entry \<Rightarrow>
          if now - timestamp entry > ttl entry then (None, cache(key := None))
          else (Some (data entry), cache))"

definition Cache_clear :: "'a Cache \<Rightarrow> 'a Cache" where
  "Cache_clear cache = Map.empty"

subsection \<open>Domain types\<close>

datatype Island = oahu | maui | hawaii | kauai | molokai | lanai

fun islandName :: "Island \<Rightarrow> string" where
  "islandName oahu = ''oahu''"
| "islandName maui = ''maui''"
| "islandName hawaii = ''hawaii''"
| "islandName kauai = ''kauai''"
| "islandName molokai = ''molokai''"
| "islandName lanai = ''lanai''"

record DailyForecast =
  date :: string
  high :: number
  low :: number
  conditions :: string
  icon :: string
  precipitationChance :: rat
  windSpeed :: rat
  windDirection :: string

record CurrentConditions =
  cur_temperature :: rat
  feelsLike :: rat
  humidity :: rat
  cur_windSpeed :: rat
  cur_windDirection :: string
  cur_conditions :: string
  cur_icon :: string
  uvIndex :: rat
  visibility :: rat

record Forecast =
  today :: DailyForecast
  tomorrow :: DailyForecast
  extended :: "DailyForecast list"

datatype Severity = minor | moderate | severe | extreme

record WeatherAlert =
  alert_id :: string
  alert_title :: string
  alert_description :: string
  severity :: Severity
  alert_startTime :: string
  alert_endTime :: string
  areas :: "string list"

record WeatherData =
  current :: CurrentConditions
  forecast :: Forecast
  alerts :: "WeatherAlert list"
  lastUpdated :: string

text \<open>
  The parts of the NOAA documents that the code reads.  A forecast period is untyped
  in the code: its temperature is a number or is missing (or not numeric), and so is
  its unit.
\<close>

record Period =
  temperature :: number
  temperatureUnit :: "string option"
  startTime :: "string option"
  shortForecast :: "string option"
  detailedForecast :: "string option"
  windSpeedText :: "string option"
  windDirectionText :: "string option"

record PointProperties =
  gridId :: string
  gridX :: int
  gridY :: int
  forecastUrl :: string

record PointsData =
  properties :: "PointProperties option"

record ForecastData =
  periods :: "Period list option"

record Coordinates =
  lat :: rat
  lon :: rat
  name :: string

definition ISLAND_COORDINATES :: "Island \<Rightarrow> Coordinates option" where
  "ISLAND_COORDINATES island = map_of
     [(oahu, \<lparr>lat = 214389 / 10000, lon = - 1580001 / 10000, name = ''O'ahu''\<rparr>),
      (maui, \<lparr>lat = 207984 / 10000, lon = - 1563319 / 10000, name = ''Maui''\<rparr>),
      (hawaii, \<lparr>lat = 195429 / 10000, lon = - 1556659 / 10000, name = ''Big Island''\<rparr>),
      (kauai, \<lparr>lat = 220964 / 10000, lon = - 1595261 / 10000, name = ''Kaua'i''\<rparr>),
      (molokai, \<lparr>lat = 211444 / 10000, lon = - 1570226 / 10000, name = ''Moloka'i''\<rparr>),
      (lanai, \<lparr>lat = 207984 / 10000, lon = - 1569292 / 10000, name = ''Lana'i''\<rparr>)] island"

subsection \<open>Fetching with a deadline\<close>

text \<open>
  \<open>fetchWithTimeout\<close>: the abort timer fires after \<open>timeoutMs\<close>; an exchange that has
  not settled by then is aborted and the promise rejects with an AbortError.
\<close>

definition fetchWithTimeout :: "'j Exchange \<Rightarrow> nat \<Rightarrow> nat \<times> (error + 'j)" where
  "fetchWithTimeout x timeoutMs =
     (if latency x < timeoutMs then
        (latency x,
         case outcome x of
           Inl e \<Rightarrow> Inl e
         | Inr response \<Rightarrow>
             if \<not> ok response
             then Inl (Error (''HTTP '' @ numberToString (int (status response)) @ '': ''
                               @ statusText response))
             else json response)
      else (timeoutMs, Inl AbortError))"

subsection \<open>Parsing the forecast\<close>

definition extractTemperature :: "number \<Rightarrow> string option \<Rightarrow> number" where
  "extractTemperature temp unit =
     (if unit = Some ''F'' then temp
      else map_option (\<lambda>t. Math_round ((t * 9 / 5) + 32)) temp)"

definition extractPrecipitation :: "string option \<Rightarrow> rat" where
  "extractPrecipitation text =
     (case text of None \<Rightarrow> 20
      | Some s \<Rightarrow> (case matchPercent [] s of Some m \<Rightarrow> parseInt m | None \<Rightarrow> 20))"

definition extractWindSpeed :: "string option \<Rightarrow> rat" where
  "extractWindSpeed windText =
     (case windText of None \<Rightarrow> 10
      | Some s \<Rightarrow> (case matchRun isDigit s of Some m \<Rightarrow> parseInt m | None \<Rightarrow> 10))"

definition extractWindDirection :: "string option \<Rightarrow> string" where
  "extractWindDirection windText =
     (case windText of None \<Rightarrow> ''E''
      | Some s \<Rightarrow> (case matchRun (\<lambda>c. c \<in> set ''NSEW'') s of Some m \<Rightarrow> m | None \<Rightarrow> ''E''))"

definition getIconFromForecast :: "string option \<Rightarrow> string" where
  "getIconFromForecast fc =
     (let lower = (case fc of None \<Rightarrow> [] | Some s \<Rightarrow> toLowerCase s) in
      if str_includes lower ''sunny'' \<or> str_includes lower ''clear'' then ''sunny''
      else if str_includes lower ''rain'' \<or> str_includes lower ''shower'' then ''rain''
      else if str_includes lower ''cloud'' then ''partly-cloudy''
      else if str_includes lower ''storm'' then ''rain''
      else ''partly-cloudy'')"

definition getDefaultCurrent :: CurrentConditions where
  "getDefaultCurrent =
     \<lparr>cur_temperature = 82, feelsLike = 86, humidity = 68, cur_windSpeed = 12,
      cur_windDirection = ''NE'', cur_conditions = ''Partly Cloudy'',
      cur_icon = ''partly-cloudy'', uvIndex = 8, visibility = 10\<rparr>"

definition getDefaultForecastDay :: "Runtime \<Rightarrow> int \<Rightarrow> DailyForecast" where
  "getDefaultForecastDay rt now =
     \<lparr>date = toISOString rt now, high = Some 84, low = Some 74, conditions = ''Partly Cloudy'',
      icon = ''partly-cloudy'', precipitationChance = 20, windSpeed = 12,
      windDirection = ''NE''\<rparr>"

definition getDefaultForecast :: "Runtime \<Rightarrow> int \<Rightarrow> Forecast" where
  "getDefaultForecast rt now =
     (let today = getDefaultForecastDay rt now;
          tomorrow = today\<lparr>date := toISOString rt (now + 24 * 60 * 60 * 1000),
                           high := Some 83, low := Some 73\<rparr>;
          extended = [today\<lparr>date := toISOString rt (now + 2 * 24 * 60 * 60 * 1000),
                            high := Some 85, low := Some 75\<rparr>]
      in \<lparr>today = today, tomorrow = tomorrow, extended = extended\<rparr>)"

definition parseForecastPeriod ::
  "Runtime \<Rightarrow> int \<Rightarrow> Period option \<Rightarrow> Period option \<Rightarrow> DailyForecast" where
  "parseForecastPeriod rt now dayPeriod nightPeriod =
     (case dayPeriod of
        None \<Rightarrow> getDefaultForecastDay rt now
      | Some day \<Rightarrow>
          (let h = extractTemperature (temperature day) (temperatureUnit day);
               l = (case nightPeriod of
                      Some night \<Rightarrow> extractTemperature (temperature night) (temperatureUnit night)
                    | None \<Rightarrow> map_option (\<lambda>t. t - 10) h)
           in \<lparr>date = orElse (startTime day) (toISOString rt now),
               high = Math_max h l,
               low = Math_min h l,
               conditions = orElse (shortForecast day) ''Partly Cloudy'',
               icon = getIconFromForecast (shortForecast day),
               precipitationChance = extractPrecipitation (detailedForecast day),
               windSpeed = extractWindSpeed (windSpeedText day),
               windDirection = extractWindDirection (windDirectionText day)\<rparr>))"

text \<open>The loop \<open>for (let i = 4; i < Math.min(periods.length, 14); i += 2)\<close>.\<close>

function extendedFrom :: "Runtime \<Rightarrow> int \<Rightarrow> Period list \<Rightarrow> nat \<Rightarrow> DailyForecast list" where
  "extendedFrom rt now ps i =
     (if i < min (length ps) 14 then
        (case elemAt ps i of
           Some dayPeriod \<Rightarrow> parseForecastPeriod rt now (Some dayPeriod) (elemAt ps (i + 1))
                               # extendedFrom rt now ps (i + 2)
         | None \<Rightarrow> extendedFrom rt now ps (i + 2))
      else [])"
  by pat_completeness auto
termination
  by (relation "measure (\<lambda>(rt, now, ps, i). 14 - i)") auto

declare extendedFrom.simps [simp del]

definition parseForecast :: "Runtime \<Rightarrow> int \<Rightarrow> ForecastData \<Rightarrow> Forecast" where
  "parseForecast rt now forecastData =
     (let ps = (case periods forecastData of None \<Rightarrow> [] | Some l \<Rightarrow> l) in
      \<lparr>today = parseForecastPeriod rt now (elemAt ps 0) (elemAt ps 1),
       tomorrow = parseForecastPeriod rt now (elemAt ps 2) (elemAt ps 3),
       extended = extendedFrom rt now ps 4\<rparr>)"

subsection \<open>The NOAA adapter and the public operation\<close>

text \<open>
  The four exchanges of one weather fetch.  \<open>parseCurrentConditions\<close> (floating-point
  heat index and wind chill) and \<open>parseAlerts\<close> (random identifiers) are parameters:
  each maps the document it reads to the value it returns or the exception it raises.
\<close>

record ('g, 'a) NoaaUpstream =
  pointsExchange :: "PointsData Exchange"
  gridpointsExchange :: "'g Exchange"
  forecastExchange :: "ForecastData Exchange"
  alertsExchange :: "'a Exchange"

text \<open>\<open>r.status === 'fulfilled' ? r.value : null\<close> on a settled promise.\<close>

definition fulfilledValue :: "error + 'v \<Rightarrow> 'v option" where
  "fulfilledValue r = (case r of Inr v \<Rightarrow> Some v | Inl e \<Rightarrow> None)"

text \<open>
  \<open>fetchNOAAWeather\<close> with the time it takes: the grid-point lookup comes first, and the
  three fetches that follow run in parallel and are all awaited.  Every one of the four
  goes through \<open>fetchWithTimeout\<close> with its default of 10000 milliseconds.
\<close>

definition fetchNOAAWeather_timed ::
  "Runtime \<Rightarrow> ('g \<Rightarrow> error + CurrentConditions) \<Rightarrow> ('a \<Rightarrow> error + WeatherAlert list) \<Rightarrow>
   int \<Rightarrow> ('g, 'a) NoaaUpstream \<Rightarrow> nat \<times> (error + WeatherData)" where
  "fetchNOAAWeather_timed rt parseCurrentConditions parseAlerts t1 up =
     (case fetchWithTimeout (pointsExchange up) 10000 of
        (tp, Inl e) \<Rightarrow> (tp, Inl e)
      | (tp, Inr gridData) \<Rightarrow>
          (case properties gridData of
             None \<Rightarrow> (tp, Inl TypeError)
           | Some props \<Rightarrow>
               (let gridResponse = fetchWithTimeout (gridpointsExchange up) 10000;
                    forecastResponse = fetchWithTimeout (forecastExchange up) 10000;
                    alertsResponse = fetchWithTimeout (alertsExchange up) 10000;
                    gridData_result = fulfilledValue (snd gridResponse);
                    forecastData = fulfilledValue (snd forecastResponse);
                    alertsData = fulfilledValue (snd alertsResponse)
                in (tp + max (fst gridResponse) (max (fst forecastResponse) (fst alertsResponse)),
                    case (case gridData_result of
                            Some g \<Rightarrow> parseCurrentConditions g
                          | None \<Rightarrow> Inr getDefaultCurrent) of
                      Inl e \<Rightarrow> Inl e
                    | Inr cur \<Rightarrow>
                        (let fc = (case forecastData of
                                     Some f \<Rightarrow> parseForecast rt t1 f
                                   | None \<Rightarrow> getDefaultForecast rt t1)
                         in case (case alertsData of
                                    Some a \<Rightarrow> parseAlerts a
                                  | None \<Rightarrow> Inr []) of
                              Inl e \<Rightarrow> Inl e
                            | Inr al \<Rightarrow>
                                Inr \<lparr>current = cur, forecast = fc, alerts = al,
                                     lastUpdated = toISOString rt t1\<rparr>)))))"

text \<open>What the promise of \<open>fetchNOAAWeather\<close> settles with.\<close>

definition fetchNOAAWeather ::
  "Runtime \<Rightarrow> ('g \<Rightarrow> error + CurrentConditions) \<Rightarrow> ('a \<Rightarrow> error + WeatherAlert list) \<Rightarrow>
   int \<Rightarrow> ('g, 'a) NoaaUpstream \<Rightarrow> error + WeatherData" where
  "fetchNOAAWeather rt parseCurrentConditions parseAlerts t1 up =
     snd (fetchNOAAWeather_timed rt parseCurrentConditions parseAlerts t1 up)"

definition getFallbackWeatherData :: "Runtime \<Rightarrow> int \<Rightarrow> Island \<Rightarrow> WeatherData" where
  "getFallbackWeatherData rt now island =
     \<lparr>current = getDefaultCurrent, forecast = getDefaultForecast rt now, alerts = [],
      lastUpdated = toISOString rt now\<rparr>"

definition weatherCacheKey :: "Island \<Rightarrow> string" where
  "weatherCacheKey island = ''weather-'' @ islandName island"

text \<open>
  The \<open>try/catch\<close> of \<open>getWeatherData\<close>, entered after a cache miss; \<open>cache\<close> is the
  store as it is when the awaited fetch has settled, at time \<open>t1\<close>.
\<close>

definition getWeatherData_fetch ::
  "Runtime \<Rightarrow> ('g \<Rightarrow> error + CurrentConditions) \<Rightarrow> ('a \<Rightarrow> error + WeatherAlert list) \<Rightarrow>
   WeatherData Cache \<Rightarrow> int \<Rightarrow> Island \<Rightarrow> ('g, 'a) NoaaUpstream \<Rightarrow>
   (error + WeatherData) \<times> WeatherData Cache" where
  "getWeatherData_fetch rt parseCurrentConditions parseAlerts cache t1 island up =
     (case (case ISLAND_COORDINATES island of
              None \<Rightarrow> Inl (Error (''Invalid island: '' @ islandName island))
            | Some coords \<Rightarrow> fetchNOAAWeather rt parseCurrentConditions parseAlerts t1 up) of
        Inr weatherData \<Rightarrow>
          (Inr weatherData, Cache_set cache t1 (weatherCacheKey island) weatherData 15)
      | Inl e \<Rightarrow> (Inr (getFallbackWeatherData rt t1 island), cache))"

definition getWeatherData ::
  "Runtime \<Rightarrow> ('g \<Rightarrow> error + CurrentConditions) \<Rightarrow> ('a \<Rightarrow> error + WeatherAlert list) \<Rightarrow>
   WeatherData Cache \<Rightarrow> int \<Rightarrow> int \<Rightarrow> Island \<Rightarrow> ('g, 'a) NoaaUpstream \<Rightarrow>
   (error + WeatherData) \<times> WeatherData Cache" where
  "getWeatherData rt parseCurrentConditions parseAlerts cache t0 t1 island up =
     (case Cache_get cache t0 (weatherCacheKey island) of
        (Some cachedData, cache') \<Rightarrow> (Inr cachedData, cache')
      | (None, cache') \<Rightarrow>
          getWeatherData_fetch rt parseCurrentConditions parseAlerts cache' t1 island up)"

section \<open>Surf service\<close>

text \<open>
  The inline caches of the surf, news and events services: a map from the key to the
  data and the time it was stored.  Nothing ever deletes one entry; \<open>set\<close> overwrites
  and \<open>clearCache\<close> empties the map.
\<close>

type_synonym 'a TimedCache = "string \<Rightarrow> 'a Stamped option"

definition clearCache :: "'a TimedCache \<Rightarrow> 'a TimedCache" where
  "clearCache cache = Map.empty"

text \<open>\<open>x || d\<close> on a number: zero (or a missing field, read as zero) is falsy.\<close>

definition orNum :: "rat \<Rightarrow> rat \<Rightarrow> rat" where
  "orNum x d = (if x = 0 then d else x)"

text \<open>\<open>xs.slice(0, limit)\<close>; a negative limit counts from the end.\<close>

definition slice0 :: "'a list \<Rightarrow> int \<Rightarrow> 'a list" where
  "slice0 xs limit =
     (if 0 \<le> limit then take (nat limit) xs else take (length xs - nat (- limit)) xs)"

text \<open>
  \<open>xs.sort(compare)\<close>: the comparator returns a number, negative when its first
  argument goes first.  The sort is stable; it is modelled as the stable insertion
  sort, which is what the language prescribes for a consistent comparator.
\<close>

fun insertBy :: "('a \<Rightarrow> 'a \<Rightarrow> rat) \<Rightarrow> 'a \<Rightarrow> 'a list \<Rightarrow> 'a list" where
  "insertBy compare x [] = [x]"
| "insertBy compare x (y # ys) =
     (if compare x y \<le> 0 then x # y # ys else y # insertBy compare x ys)"

definition sortBy :: "('a \<Rightarrow> 'a \<Rightarrow> rat) \<Rightarrow> 'a list \<Rightarrow> 'a list" where
  "sortBy compare xs = foldr (insertBy compare) xs []"

text \<open>A \<open>map\<close> whose callback may raise stops at the first exception.\<close>

fun mapE :: "('a \<Rightarrow> error + 'b) \<Rightarrow> 'a list \<Rightarrow> error + 'b list" where
  "mapE f [] = Inr []"
| "mapE f (x # xs) =
     (case f x of
        Inl e \<Rightarrow> Inl e
      | Inr y \<Rightarrow> (case mapE f xs of Inl e \<Rightarrow> Inl e | Inr ys \<Rightarrow> Inr (y # ys)))"

datatype Quality = poor | fair | good | excellent

datatype WaveUnit = ft | metres

record WaveHeight =
  wh_min :: rat
  wh_max :: rat
  unit :: WaveUnit

record SurfConditions =
  waveHeight :: WaveHeight
  period :: rat
  direction :: rat
  quality :: Quality

record SurfForecast = SurfConditions +
  forecastDate :: string

record SpotLocation =
  loc_island :: Island
  coordinates :: "rat \<times> rat"

record SurfSpot =
  surf_id :: string
  surf_name :: string
  location :: SpotLocation
  surf_current :: SurfConditions
  surf_forecast :: "SurfForecast list"

datatype TideType = highTide | lowTide

record TideEvent =
  tide_time :: string
  tide_type :: TideType
  tide_height :: rat

record TideData =
  tide_island :: Island
  tides :: "TideEvent list"

record SurfData =
  spots :: "SurfSpot list"
  surf_tides :: "TideData list"
  surf_lastUpdated :: string

record SurflineSpot =
  spot_id :: string
  spot_name :: string
  spot_lat :: rat
  spot_lon :: rat
  spot_island :: Island

text \<open>The parts of the Surfline and NOAA tide documents that the code reads.\<close>

record Swell =
  swell_height :: rat
  swell_period :: rat
  swell_direction :: rat

record Surf =
  surf_min :: rat
  surf_max :: rat

record Wave =
  wave_timestamp :: int
  surf :: "Surf option"
  swells :: "Swell list option"

record SurflineBody =
  wave :: "Wave list option"

record SurflineResponse =
  sl_data :: "SurflineBody option"

record Prediction =
  pred_t :: string
  pred_v :: string
  pred_type :: string

record TideResponse =
  predictions :: "Prediction list option"

definition SURF_SPOTS :: "SurflineSpot list" where
  "SURF_SPOTS =
     [\<lparr>spot_id = ''5842041f4e65fad6a7708876'', spot_name = ''Pipeline'',
       spot_lat = 216611 / 10000, spot_lon = - 1580525 / 10000, spot_island = oahu\<rparr>,
      \<lparr>spot_id = ''5842041f4e65fad6a7708884'', spot_name = ''Sunset Beach'',
       spot_lat = 216783 / 10000, spot_lon = - 1580408 / 10000, spot_island = oahu\<rparr>,
      \<lparr>spot_id = ''5842041f4e65fad6a7708888'', spot_name = ''Waikiki'',
       spot_lat = 212661 / 10000, spot_lon = - 1578222 / 10000, spot_island = oahu\<rparr>,
      \<lparr>spot_id = ''5842041f4e65fad6a770887c'', spot_name = ''Ala Moana Bowls'',
       spot_lat = 212905 / 10000, spot_lon = - 1578444 / 10000, spot_island = oahu\<rparr>,
      \<lparr>spot_id = ''5842041f4e65fad6a7708879'', spot_name = ''Diamond Head'',
       spot_lat = 212620 / 10000, spot_lon = - 1578151 / 10000, spot_island = oahu\<rparr>,
      \<lparr>spot_id = ''5842041f4e65fad6a770888b'', spot_name = ''Makaha'',
       spot_lat = 214692 / 10000, spot_lon = - 1582197 / 10000, spot_island = oahu\<rparr>,
      \<lparr>spot_id = ''5842041f4e65fad6a77088a2'', spot_name = ''Ho'okipa'',
       spot_lat = 209333 / 10000, spot_lon = - 1563500 / 10000, spot_island = maui\<rparr>,
      \<lparr>spot_id = ''5842041f4e65fad6a77088a5'', spot_name = ''Honolua Bay'',
       spot_lat = 210158 / 10000, spot_lon = - 1566394 / 10000, spot_island = maui\<rparr>,
      \<lparr>spot_id = ''5842041f4e65fad6a77088a8'', spot_name = ''Lahaina'',
       spot_lat = 208783 / 10000, spot_lon = - 1566825 / 10000, spot_island = maui\<rparr>,
      \<lparr>spot_id = ''5842041f4e65fad6a77088ab'', spot_name = ''Kihei'',
       spot_lat = 207614 / 10000, spot_lon = - 1564497 / 10000, spot_island = maui\<rparr>,
      \<lparr>spot_id = ''5842041f4e65fad6a77088ae'', spot_name = ''Banyan's'',
       spot_lat = 196197 / 10000, spot_lon = - 1559969 / 10000, spot_island = hawaii\<rparr>,
      \<lparr>spot_id = ''5842041f4e65fad6a77088b1'', spot_name = ''Lyman's'',
       spot_lat = 197297 / 10000, spot_lon = - 1550897 / 10000, spot_island = hawaii\<rparr>,
      \<lparr>spot_id = ''5842041f4e65fad6a77088b4'', spot_name = ''Honoli'i'',
       spot_lat = 197736 / 10000, spot_lon = - 1550931 / 10000, spot_island = hawaii\<rparr>,
      \<lparr>spot_id = ''5842041f4e65fad6a77088b7'', spot_name = ''Hanalei Bay'',
       spot_lat = 222097 / 10000, spot_lon = - 1594997 / 10000, spot_island = kauai\<rparr>,
      \<lparr>spot_id = ''5842041f4e65fad6a77088ba'', spot_name = ''Poipu'',
       spot_lat = 218744 / 10000, spot_lon = - 1594653 / 10000, spot_island = kauai\<rparr>,
      \<lparr>spot_id = ''5842041f4e65fad6a77088bd'', spot_name = ''Pakala'',
       spot_lat = 219189 / 10000, spot_lon = - 1596467 / 10000, spot_island = kauai\<rparr>]"

definition TIDE_STATIONS :: "Island \<Rightarrow> string option" where
  "TIDE_STATIONS island = map_of
     [(oahu, ''1612340''), (maui, ''1615680''), (hawaii, ''1617760''),
      (kauai, ''1611400''), (molokai, ''1612480''), (lanai, ''1615680'')] island"

definition getFallbackSpotData :: "Runtime \<Rightarrow> int \<Rightarrow> SurflineSpot \<Rightarrow> SurfSpot" where
  "getFallbackSpotData rt now spot =
     \<lparr>surf_id = spot_id spot, surf_name = spot_name spot,
      location = \<lparr>loc_island = spot_island spot, coordinates = (spot_lat spot, spot_lon spot)\<rparr>,
      surf_current = \<lparr>waveHeight = \<lparr>wh_min = 2, wh_max = 4, unit = ft\<rparr>, period = 10,
                      direction = 315, quality = fair\<rparr>,
      surf_forecast = [\<lparr>waveHeight = \<lparr>wh_min = 2, wh_max = 4, unit = ft\<rparr>, period = 10,
                        direction = 315, quality = fair,
                        forecastDate = toISOString rt now\<rparr>]\<rparr>"

definition calculateAveragePeriod :: "Swell list option \<Rightarrow> rat" where
  "calculateAveragePeriod sw =
     (case sw of
        None \<Rightarrow> 10
      | Some ss \<Rightarrow>
          if length ss = 0 then 10
          else (let totalPeriod = foldl (\<lambda>sum swell. sum + orNum (swell_period swell) 10) 0 ss
                in Math_round (totalPeriod / of_nat (length ss))))"

definition calculateDominantDirection :: "Swell list option \<Rightarrow> rat" where
  "calculateDominantDirection sw =
     (case sw of
        None \<Rightarrow> 315
      | Some [] \<Rightarrow> 315
      | Some (s0 # ss) \<Rightarrow>
          (let dominantSwell =
                 foldl (\<lambda>mx swell. if orNum (swell_height swell) 0 > orNum (swell_height mx) 0
                                      then swell else mx) s0 (s0 # ss)
           in orNum (swell_direction dominantSwell) 315))"

definition assessWaveQuality :: "Wave \<Rightarrow> error + Quality" where
  "assessWaveQuality w =
     (case surf w of
        None \<Rightarrow> Inl TypeError
      | Some s \<Rightarrow>
          (let height = max (orNum (surf_min s) 0) (orNum (surf_max s) 0);
               hasSwells = (case swells w of None \<Rightarrow> False | Some ss \<Rightarrow> length ss > 0)
           in Inr (if \<not> hasSwells \<or> height < 1 then poor
                   else if height < 3 then fair
                   else if height < 6 then good
                   else excellent)))"

text \<open>The object literal built for the current wave and for each forecast wave.\<close>

definition waveConditions :: "Wave \<Rightarrow> error + SurfConditions" where
  "waveConditions w =
     (case surf w of
        None \<Rightarrow> Inl TypeError
      | Some s \<Rightarrow>
          (case assessWaveQuality w of
             Inl e \<Rightarrow> Inl e
           | Inr q \<Rightarrow>
               Inr \<lparr>waveHeight = \<lparr>wh_min = orNum (surf_min s) 2, wh_max = orNum (surf_max s) 4,
                                  unit = ft\<rparr>,
                    period = calculateAveragePeriod (swells w),
                    direction = calculateDominantDirection (swells w),
                    quality = q\<rparr>))"

definition waveForecast :: "Runtime \<Rightarrow> Wave \<Rightarrow> error + SurfForecast" where
  "waveForecast rt w =
     (case Date_toISOString rt (Some (wave_timestamp w * 1000)) of
        Inl e \<Rightarrow> Inl e
      | Inr d \<Rightarrow>
          (case waveConditions w of
             Inl e \<Rightarrow> Inl e
           | Inr c \<Rightarrow>
               Inr \<lparr>waveHeight = waveHeight c, period = period c, direction = direction c,
                    quality = quality c, forecastDate = d\<rparr>))"

text \<open>\<open>.filter((_, index) => index % 6 === 0)\<close>.\<close>

definition everySixth :: "'a list \<Rightarrow> 'a list" where
  "everySixth xs = map snd (filter (\<lambda>(index, x). index mod 6 = 0) (enumerate 0 xs))"

definition parseSurflineData ::
  "Runtime \<Rightarrow> int \<Rightarrow> SurflineSpot \<Rightarrow> SurflineResponse \<Rightarrow> error + SurfSpot" where
  "parseSurflineData rt now spot d =
     (case sl_data d of
        None \<Rightarrow> Inl TypeError
      | Some body \<Rightarrow>
          (let waveData = (case wave body of None \<Rightarrow> [] | Some ws \<Rightarrow> ws) in
           case elemAt waveData 0 of
             None \<Rightarrow> Inr (getFallbackSpotData rt now spot)
           | Some currentWave \<Rightarrow>
               (case waveConditions currentWave of
                  Inl e \<Rightarrow> Inl e
                | Inr cur \<Rightarrow>
                    (case mapE (waveForecast rt) (everySixth (slice0 waveData 120)) of
                       Inl e \<Rightarrow> Inl e
                     | Inr fc \<Rightarrow>
                         Inr \<lparr>surf_id = spot_id spot, surf_name = spot_name spot,
                              location = \<lparr>loc_island = spot_island spot,
                                          coordinates = (spot_lat spot, spot_lon spot)\<rparr>,
                              surf_current = cur, surf_forecast = fc\<rparr>))))"

text \<open>
  \<open>fetchSpotData\<close> calls \<open>fetch\<close> with no abort signal and catches every exception:
  the promise fulfils, when the upstream settles, with the parsed or the fallback spot.
\<close>

definition fetchSpotData ::
  "Runtime \<Rightarrow> int \<Rightarrow> SurflineSpot \<Rightarrow> SurflineResponse Exchange \<Rightarrow> nat \<times> (error + SurfSpot)" where
  "fetchSpotData rt now spot x =
     (let (t, r) = fetchJson x ''Surfline API error'' in
      (t, case (case r of Inl e \<Rightarrow> Inl e | Inr d \<Rightarrow> parseSurflineData rt now spot d) of
            Inr s \<Rightarrow> Inr s
          | Inl e \<Rightarrow> Inr (getFallbackSpotData rt now spot)))"

definition getFallbackTideData :: "Runtime \<Rightarrow> int \<Rightarrow> Island \<Rightarrow> TideData list" where
  "getFallbackTideData rt now island =
     [\<lparr>tide_island = island,
       tides = map (\<lambda>i. \<lparr>tide_time = toISOString rt (now + int i * 3 * 60 * 60 * 1000),
                          tide_type = (if i mod 2 = 0 then highTide else lowTide),
                          tide_height = (if i mod 2 = 0 then 21 / 10 + random rt i * (5 / 10)
                                         else 3 / 10 + random rt i * (4 / 10))\<rparr>)
                 [0..<8]\<rparr>]"

definition parseTideData :: "Runtime \<Rightarrow> int \<Rightarrow> Island \<Rightarrow> TideResponse \<Rightarrow> TideData list" where
  "parseTideData rt now island d =
     (case predictions d of
        None \<Rightarrow> getFallbackTideData rt now island
      | Some preds \<Rightarrow>
          [\<lparr>tide_island = island,
            tides = map (\<lambda>pred. \<lparr>tide_time = pred_t pred,
                                  tide_type = (if pred_type pred = ''H'' then highTide else lowTide),
                                  tide_height = parseFloat rt (pred_v pred)\<rparr>) preds\<rparr>])"

definition fetchTideData ::
  "Runtime \<Rightarrow> int \<Rightarrow> Island \<Rightarrow> TideResponse Exchange \<Rightarrow> nat \<times> (error + TideData list)" where
  "fetchTideData rt now island x =
     (case TIDE_STATIONS island of
        None \<Rightarrow> (0, Inr [])
      | Some stationId \<Rightarrow>
          (let (t, r) = fetchJson x ''NOAA API error'' in
           (t, case r of
                 Inr d \<Rightarrow> Inr (parseTideData rt now island d)
               | Inl e \<Rightarrow> Inr (getFallbackTideData rt now island))))"

definition getFallbackSurfData :: "Runtime \<Rightarrow> int \<Rightarrow> Island \<Rightarrow> SurfData" where
  "getFallbackSurfData rt now island =
     \<lparr>spots = map (getFallbackSpotData rt now)
                 (filter (\<lambda>spot. spot_island spot = island) SURF_SPOTS),
      surf_tides = getFallbackTideData rt now island,
      surf_lastUpdated = toISOString rt now\<rparr>"

record SurfUpstream =
  spotExchange :: "string \<Rightarrow> SurflineResponse Exchange"
  tideExchange :: "TideResponse Exchange"

definition surfCacheKey :: "Island \<Rightarrow> string" where
  "surfCacheKey island = ''surf-'' @ islandName island"

text \<open>
  The body of the \<open>try\<close> block of \<open>getSurfData\<close>, up to the building of \<open>surfData\<close>.
  The clock is read once: \<open>t1\<close> stands for the \<open>new Date()\<close> of the block and of the
  fallback records built inside the fetches it awaits.
\<close>

definition getSurfData_try :: "Runtime \<Rightarrow> int \<Rightarrow> Island \<Rightarrow> SurfUpstream \<Rightarrow> error + SurfData" where
  "getSurfData_try rt t1 island up =
     (let islandSpots = filter (\<lambda>spot. spot_island spot = island) SURF_SPOTS;
          spotResults = map (\<lambda>spot. snd (fetchSpotData rt t1 spot (spotExchange up (spot_id spot))))
                          islandSpots;
          fulfilledSpots = List.map_filter fulfilledValue spotResults
      in case snd (fetchTideData rt t1 island (tideExchange up)) of
           Inl e \<Rightarrow> Inl e
         | Inr tideData \<Rightarrow>
             Inr \<lparr>spots = fulfilledSpots, surf_tides = tideData,
                  surf_lastUpdated = toISOString rt t1\<rparr>)"

definition getSurfData_fetch ::
  "Runtime \<Rightarrow> SurfData TimedCache \<Rightarrow> int \<Rightarrow> Island \<Rightarrow> SurfUpstream \<Rightarrow>
   (error + SurfData) \<times> SurfData TimedCache" where
  "getSurfData_fetch rt cache t1 island up =
     (case getSurfData_try rt t1 island up of
        Inr surfData \<Rightarrow>
          (Inr surfData, cache(surfCacheKey island \<mapsto> \<lparr>data = surfData, timestamp = t1\<rparr>))
      | Inl e \<Rightarrow> (Inr (getFallbackSurfData rt t1 island), cache))"

definition getSurfData ::
  "Runtime \<Rightarrow> SurfData TimedCache \<Rightarrow> int \<Rightarrow> int \<Rightarrow> Island \<Rightarrow> SurfUpstream \<Rightarrow>
   (error + SurfData) \<times> SurfData TimedCache" where
  "getSurfData rt cache t0 t1 island up =
     (case cache (surfCacheKey island) of
        Some cached \<Rightarrow>
          if t0 - timestamp cached < 30 * 60 * 1000 then (Inr (data cached), cache)
          else getSurfData_fetch rt cache t1 island up
      | None \<Rightarrow> getSurfData_fetch rt cache t1 island up)"

text \<open>
  The ranking step of \<open>getTopSurfSpots\<close>: the comparator, the sort and the slice that
  are applied to the spots gathered from \<open>getSurfData\<close>.
\<close>

definition qualityScore :: "Quality \<Rightarrow> rat" where
  "qualityScore q = (case q of excellent \<Rightarrow> 4 | good \<Rightarrow> 3 | fair \<Rightarrow> 2 | poor \<Rightarrow> 1)"

definition spotScore :: "SurfSpot \<Rightarrow> rat" where
  "spotScore s = qualityScore (quality (surf_current s)) + wh_max (waveHeight (surf_current s))"

definition rankSurfSpots :: "SurfSpot list \<Rightarrow> int \<Rightarrow> SurfSpot list" where
  "rankSurfSpots allSpots limit =
     slice0 (sortBy (\<lambda>a b. spotScore b - spotScore a) allSpots) limit"

section \<open>Merging the results of several sources\<close>

text \<open>
  \<open>fetchAllFeeds\<close> and \<open>fetchFromAllSources\<close> run the same two nested \<open>forEach\<close> loops
  over the settled promises of the enabled sources, in configuration order: a record
  is pushed unless its key is already in the set of seen keys.  The loops are written
  once, over the key function.
\<close>

fun pushUnseen :: "('r \<Rightarrow> string) \<Rightarrow> 'r list \<Rightarrow> 'r list \<times> string set \<Rightarrow> 'r list \<times> string set" where
  "pushUnseen key [] st = st"
| "pushUnseen key (r # rs) (all, seen) =
     (if key r \<notin> seen then pushUnseen key rs (all @ [r], insert (key r) seen)
      else pushUnseen key rs (all, seen))"

fun mergeSettled ::
  "('r \<Rightarrow> string) \<Rightarrow> (error + 'r list) list \<Rightarrow> 'r list \<times> string set \<Rightarrow> 'r list \<times> string set" where
  "mergeSettled key [] st = st"
| "mergeSettled key (result # results) st =
     (case result of
        Inr v \<Rightarrow> mergeSettled key results (pushUnseen key v st)
      | Inl e \<Rightarrow> mergeSettled key results st)"

section \<open>News service\<close>

datatype NewsCategory =
  breaking | local | weather | traffic | business | sports | culture | environment

fun newsCategoryName :: "NewsCategory \<Rightarrow> string" where
  "newsCategoryName breaking = ''breaking''"
| "newsCategoryName local = ''local''"
| "newsCategoryName weather = ''weather''"
| "newsCategoryName traffic = ''traffic''"
| "newsCategoryName business = ''business''"
| "newsCategoryName sports = ''sports''"
| "newsCategoryName culture = ''culture''"
| "newsCategoryName environment = ''environment''"

record NewsPublisher =
  pub_name :: string
  logoUrl :: string
  domain :: string

record NewsArticle =
  article_id :: string
  title :: string
  summary :: string
  originalUrl :: string
  publisher :: NewsPublisher
  publishedAt :: string
  category :: NewsCategory
  imageUrl :: "string option"
  relevanceScore :: rat

record RSSFeed =
  url :: string
  feed_publisher :: NewsPublisher
  feed_category :: NewsCategory
  enabled :: bool

record AIResponse =
  ai_summary :: string
  ai_category :: NewsCategory
  ai_relevanceScore :: rat

record RSSItem =
  item_title :: "string option"
  link :: "string option"
  pubDate :: "string option"
  contentSnippet :: "string option"
  content :: "string option"

record RawArticle =
  raw_title :: string
  raw_originalUrl :: string
  raw_content :: string
  raw_publishedAt :: string
  raw_publisher :: NewsPublisher

definition RSS_FEEDS :: "RSSFeed list" where
  "RSS_FEEDS =
     [\<lparr>url = ''https://www.hawaiinewsnow.com/content/news/?format=rss'',
       feed_publisher = \<lparr>pub_name = ''Hawaii News Now'', logoUrl = ''/logos/hawaii-news-now.png'',
                         domain = ''hawaiinewsnow.com''\<rparr>,
       feed_category = local, enabled = True\<rparr>,
      \<lparr>url = ''https://www.khon2.com/feed/'',
       feed_publisher = \<lparr>pub_name = ''KHON2'', logoUrl = ''/logos/khon2.png'',
                         domain = ''khon2.com''\<rparr>,
       feed_category = local, enabled = True\<rparr>,
      \<lparr>url = ''https://www.kitv.com/news/?format=rss'',
       feed_publisher = \<lparr>pub_name = ''KITV4'', logoUrl = ''/logos/kitv.png'',
                         domain = ''kitv.com''\<rparr>,
       feed_category = local, enabled = True\<rparr>,
      \<lparr>url = ''https://www.staradvertiser.com/feed/'',
       feed_publisher = \<lparr>pub_name = ''Honolulu Star-Advertiser'',
                         logoUrl = ''/logos/star-advertiser.png'', domain = ''staradvertiser.com''\<rparr>,
       feed_category = local, enabled = True\<rparr>,
      \<lparr>url = ''https://www.civilbeat.org/feed/'',
       feed_publisher = \<lparr>pub_name = ''Honolulu Civil Beat'', logoUrl = ''/logos/civil-beat.png'',
                         domain = ''civilbeat.org''\<rparr>,
       feed_category = local, enabled = True\<rparr>]"

subsection \<open>Scoring and summarising an article\<close>

definition hawaiiKeywords :: "string list" where
  "hawaiiKeywords =
     [''hawaii'', ''hawaiian'', ''honolulu'', ''oahu'', ''maui'', ''kauai'', ''big island'',
      ''molokai'', ''lanai'', ''waikiki'', ''pearl harbor'', ''diamond head'', ''haleakala'',
      ''kilauea'', ''volcano'', ''aloha'', ''mahalo'', ''ohana'', ''poke'', ''spam musubi'',
      ''shave ice'', ''pipeline'', ''north shore'', ''south shore'', ''windward'', ''leeward'',
      ''heco'', ''hawaiian electric'', ''hart'', ''honolulu rail'', ''uh'',
      ''university of hawaii'']"

definition calculateRelevanceScore :: "string \<Rightarrow> string \<Rightarrow> rat" where
  "calculateRelevanceScore title' content' =
     (let text = toLowerCase (title' @ '' '' @ content');
          s1 = foldl (\<lambda>score keyword. if str_includes text keyword then score + 1 / 10 else score)
                 0 hawaiiKeywords;
          s2 = (if str_includes text ''local'' \<or> str_includes text ''island''
                   \<or> str_includes text ''state'' then s1 + 5 / 100 else s1);
          s3 = (if str_includes text ''resident'' \<or> str_includes text ''community''
                then s2 + 5 / 100 else s2);
          s4 = (if str_includes text ''today'' \<or> str_includes text ''yesterday''
                   \<or> str_includes text ''breaking'' then s3 + 1 / 10 else s3)
      in min s4 1)"

definition inferCategory :: "string \<Rightarrow> string \<Rightarrow> NewsCategory" where
  "inferCategory title' content' =
     (let text = toLowerCase (title' @ '' '' @ content') in
      if str_includes text ''breaking'' \<or> str_includes text ''urgent''
         \<or> str_includes text ''alert'' then breaking
      else if str_includes text ''weather'' \<or> str_includes text ''storm''
         \<or> str_includes text ''hurricane'' \<or> str_includes text ''rain'' then weather
      else if str_includes text ''traffic'' \<or> str_includes text ''highway''
         \<or> str_includes text ''freeway'' \<or> str_includes text ''construction'' then traffic
      else if str_includes text ''business'' \<or> str_includes text ''economy''
         \<or> str_includes text ''company'' \<or> str_includes text ''investment'' then business
      else if str_includes text ''sport'' \<or> str_includes text ''game''
         \<or> str_includes text ''team'' \<or> str_includes text ''championship'' then sports
      else if str_includes text ''culture'' \<or> str_includes text ''festival''
         \<or> str_includes text ''music'' \<or> str_includes text ''art'' then culture
      else if str_includes text ''environment'' \<or> str_includes text ''ocean''
         \<or> str_includes text ''coral'' \<or> str_includes text ''conservation'' then environment
      else local)"

fun splitOn :: "char \<Rightarrow> string \<Rightarrow> string list" where
  "splitOn sep [] = [[]]"
| "splitOn sep (c # cs) =
     (if c = sep then [] # splitOn sep cs
      else (case splitOn sep cs of w # ws \<Rightarrow> (c # w) # ws | [] \<Rightarrow> [[c]]))"

fun join :: "string \<Rightarrow> string list \<Rightarrow> string" where
  "join sep [] = []"
| "join sep [w] = w"
| "join sep (w # v # ws) = w @ sep @ join sep (v # ws)"

definition isSpace :: "char \<Rightarrow> bool" where
  "isSpace c = (c \<in> {CHR '' '', CHR 0x09, CHR 0x0A, CHR 0x0B, CHR 0x0C, CHR 0x0D})"

definition trim :: "string \<Rightarrow> string" where
  "trim s = rev (dropWhile isSpace (rev (dropWhile isSpace s)))"

definition generateMockSummary :: "string \<Rightarrow> string \<Rightarrow> string" where
  "generateMockSummary title' content' =
     (let sentences = filter (\<lambda>s. length (trim s) > 20) (splitOn CHR ''.'' content');
          firstSentences = join ''. '' (take 3 sentences);
          words = take 75 (splitOn CHR '' '' firstSentences)
      in join '' '' words @ (if length words = 75 then ''...'' else ''.''))"

definition mockAICall :: "string \<Rightarrow> string \<Rightarrow> AIResponse" where
  "mockAICall title' content' =
     \<lparr>ai_summary = generateMockSummary title' content',
      ai_category = inferCategory title' content',
      ai_relevanceScore = calculateRelevanceScore title' content'\<rparr>"

definition generateFallbackSummary :: "string \<Rightarrow> string \<Rightarrow> AIResponse" where
  "generateFallbackSummary title' content' =
     \<lparr>ai_summary = generateMockSummary title' content',
      ai_category = inferCategory title' content',
      ai_relevanceScore = calculateRelevanceScore title' content'\<rparr>"

text \<open>\<open>generateAISummary\<close>: the mock call raises nothing, so its handler is never entered.\<close>

definition generateAISummary :: "string \<Rightarrow> string \<Rightarrow> AIResponse" where
  "generateAISummary title' content' =
     (case (Inr (mockAICall title' content') :: error + AIResponse) of
        Inr mockResponse \<Rightarrow> mockResponse
      | Inl e \<Rightarrow> generateFallbackSummary title' content')"

definition isAlnum :: "char \<Rightarrow> bool" where
  "isAlnum c = (c \<in> set ''ABCDEFGHIJKLMNOPQRSTUVWXYZabcdefghijklmnopqrstuvwxyz0123456789'')"

definition generateArticleId :: "Runtime \<Rightarrow> string \<Rightarrow> string" where
  "generateArticleId rt u = take 16 (filter isAlnum (base64 rt u))"

definition extractImageUrl :: "Runtime \<Rightarrow> string \<Rightarrow> string option" where
  "extractImageUrl rt content' = matchImgSrc rt content'"

text \<open>
  \<open>processArticle\<close> returns \<open>null\<close> for an article of low relevance.  Nothing in its
  \<open>try\<close> block raises here, so its handler, which also returns \<open>null\<close>, is not entered.
\<close>

definition processArticle :: "Runtime \<Rightarrow> RawArticle \<Rightarrow> NewsArticle option" where
  "processArticle rt rawArticle =
     (let score = calculateRelevanceScore (raw_title rawArticle) (raw_content rawArticle) in
      if score < 3 / 10 then None
      else (let aiResponse = generateAISummary (raw_title rawArticle) (raw_content rawArticle) in
            Some \<lparr>article_id = generateArticleId rt (raw_originalUrl rawArticle),
                  title = raw_title rawArticle,
                  summary = ai_summary aiResponse,
                  originalUrl = raw_originalUrl rawArticle,
                  publisher = raw_publisher rawArticle,
                  publishedAt = raw_publishedAt rawArticle,
                  category = ai_category aiResponse,
                  imageUrl = extractImageUrl rt (raw_content rawArticle),
                  relevanceScore = max score (ai_relevanceScore aiResponse)\<rparr>))"

subsection \<open>Fetching the feeds\<close>

text \<open>The loop of \<open>fetchFeed\<close> over the first ten items; an exception leaves the loop.\<close>

fun feedItems :: "Runtime \<Rightarrow> int \<Rightarrow> RSSFeed \<Rightarrow> RSSItem list \<Rightarrow> error + NewsArticle list" where
  "feedItems rt now feed [] = Inr []"
| "feedItems rt now feed (item # items) =
     (if orElse (item_title item) [] = [] \<or> orElse (link item) [] = []
      then feedItems rt now feed items
      else
        (let publishDate = (if orElse (pubDate item) [] = [] then Some now
                            else parseDate rt (orElse (pubDate item) []))
         in if (case publishDate of
                  Some t \<Rightarrow> (of_int (now - t) :: rat) / (1000 * 60 * 60) > 48
                | None \<Rightarrow> False)
            then feedItems rt now feed items
            else
              (case Date_toISOString rt publishDate of
                 Inl e \<Rightarrow> Inl e
               | Inr isoDate \<Rightarrow>
                   (case processArticle rt
                           \<lparr>raw_title = orElse (item_title item) [],
                            raw_originalUrl = orElse (link item) [],
                            raw_content = orElse (contentSnippet item) (orElse (content item) []),
                            raw_publishedAt = isoDate,
                            raw_publisher = feed_publisher feed\<rparr> of
                      None \<Rightarrow> feedItems rt now feed items
                    | Some article \<Rightarrow>
                        (case feedItems rt now feed items of
                           Inl e \<Rightarrow> Inl e
                         | Inr articles \<Rightarrow> Inr (article # articles))))))"

text \<open>
  \<open>fetchFeed\<close>: \<open>rss\<close> is what \<open>rssParser.parseURL\<close> settles with for a feed address.
  The whole body is inside a \<open>try\<close> whose handler returns the empty list, so the promise
  always fulfils.
\<close>

definition fetchFeed ::
  "Runtime \<Rightarrow> int \<Rightarrow> (string \<Rightarrow> error + RSSItem list) \<Rightarrow> RSSFeed \<Rightarrow> error + NewsArticle list" where
  "fetchFeed rt now rss feed =
     (case (case rss (url feed) of
              Inl e \<Rightarrow> Inl e
            | Inr items \<Rightarrow> feedItems rt now feed (slice0 items 10)) of
        Inr articles \<Rightarrow> Inr articles
      | Inl e \<Rightarrow> Inr [])"

definition fetchAllFeeds ::
  "Runtime \<Rightarrow> int \<Rightarrow> RSSFeed list \<Rightarrow> (string \<Rightarrow> error + RSSItem list) \<Rightarrow> error + NewsArticle list" where
  "fetchAllFeeds rt now feeds rss =
     (let results = map (fetchFeed rt now rss) (filter enabled feeds)
      in Inr (fst (mergeSettled originalUrl results ([], {}))))"

definition getFallbackNews :: "Runtime \<Rightarrow> int \<Rightarrow> NewsArticle list" where
  "getFallbackNews rt now =
     [\<lparr>article_id = ''fallback-1'',
       title = ''Hawaii Today News Service Temporarily Unavailable'',
       summary = ''We are currently experiencing technical difficulties with our news feeds. Please check back shortly for the latest Hawaii news updates.'',
       originalUrl = ''#'',
       publisher = \<lparr>pub_name = ''Hawaii Today'', logoUrl = ''/logos/hawaii-today.png'',
                    domain = ''hawaiitoday.com''\<rparr>,
       publishedAt = toISOString rt now,
       category = local,
       imageUrl = None,
       relevanceScore = 5 / 10\<rparr>]"

subsection \<open>The public operation\<close>

definition newsCacheKey :: "NewsCategory option \<Rightarrow> int \<Rightarrow> string" where
  "newsCacheKey cat limit =
     ''news-'' @ (case cat of None \<Rightarrow> ''all'' | Some c \<Rightarrow> newsCategoryName c) @ ''-''
       @ numberToString limit"

text \<open>The comparator of \<open>getLatestNews\<close>; a difference with an invalid date is NaN, read as 0.\<close>

definition compareNews :: "Runtime \<Rightarrow> NewsArticle \<Rightarrow> NewsArticle \<Rightarrow> rat" where
  "compareNews rt a b =
     (let scoreA = orNum (relevanceScore a) 0; scoreB = orNum (relevanceScore b) 0 in
      if scoreA \<noteq> scoreB then scoreB - scoreA
      else (case (parseDate rt (publishedAt b), parseDate rt (publishedAt a)) of
              (Some tb, Some ta) \<Rightarrow> of_int (tb - ta)
            | _ \<Rightarrow> 0))"

text \<open>
  \<open>getLatestNews\<close> after a cache miss, given what the awaited \<open>fetchAllFeeds\<close> settled
  with: the rest of the \<open>try\<close> block when it fulfilled, the \<open>catch\<close> handler when it
  rejected.
\<close>

definition getLatestNews_settle ::
  "Runtime \<Rightarrow> NewsArticle list TimedCache \<Rightarrow> int \<Rightarrow> NewsCategory option \<Rightarrow> int \<Rightarrow>
   error + NewsArticle list \<Rightarrow> (error + NewsArticle list) \<times> NewsArticle list TimedCache" where
  "getLatestNews_settle rt cache t1 cat limit fetched =
     (case fetched of
        Inr articles \<Rightarrow>
          (let filteredArticles = (case cat of
                                     Some c \<Rightarrow> filter (\<lambda>article. category article = c) articles
                                   | None \<Rightarrow> articles);
               result = slice0 (sortBy (compareNews rt) filteredArticles) limit
           in (Inr result, cache(newsCacheKey cat limit \<mapsto> \<lparr>data = result, timestamp = t1\<rparr>)))
      | Inl e \<Rightarrow>
          (case cache (newsCacheKey cat limit) of
             Some cached \<Rightarrow> (Inr (data cached), cache)
           | None \<Rightarrow> (Inr (getFallbackNews rt t1), cache)))"

definition getLatestNews ::
  "Runtime \<Rightarrow> NewsArticle list TimedCache \<Rightarrow> RSSFeed list \<Rightarrow> int \<Rightarrow> int \<Rightarrow>
   NewsCategory option \<Rightarrow> int \<Rightarrow> (string \<Rightarrow> error + RSSItem list) \<Rightarrow>
   (error + NewsArticle list) \<times> NewsArticle list TimedCache" where
  "getLatestNews rt cache feeds t0 t1 cat limit rss =
     (case cache (newsCacheKey cat limit) of
        Some cached \<Rightarrow>
          if t0 - timestamp cached < 15 * 60 * 1000 then (Inr (data cached), cache)
          else getLatestNews_settle rt cache t1 cat limit (fetchAllFeeds rt t1 feeds rss)
      | None \<Rightarrow> getLatestNews_settle rt cache t1 cat limit (fetchAllFeeds rt t1 feeds rss))"

section \<open>Events service\<close>

datatype EventCategory =
  music | food | culture | outdoor | family | nightlife | art | sports | business | education

fun eventCategoryName :: "EventCategory \<Rightarrow> string" where
  "eventCategoryName music = ''music''"
| "eventCategoryName food = ''food''"
| "eventCategoryName EventCategory.culture = ''culture''"
| "eventCategoryName outdoor = ''outdoor''"
| "eventCategoryName family = ''family''"
| "eventCategoryName nightlife = ''nightlife''"
| "eventCategoryName art = ''art''"
| "eventCategoryName EventCategory.sports = ''sports''"
| "eventCategoryName EventCategory.business = ''business''"
| "eventCategoryName education = ''education''"

record EventLocation =
  loc_name :: string
  address :: string
  ev_island :: Island
  ev_coordinates :: "(rat \<times> rat) option"

record Price =
  free :: bool
  price_min :: "rat option"
  price_max :: "rat option"
  currency :: string

record EventData =
  ev_id :: string
  ev_title :: string
  description :: string
  startDate :: string
  endDate :: "string option"
  ev_location :: EventLocation
  ev_category :: EventCategory
  price :: Price
  organizer :: string
  ev_url :: "string option"
  ev_imageUrl :: "string option"
  tags :: "string list"

datatype SourceType = api | scraper | rssSource

record EventSource =
  src_name :: string
  src_type :: SourceType
  src_url :: string
  src_enabled :: bool
  apiKey :: "string option"
  src_categories :: "EventCategory list"

text \<open>The parts of the Eventbrite document that the code reads.\<close>

record EventbriteAddress =
  localized_address_display :: "string option"
  latitude :: string
  longitude :: string

record EventbriteVenue =
  venue_name :: "string option"
  venue_address :: "EventbriteAddress option"

record TicketPrice =
  major_value :: rat
  tp_currency :: "string option"

record EventbriteEvent =
  eb_id :: string
  eb_name_text :: "string option"
  eb_description_text :: "string option"
  eb_start_utc :: "string option"
  eb_end_utc :: "string option"
  venue :: "EventbriteVenue option"
  minimum_ticket_price :: "TicketPrice option"
  category_id :: string
  logo_url :: "string option"
  eb_url :: "string option"
  organizer_name :: "string option"

record EventbriteResponse =
  events :: "EventbriteEvent list option"

text \<open>
  The two API keys come from the process environment, so the configuration takes them
  as parameters.
\<close>

definition EVENT_SOURCES :: "string option \<Rightarrow> string option \<Rightarrow> EventSource list" where
  "EVENT_SOURCES eventbriteKey facebookToken =
     [\<lparr>src_name = ''Eventbrite Hawaii'', src_type = api,
       src_url = ''https://www.eventbriteapi.com/v3/events/search/'', src_enabled = True,
       apiKey = eventbriteKey,
       src_categories = [music, food, art, outdoor, family, EventCategory.business, education]\<rparr>,
      \<lparr>src_name = ''Facebook Events'', src_type = api,
       src_url = ''https://graph.facebook.com/v18.0/'', src_enabled = False,
       apiKey = facebookToken,
       src_categories = [music, food, EventCategory.culture, nightlife, art]\<rparr>,
      \<lparr>src_name = ''Hawaii Tourism Authority'', src_type = scraper,
       src_url = ''https://www.gohawaii.com/events'', src_enabled = True,
       apiKey = None,
       src_categories = [EventCategory.culture, outdoor, family, music]\<rparr>,
      \<lparr>src_name = ''Honolulu Magazine Events'', src_type = scraper,
       src_url = ''https://www.honolulumagazine.com/events/'', src_enabled = True,
       apiKey = None,
       src_categories = [food, nightlife, art, EventCategory.culture]\<rparr>]"

definition EVENTBRITE_CATEGORIES :: "string \<Rightarrow> EventCategory option" where
  "EVENTBRITE_CATEGORIES categoryId = map_of
     [(''103'', music), (''110'', food), (''105'', art), (''108'', outdoor), (''115'', family),
      (''101'', EventCategory.business), (''102'', education)] categoryId"

definition ISLAND_KEYWORDS :: "(Island \<times> string list) list" where
  "ISLAND_KEYWORDS =
     [(oahu, [''honolulu'', ''waikiki'', ''pearl city'', ''kaneohe'', ''kailua'', ''hawaii kai'',
              ''wahiawa'', ''laie'', ''haleiwa'', ''oahu'']),
      (maui, [''maui'', ''lahaina'', ''kihei'', ''wailea'', ''makawao'', ''hana'', ''kahului'',
              ''paia'', ''upcountry'']),
      (hawaii, [''big island'', ''hilo'', ''kona'', ''waimea'', ''volcano'', ''pahoa'',
                ''captain cook'', ''naalehu'', ''hawaii'']),
      (kauai, [''kauai'', ''lihue'', ''poipu'', ''princeville'', ''kapaa'', ''hanapepe'',
               ''waimea'', ''hanalei'']),
      (molokai, [''molokai'', ''kaunakakai'', ''halawa'']),
      (lanai, [''lanai'', ''lanai city''])]"

text \<open>\<open>new Date(t)\<close> for a number: a time value outside the range is an invalid date.\<close>

definition newDate :: "int \<Rightarrow> int option" where
  "newDate t = (if \<bar>t\<bar> \<le> 8640000000000000 then Some t else None)"

definition detectIsland :: "string \<Rightarrow> string \<Rightarrow> Island" where
  "detectIsland venueName addr =
     (let text = toLowerCase (venueName @ '' '' @ addr) in
      case find (\<lambda>(island, keywords). list_ex (\<lambda>keyword. str_includes text keyword) keywords)
             ISLAND_KEYWORDS of
        Some (island, keywords) \<Rightarrow> island
      | None \<Rightarrow> oahu)"

definition mapEventbriteCategory :: "string \<Rightarrow> EventCategory" where
  "mapEventbriteCategory categoryId =
     (case EVENTBRITE_CATEGORIES categoryId of Some c \<Rightarrow> c | None \<Rightarrow> EventCategory.culture)"

text \<open>
  \<open>parseEventbriteEvent\<close> reads \<open>event.name.text\<close> and \<open>event.start.utc\<close>.  Each of the
  two is one optional field of the record here: \<open>None\<close> is a document without the \<open>name\<close>
  (or \<open>start\<close>) object, on which the property access raises a \<open>TypeError\<close>, and a
  present object carries a string, as the Eventbrite document declares it.  The string
  of \<open>start.utc\<close> is stored as it arrives: whether it is a date is decided where it is
  parsed.
\<close>

definition parseEventbriteEvent :: "Runtime \<Rightarrow> EventbriteEvent \<Rightarrow> error + EventData" where
  "parseEventbriteEvent rt event =
     (let venueName = (case venue event of None \<Rightarrow> None | Some v \<Rightarrow> venue_name v);
          venueAddress = (case venue event of None \<Rightarrow> None | Some v \<Rightarrow> venue_address v);
          display = (case venueAddress of None \<Rightarrow> None | Some a \<Rightarrow> localized_address_display a);
          island = detectIsland (orElse venueName []) (orElse display []);
          cat = mapEventbriteCategory (category_id event)
      in case eb_name_text event of
           None \<Rightarrow> Inl TypeError
         | Some nameText \<Rightarrow>
             (case eb_start_utc event of
                None \<Rightarrow> Inl TypeError
              | Some startUtc \<Rightarrow>
                  Inr \<lparr>ev_id = ''eventbrite-'' @ eb_id event,
                       ev_title = nameText,
                       description = orElse (eb_description_text event) [],
                       startDate = startUtc,
                       endDate = eb_end_utc event,
                       ev_location =
                         \<lparr>loc_name = orElse venueName ''TBD'',
                          address = orElse display [],
                          ev_island = island,
                          ev_coordinates =
                            (case venueAddress of
                               None \<Rightarrow> None
                             | Some a \<Rightarrow> Some (parseFloat rt (latitude a),
                                                parseFloat rt (longitude a)))\<rparr>,
                       ev_category = cat,
                       price =
                         \<lparr>free = (minimum_ticket_price event = None),
                          price_min = (case minimum_ticket_price event of
                                         None \<Rightarrow> None | Some p \<Rightarrow> Some (major_value p)),
                          price_max = None,
                          currency = (case minimum_ticket_price event of
                                        None \<Rightarrow> ''USD'' | Some p \<Rightarrow> orElse (tp_currency p) ''USD'')\<rparr>,
                       organizer = orElse (organizer_name event) ''Unknown'',
                       ev_url = eb_url event,
                       ev_imageUrl = logo_url event,
                       tags = [eventCategoryName cat, islandName island]\<rparr>))"

definition parseEventbriteEvents :: "Runtime \<Rightarrow> EventbriteEvent list \<Rightarrow> error + EventData list" where
  "parseEventbriteEvents rt evs = mapE (parseEventbriteEvent rt) evs"

text \<open>
  \<open>fetchEventbriteEvents\<close> calls \<open>fetch\<close> with no abort signal; everything after the
  API-key check is inside a \<open>try\<close> whose handler returns the empty list.
\<close>

definition fetchEventbriteEvents ::
  "Runtime \<Rightarrow> int \<Rightarrow> EventSource \<Rightarrow> int \<Rightarrow> EventbriteResponse Exchange \<Rightarrow>
   nat \<times> (error + EventData list)" where
  "fetchEventbriteEvents rt now source daysAhead x =
     (if orElse (apiKey source) [] = [] then (0, Inr [])
      else
        (case Date_toISOString rt (newDate (now + daysAhead * 24 * 60 * 60 * 1000)) of
           Inl e \<Rightarrow> (0, Inr [])
         | Inr endDateIso \<Rightarrow>
             (let (t, r) = fetchJson x ''Eventbrite API error'' in
              (t, case (case r of
                          Inl e \<Rightarrow> Inl e
                        | Inr d \<Rightarrow> parseEventbriteEvents rt
                                     (case events d of None \<Rightarrow> [] | Some evs \<Rightarrow> evs)) of
                    Inr parsed \<Rightarrow> Inr parsed
                  | Inl e \<Rightarrow> Inr []))))"

definition fetchFacebookEvents :: "EventSource \<Rightarrow> int \<Rightarrow> error + EventData list" where
  "fetchFacebookEvents source daysAhead = Inr []"

definition scrapeHTAEvents :: "Runtime \<Rightarrow> int \<Rightarrow> int \<Rightarrow> error + EventData list" where
  "scrapeHTAEvents rt now daysAhead =
     (let mockEvents =
            [\<lparr>ev_id = ''hta-1'',
              ev_title = ''Honolulu Festival'',
              description = ''Annual celebration of Pacific Rim cultures featuring parades, performances, and cultural demonstrations.'',
              startDate = toISOString rt (now + 10 * 24 * 60 * 60 * 1000),
              endDate = Some (toISOString rt (now + 12 * 24 * 60 * 60 * 1000)),
              ev_location = \<lparr>loc_name = ''Waikiki Beach Walk'',
                             address = ''Waikiki Beach Walk, Honolulu, HI'',
                             ev_island = oahu, ev_coordinates = None\<rparr>,
              ev_category = EventCategory.culture,
              price = \<lparr>free = True, price_min = None, price_max = None, currency = ''USD''\<rparr>,
              organizer = ''Honolulu Festival Foundation'',
              ev_url = Some ''https://www.honolulufestival.com'',
              ev_imageUrl = None,
              tags = [''culture'', ''festival'', ''free'', ''family-friendly'']\<rparr>]
      in Inr (filter (\<lambda>event.
                 case (parseDate rt (startDate event),
                       newDate (now + daysAhead * 24 * 60 * 60 * 1000)) of
                   (Some eventDate, Some cutoffDate) \<Rightarrow> eventDate \<le> cutoffDate
                 | _ \<Rightarrow> False) mockEvents))"

definition scrapeHonoluluMagEvents :: "int \<Rightarrow> error + EventData list" where
  "scrapeHonoluluMagEvents daysAhead = Inr []"

definition fetchRSSEvents :: "EventSource \<Rightarrow> int \<Rightarrow> error + EventData list" where
  "fetchRSSEvents source daysAhead = Inr []"

definition scrapeEvents :: "Runtime \<Rightarrow> int \<Rightarrow> EventSource \<Rightarrow> int \<Rightarrow> error + EventData list" where
  "scrapeEvents rt now source daysAhead =
     (case (if src_name source = ''Hawaii Tourism Authority'' then scrapeHTAEvents rt now daysAhead
            else if src_name source = ''Honolulu Magazine Events''
              then scrapeHonoluluMagEvents daysAhead
            else Inr []) of
        Inr evs \<Rightarrow> Inr evs
      | Inl e \<Rightarrow> Inr [])"

definition fetchFromSource ::
  "Runtime \<Rightarrow> int \<Rightarrow> EventbriteResponse Exchange \<Rightarrow> int \<Rightarrow> EventSource \<Rightarrow>
   error + EventData list" where
  "fetchFromSource rt now x daysAhead source =
     (case (case src_type source of
              api \<Rightarrow>
                if src_name source = ''Eventbrite Hawaii''
                  then snd (fetchEventbriteEvents rt now source daysAhead x)
                else if src_name source = ''Facebook Events''
                  then fetchFacebookEvents source daysAhead
                else Inr []
            | scraper \<Rightarrow> scrapeEvents rt now source daysAhead
            | rssSource \<Rightarrow> fetchRSSEvents source daysAhead) of
        Inr evs \<Rightarrow> Inr evs
      | Inl e \<Rightarrow> Inr [])"

definition eventKey :: "EventData \<Rightarrow> string" where
  "eventKey event = ev_title event @ ''-'' @ startDate event @ ''-'' @ loc_name (ev_location event)"

definition fetchFromAllSources ::
  "Runtime \<Rightarrow> int \<Rightarrow> EventSource list \<Rightarrow> EventbriteResponse Exchange \<Rightarrow> int \<Rightarrow>
   error + EventData list" where
  "fetchFromAllSources rt now sources x daysAhead =
     (let results = map (fetchFromSource rt now x daysAhead) (filter src_enabled sources)
      in Inr (fst (mergeSettled eventKey results ([], {}))))"

definition filterEvents ::
  "Runtime \<Rightarrow> int \<Rightarrow> EventData list \<Rightarrow> Island option \<Rightarrow> EventCategory option \<Rightarrow> EventData list" where
  "filterEvents rt now evs island cat =
     filter (\<lambda>event.
        if (case island of Some i \<Rightarrow> ev_island (ev_location event) \<noteq> i | None \<Rightarrow> False) then False
        else if (case cat of Some c \<Rightarrow> ev_category event \<noteq> c | None \<Rightarrow> False) then False
        else if (case parseDate rt (startDate event) of Some eventDate \<Rightarrow> eventDate < now
                 | None \<Rightarrow> False) then False
        else True) evs"

definition getNextSaturday :: "Runtime \<Rightarrow> int \<Rightarrow> int" where
  "getNextSaturday rt now =
     (let daysUntilSaturday = (6 - int (getDay rt now) + 7) mod 7;
          nextSaturday = addDays rt now (if daysUntilSaturday = 0 then 7 else daysUntilSaturday)
      in setHours rt nextSaturday 8)"

definition getFallbackEvents :: "Runtime \<Rightarrow> int \<Rightarrow> Island option \<Rightarrow> EventData list" where
  "getFallbackEvents rt now island =
     (let defaultEvents =
            [\<lparr>ev_id = ''default-1'',
              ev_title = ''Weekly Farmers Market'',
              description = ''Fresh local produce, prepared foods, and artisan crafts from Hawaiian vendors.'',
              startDate = toISOString rt (getNextSaturday rt now),
              endDate = None,
              ev_location = \<lparr>loc_name = ''KCC Farmers Market'',
                             address = ''Kapiolani Community College, Honolulu'',
                             ev_island = oahu, ev_coordinates = None\<rparr>,
              ev_category = food,
              price = \<lparr>free = True, price_min = None, price_max = None, currency = ''USD''\<rparr>,
              organizer = ''KCC'',
              ev_url = None,
              ev_imageUrl = None,
              tags = [''food'', ''market'', ''local'', ''weekly'']\<rparr>]
      in case island of
           Some i \<Rightarrow> filter (\<lambda>event. ev_island (ev_location event) = i) defaultEvents
         | None \<Rightarrow> defaultEvents)"

definition eventsCacheKey :: "Island option \<Rightarrow> EventCategory option \<Rightarrow> int \<Rightarrow> int \<Rightarrow> string" where
  "eventsCacheKey island cat daysAhead limit =
     ''events-'' @ (case island of None \<Rightarrow> ''all'' | Some i \<Rightarrow> islandName i) @ ''-''
       @ (case cat of None \<Rightarrow> ''all'' | Some c \<Rightarrow> eventCategoryName c) @ ''-''
       @ numberToString daysAhead @ ''-'' @ numberToString limit"

text \<open>The comparator of \<open>getEvents\<close>: the difference of the two start times.\<close>

definition compareEvents :: "Runtime \<Rightarrow> EventData \<Rightarrow> EventData \<Rightarrow> rat" where
  "compareEvents rt a b =
     (case (parseDate rt (startDate a), parseDate rt (startDate b)) of
        (Some dateA, Some dateB) \<Rightarrow> of_int (dateA - dateB)
      | _ \<Rightarrow> 0)"

text \<open>
  \<open>getEvents\<close> after a cache miss, given what the awaited \<open>fetchFromAllSources\<close>
  settled with: the rest of the \<open>try\<close> block, or the \<open>catch\<close> handler.
\<close>

definition getEvents_settle ::
  "Runtime \<Rightarrow> EventData list TimedCache \<Rightarrow> int \<Rightarrow> Island option \<Rightarrow> EventCategory option \<Rightarrow>
   int \<Rightarrow> int \<Rightarrow> error + EventData list \<Rightarrow> (error + EventData list) \<times> EventData list TimedCache" where
  "getEvents_settle rt cache t1 island cat daysAhead limit fetched =
     (case fetched of
        Inr allEvents \<Rightarrow>
          (let filteredEvents = filterEvents rt t1 allEvents island cat;
               result = slice0 (sortBy (compareEvents rt) filteredEvents) limit
           in (Inr result,
               cache(eventsCacheKey island cat daysAhead limit \<mapsto> \<lparr>data = result, timestamp = t1\<rparr>)))
      | Inl e \<Rightarrow>
          (case cache (eventsCacheKey island cat daysAhead limit) of
             Some cached \<Rightarrow> (Inr (data cached), cache)
           | None \<Rightarrow> (Inr (getFallbackEvents rt t1 island), cache)))"

definition getEvents ::
  "Runtime \<Rightarrow> EventData list TimedCache \<Rightarrow> EventSource list \<Rightarrow> int \<Rightarrow> int \<Rightarrow> Island option \<Rightarrow>
   EventCategory option \<Rightarrow> int \<Rightarrow> int \<Rightarrow> EventbriteResponse Exchange \<Rightarrow>
   (error + EventData list) \<times> EventData list TimedCache" where
  "getEvents rt cache sources t0 t1 island cat daysAhead limit x =
     (case cache (eventsCacheKey island cat daysAhead limit) of
        Some cached \<Rightarrow>
          if t0 - timestamp cached < 60 * 60 * 1000 then (Inr (data cached), cache)
          else getEvents_settle rt cache t1 island cat daysAhead limit
                 (fetchFromAllSources rt t1 sources x daysAhead)
      | None \<Rightarrow> getEvents_settle rt cache t1 island cat daysAhead limit
                  (fetchFromAllSources rt t1 sources x daysAhead))"

subsection \<open>Scoring events\<close>

text \<open>\<open>calculateEventScore\<close> reads the clock: \<open>now\<close> is the value of \<open>Date.now()\<close>.\<close>

definition calculateEventScore :: "Runtime \<Rightarrow> int \<Rightarrow> EventData \<Rightarrow> rat" where
  "calculateEventScore rt now event =
     (let s1 = (if free (price event) then 2 else 0);
          s2 = (if ev_category event \<in> set [music, food, EventCategory.culture] then s1 + 1 else s1);
          s3 = (if orElse (ev_imageUrl event) [] \<noteq> [] then s2 + 1 else s2);
          eventDate = parseDate rt (startDate event);
          s4 = (case eventDate of
                  Some t \<Rightarrow> if getDay rt t = 0 \<or> getDay rt t = 6 then s3 + 1 else s3
                | None \<Rightarrow> s3);
          s5 = (case eventDate of
                  Some t \<Rightarrow> if (of_int (t - now) :: rat) / (1000 * 60 * 60) \<le> 72 then s4 + 2 else s4
                | None \<Rightarrow> s4)
      in s5)"

definition getFeaturedEvents ::
  "Runtime \<Rightarrow> EventData list TimedCache \<Rightarrow> EventSource list \<Rightarrow> int \<Rightarrow> int \<Rightarrow> int \<Rightarrow>
   EventbriteResponse Exchange \<Rightarrow> (error + EventData list) \<times> EventData list TimedCache" where
  "getFeaturedEvents rt cache sources t0 t1 limit x =
     (case getEvents rt cache sources t0 t1 None None 14 100 x of
        (Inr allEvents, cache') \<Rightarrow>
          (let scoredEvents = map (\<lambda>event. (event, calculateEventScore rt t1 event)) allEvents
           in (Inr (map fst (slice0 (sortBy (\<lambda>a b. snd b - snd a) scoredEvents) limit)), cache'))
      | (Inl e, cache') \<Rightarrow> (Inr [], cache'))"

section \<open>Interleaved calls\<close>

text \<open>
  An \<open>async\<close> function runs without interruption up to its first pending \<open>await\<close>
  and again from the settling of the awaited promise to the next one.  A getter
  therefore takes two steps on the shared store: \<open>Invoke\<close>, the cache check, which either
  returns the cached value or starts the fan-out to the upstream sources and suspends;
  and \<open>Settle\<close>, the rest of the body, run on the store as it is by then.  Steps of
  different calls interleave in any order.  The state is the store and the log of
  fan-outs started, one cache key per fan-out.
\<close>

datatype ('g, 'a) WeatherStep =
  InvokeWeather Island int
| SettleWeather Island int "('g, 'a) NoaaUpstream"

definition weatherStep ::
  "Runtime \<Rightarrow> ('g \<Rightarrow> error + CurrentConditions) \<Rightarrow> ('a \<Rightarrow> error + WeatherAlert list) \<Rightarrow>
   WeatherData Cache \<times> string list \<Rightarrow> ('g, 'a) WeatherStep \<Rightarrow> WeatherData Cache \<times> string list" where
  "weatherStep rt parseCurrentConditions parseAlerts st step =
     (case st of (cache, fanouts) \<Rightarrow>
        (case step of
           InvokeWeather island t0 \<Rightarrow>
             (case Cache_get cache t0 (weatherCacheKey island) of
                (Some cachedData, cache') \<Rightarrow> (cache', fanouts)
              | (None, cache') \<Rightarrow> (cache', fanouts @ [weatherCacheKey island]))
         | SettleWeather island t1 up \<Rightarrow>
             (snd (getWeatherData_fetch rt parseCurrentConditions parseAlerts cache t1 island up),
              fanouts)))"

datatype EventsStep =
  InvokeEvents "Island option" "EventCategory option" int int int
| SettleEvents "Island option" "EventCategory option" int int int "EventbriteResponse Exchange"

definition eventsStep ::
  "Runtime \<Rightarrow> EventSource list \<Rightarrow> EventData list TimedCache \<times> string list \<Rightarrow> EventsStep \<Rightarrow>
   EventData list TimedCache \<times> string list" where
  "eventsStep rt sources st step =
     (case st of (cache, fanouts) \<Rightarrow>
        (case step of
           InvokeEvents island cat daysAhead limit t0 \<Rightarrow>
             (case cache (eventsCacheKey island cat daysAhead limit) of
                Some cached \<Rightarrow>
                  if t0 - timestamp cached < 60 * 60 * 1000 then (cache, fanouts)
                  else (cache, fanouts @ [eventsCacheKey island cat daysAhead limit])
              | None \<Rightarrow> (cache, fanouts @ [eventsCacheKey island cat daysAhead limit]))
         | SettleEvents island cat daysAhead limit t1 x \<Rightarrow>
             (snd (getEvents_settle rt cache t1 island cat daysAhead limit
                     (fetchFromAllSources rt t1 sources x daysAhead)),
              fanouts)))"

section \<open>Reference notions and concrete inputs\<close>

text \<open>
  The records of the fulfilled results, flattened in source order: what the merge
  loop reads, before duplicates are dropped.
\<close>

definition flattenFulfilled :: "(error + 'r list) list \<Rightarrow> 'r list" where
  "flattenFulfilled results = concat (map (\<lambda>r. case r of Inr v \<Rightarrow> v | Inl e \<Rightarrow> []) results)"

text \<open>
  A small runtime for evaluating the functions on concrete inputs: four date strings
  parse (to 100 hours, 176 hours, 200 hours and 10 days after the epoch), these four
  time values are printed as their date strings and every other one as the epoch, and
  every time value is a Wednesday.
\<close>

definition testRuntime :: Runtime where
  "testRuntime =
     \<lparr>toISOString = (\<lambda>t. if t = 360000000 then ''1970-01-05T04:00:00.000Z''
                          else if t = 633600000 then ''1970-01-08T08:00:00.000Z''
                          else if t = 720000000 then ''1970-01-09T08:00:00.000Z''
                          else if t = 864000000 then ''1970-01-11T00:00:00.000Z''
                          else ''1970-01-01T00:00:00.000Z''),
      parseDate = map_of [(''1970-01-05T04:00:00.000Z'', 360000000),
                          (''1970-01-08T08:00:00.000Z'', 633600000),
                          (''1970-01-09T08:00:00.000Z'', 720000000),
                          (''1970-01-11T00:00:00.000Z'', 864000000)],
      getDay = (\<lambda>t. 3),
      addDays = (\<lambda>t k. t + k * 86400000),
      setHours = (\<lambda>t h. t),
      parseFloat = (\<lambda>s. 0),
      base64 = (\<lambda>s. s),
      random = (\<lambda>i. 0),
      matchImgSrc = (\<lambda>s. None)\<rparr>"

definition failingExchange :: "'j Exchange" where
  "failingExchange = \<lparr>latency = 50, outcome = Inl (Error ''ECONNREFUSED'')\<rparr>"

definition slowExchange :: "'j Exchange" where
  "slowExchange = \<lparr>latency = 60000, outcome = Inl (Error ''ECONNRESET'')\<rparr>"

definition failingNoaa :: "(unit, unit) NoaaUpstream" where
  "failingNoaa =
     \<lparr>pointsExchange = failingExchange, gridpointsExchange = failingExchange,
      forecastExchange = failingExchange, alertsExchange = failingExchange\<rparr>"

definition slowPointsNoaa :: "(unit, unit) NoaaUpstream" where
  "slowPointsNoaa =
     \<lparr>pointsExchange = slowExchange, gridpointsExchange = failingExchange,
      forecastExchange = failingExchange, alertsExchange = failingExchange\<rparr>"

definition slowForecastNoaa :: "(unit, unit) NoaaUpstream" where
  "slowForecastNoaa =
     \<lparr>pointsExchange =
        \<lparr>latency = 300,
         outcome = Inr \<lparr>ok = True, status = 200, statusText = ''OK'',
                        json = Inr \<lparr>properties = Some \<lparr>gridId = ''HFO'', gridX = 153, gridY = 144,
                                                         forecastUrl = ''https://api.weather.gov/gridpoints/HFO/153,144/forecast''\<rparr>\<rparr>\<rparr>\<rparr>,
      gridpointsExchange = failingExchange,
      forecastExchange = slowExchange,
      alertsExchange = failingExchange\<rparr>"

definition warmDay :: Period where
  "warmDay =
     \<lparr>temperature = Some 68, temperatureUnit = Some ''F'', startTime = None,
      shortForecast = Some ''Sunny'', detailedForecast = None, windSpeedText = None,
      windDirectionText = None\<rparr>"

definition warmerNight :: Period where
  "warmerNight =
     \<lparr>temperature = Some 75, temperatureUnit = Some ''F'', startTime = None,
      shortForecast = None, detailedForecast = None, windSpeedText = None,
      windDirectionText = None\<rparr>"

definition emptyNight :: Period where
  "emptyNight =
     \<lparr>temperature = None, temperatureUnit = None, startTime = None,
      shortForecast = None, detailedForecast = None, windSpeedText = None,
      windDirectionText = None\<rparr>"

definition staleWeather :: WeatherData where
  "staleWeather =
     \<lparr>current = getDefaultCurrent, forecast = getDefaultForecast testRuntime 0, alerts = [],
      lastUpdated = ''stale''\<rparr>"

definition staleSurf :: SurfData where
  "staleSurf = \<lparr>spots = [], surf_tides = [], surf_lastUpdated = ''stale''\<rparr>"

definition failingSurf :: SurfUpstream where
  "failingSurf = \<lparr>spotExchange = (\<lambda>spotId. failingExchange), tideExchange = failingExchange\<rparr>"

definition twoItemsRss :: "string \<Rightarrow> error + RSSItem list" where
  "twoItemsRss u =
     (if u = ''https://www.khon2.com/feed/''
      then Inr [\<lparr>item_title = Some ''Hawaii Honolulu Oahu'', link = Some ''https://khon2.com/a'',
                 pubDate = Some ''1970-01-08T08:00:00.000Z'', contentSnippet = None,
                 content = None\<rparr>,
                \<lparr>item_title = Some ''Maui Kauai Lanai'', link = Some ''https://khon2.com/b'',
                 pubDate = Some ''1970-01-09T08:00:00.000Z'', contentSnippet = None,
                 content = None\<rparr>]
      else Inl (Error ''ECONNREFUSED''))"

definition eventbriteTwoEvents :: "EventbriteResponse Exchange" where
  "eventbriteTwoEvents =
     \<lparr>latency = 120,
      outcome = Inr
        \<lparr>ok = True, status = 200, statusText = ''OK'',
         json = Inr
           \<lparr>events = Some
              [\<lparr>eb_id = ''2'', eb_name_text = Some ''Slack Key Concert'',
                eb_description_text = None,
                eb_start_utc = Some ''1970-01-09T08:00:00.000Z'', eb_end_utc = None,
                venue = Some \<lparr>venue_name = Some ''Waikiki Shell'', venue_address = None\<rparr>,
                minimum_ticket_price = None, category_id = ''103'', logo_url = None,
                eb_url = None, organizer_name = None\<rparr>,
               \<lparr>eb_id = ''1'', eb_name_text = Some ''Trail Run'',
                eb_description_text = None,
                eb_start_utc = Some ''1970-01-05T04:00:00.000Z'', eb_end_utc = None,
                venue = Some \<lparr>venue_name = Some ''Makapuu'', venue_address = None\<rparr>,
                minimum_ticket_price = Some \<lparr>major_value = 25, tp_currency = Some ''USD''\<rparr>,
                category_id = ''108'', logo_url = None,
                eb_url = None, organizer_name = None\<rparr>]\<rparr>\<rparr>\<rparr>"

definition paidLaterEvent :: EventData where
  "paidLaterEvent =
     \<lparr>ev_id = ''e1'', ev_title = ''Trail Run'', description = [],
      startDate = ''1970-01-05T04:00:00.000Z'', endDate = None,
      ev_location = \<lparr>loc_name = ''Makapuu'', address = [], ev_island = oahu,
                     ev_coordinates = None\<rparr>,
      ev_category = outdoor,
      price = \<lparr>free = False, price_min = Some 25, price_max = None, currency = ''USD''\<rparr>,
      organizer = ''Unknown'', ev_url = None, ev_imageUrl = None, tags = []\<rparr>"

definition freeConcert :: EventData where
  "freeConcert =
     \<lparr>ev_id = ''e2'', ev_title = ''Slack Key Concert'', description = [],
      startDate = ''1970-01-09T08:00:00.000Z'', endDate = None,
      ev_location = \<lparr>loc_name = ''Waikiki Shell'', address = [], ev_island = oahu,
                     ev_coordinates = None\<rparr>,
      ev_category = music,
      price = \<lparr>free = True, price_min = None, price_max = None, currency = ''USD''\<rparr>,
      organizer = ''Unknown'', ev_url = None, ev_imageUrl = None, tags = []\<rparr>"

section \<open>Properties\<close>

subsection \<open>The TTL cache of the weather service\<close>

text \<open>
  C2 (as amended).  For an entry stored under a key, \<open>Cache.get\<close> returns the stored
  value exactly when \<open>now - insertedAt \<le> ttl\<close>, and otherwise returns absent and
  deletes the entry; a key with no entry is absent.  In particular the value is
  returned at \<open>now - insertedAt = ttl - 1\<close> and absent at \<open>now - insertedAt = ttl + 1\<close>.
  The comparison of the code is \<open>now - timestamp > ttl\<close>, so the entry is still served
  at \<open>now - insertedAt = ttl\<close>.
\<close>

theorem Cache_get_fresh_iff:
  assumes "cache key = Some entry"
  shows "(fst (Cache_get cache now key) = Some (data entry)) = (now - timestamp entry \<le> ttl entry)
     \<and> (fst (Cache_get cache now key) = None) = (\<not> now - timestamp entry \<le> ttl entry)
     \<and> (now - timestamp entry = ttl entry - 1 \<longrightarrow> fst (Cache_get cache now key) = Some (data entry))
     \<and> (now - timestamp entry = ttl entry + 1 \<longrightarrow> fst (Cache_get cache now key) = None)
     \<and> (\<not> now - timestamp entry \<le> ttl entry \<longrightarrow> snd (Cache_get cache now key) key = None)
     \<and> fst (Cache_get (cache(key := None)) now key) = None"
  using assms by (simp add: Cache_get_def)

theorem Cache_get_fresh_iff_witness:
  "fst (Cache_get (Cache_set Map.empty 1000 ''weather-oahu'' ''sunny'' 15) 900999 ''weather-oahu'')
     = Some ''sunny''
   \<and> fst (Cache_get (Cache_set Map.empty 1000 ''weather-oahu'' ''sunny'' 15) 901001 ''weather-oahu'')
     = None"
proof -
  let ?c = "Cache_set Map.empty 1000 ''weather-oahu'' ''sunny'' 15"
  let ?e = "\<lparr>data = ''sunny'', timestamp = 1000, ttl = 900000\<rparr>"
  have e: "?c ''weather-oahu'' = Some ?e"
    by (simp add: Cache_set_def)
  from Cache_get_fresh_iff [of ?c "''weather-oahu''" ?e 900999, OF e]
    Cache_get_fresh_iff [of ?c "''weather-oahu''" ?e 901001, OF e]
  show ?thesis by simp
qed

text \<open>
  The claim as stated fails on the boundary: an entry stored at time 0 with a TTL of
  15 minutes is still returned 900000 ms later, where \<open>now - insertedAt < ttl\<close> is false.
\<close>

theorem Cache_get_at_ttl_counterexample:
  "fst (Cache_get (Cache_set Map.empty 0 ''weather-oahu'' ''sunny'' 15) 900000 ''weather-oahu'')
     = Some ''sunny''
   \<and> \<not> (900000 - timestamp \<lparr>data = ''sunny'', timestamp = 0, ttl = 15 * 60 * 1000\<rparr>
         < ttl \<lparr>data = ''sunny'', timestamp = 0, ttl = 15 * 60 * 1000\<rparr>)"
  by (simp add: Cache_get_def Cache_set_def)

subsection \<open>Daily forecasts\<close>

lemma parseForecastPeriod_high_low:
  assumes "\<forall>day. d = Some day \<longrightarrow> temperature day \<noteq> None"
    and "\<forall>night. n = Some night \<longrightarrow> temperature night \<noteq> None"
  shows "greaterEq (high (parseForecastPeriod rt now d n)) (low (parseForecastPeriod rt now d n))"
proof (cases d)
  case None
  then show ?thesis
    by (simp add: parseForecastPeriod_def getDefaultForecastDay_def greaterEq_def)
next
  case (Some day)
  with assms(1) obtain td where td: "temperature day = Some td" by auto
  show ?thesis
  proof (cases n)
    case None
    with Some td show ?thesis
      by (simp add: parseForecastPeriod_def extractTemperature_def Math_max_def Math_min_def
          greaterEq_def Let_def min_le_iff_disj le_max_iff_disj)
  next
    case (Some night)
    with assms(2) obtain tn where "temperature night = Some tn" by auto
    with \<open>d = Some day\<close> Some td show ?thesis
      by (simp add: parseForecastPeriod_def extractTemperature_def Math_max_def Math_min_def
          greaterEq_def Let_def min_le_iff_disj le_max_iff_disj)
  qed
qed

lemma elemAt_numeric:
  "\<forall>p \<in> set ps. temperature p \<noteq> None \<Longrightarrow> \<forall>q. elemAt ps i = Some q \<longrightarrow> temperature q \<noteq> None"
  by (auto simp: elemAt_def)

lemma extendedFrom_high_low:
  assumes "\<forall>p \<in> set ps. temperature p \<noteq> None"
  shows "list_all (\<lambda>f. greaterEq (high f) (low f)) (extendedFrom rt now ps i)"
  using assms
proof (induction rt now ps i rule: extendedFrom.induct)
  case (1 rt now ps i)
  note n = "1.prems"
  show ?case
  proof (cases "i < min (length ps) 14")
    case False
    then show ?thesis by (auto simp add: extendedFrom.simps [of rt now ps i])
  next
    case True
    show ?thesis
    proof (cases "elemAt ps i")
      case None
      with True 1 show ?thesis by (simp add: extendedFrom.simps [of rt now ps i])
    next
      case (Some dayPeriod)
      have "greaterEq (high (parseForecastPeriod rt now (Some dayPeriod) (elemAt ps (i + 1))))
              (low (parseForecastPeriod rt now (Some dayPeriod) (elemAt ps (i + 1))))"
        using elemAt_numeric [OF n, of i] elemAt_numeric [OF n, of "i + 1"] Some
        by (intro parseForecastPeriod_high_low) auto
      with True Some 1 show ?thesis
        by (simp add: extendedFrom.simps [of rt now ps i])
    qed
  qed
qed

text \<open>
  C10 (as amended).  Every DailyForecast that the weather service builds from periods
  whose temperatures are numbers has \<open>high \<ge> low\<close>: the one parsed from a day period
  and an optional night period, whatever the two temperatures and their units are
  (inverted too) and when the night period is missing; each day of a forecast parsed
  from periods with numeric temperatures; the default day and each day of the default
  forecast.
\<close>

theorem forecast_high_ge_low:
  "((\<forall>day. dayPeriod = Some day \<longrightarrow> temperature day \<noteq> None)
      \<and> (\<forall>night. nightPeriod = Some night \<longrightarrow> temperature night \<noteq> None)
    \<longrightarrow> greaterEq (high (parseForecastPeriod rt now dayPeriod nightPeriod))
          (low (parseForecastPeriod rt now dayPeriod nightPeriod)))
   \<and> greaterEq (high (getDefaultForecastDay rt now)) (low (getDefaultForecastDay rt now))
   \<and> ((\<forall>ps. periods fd = Some ps \<longrightarrow> (\<forall>p \<in> set ps. temperature p \<noteq> None))
    \<longrightarrow> list_all (\<lambda>f. greaterEq (high f) (low f))
          (today (parseForecast rt now fd) # tomorrow (parseForecast rt now fd)
             # extended (parseForecast rt now fd)))
   \<and> list_all (\<lambda>f. greaterEq (high f) (low f))
       (today (getDefaultForecast rt now) # tomorrow (getDefaultForecast rt now)
          # extended (getDefaultForecast rt now))"
proof -
  have 1: "(\<forall>day. dayPeriod = Some day \<longrightarrow> temperature day \<noteq> None)
      \<and> (\<forall>night. nightPeriod = Some night \<longrightarrow> temperature night \<noteq> None)
    \<longrightarrow> greaterEq (high (parseForecastPeriod rt now dayPeriod nightPeriod))
          (low (parseForecastPeriod rt now dayPeriod nightPeriod))"
    using parseForecastPeriod_high_low [of dayPeriod nightPeriod rt now] by blast
  have 2: "greaterEq (high (getDefaultForecastDay rt now)) (low (getDefaultForecastDay rt now))"
    by (simp add: getDefaultForecastDay_def greaterEq_def)
  have 3: "(\<forall>ps. periods fd = Some ps \<longrightarrow> (\<forall>p \<in> set ps. temperature p \<noteq> None))
    \<longrightarrow> list_all (\<lambda>f. greaterEq (high f) (low f))
          (today (parseForecast rt now fd) # tomorrow (parseForecast rt now fd)
             # extended (parseForecast rt now fd))"
  proof
    assume a: "\<forall>ps. periods fd = Some ps \<longrightarrow> (\<forall>p \<in> set ps. temperature p \<noteq> None)"
    define ps where "ps = (case periods fd of None \<Rightarrow> [] | Some l \<Rightarrow> l)"
    have n: "\<forall>p \<in> set ps. temperature p \<noteq> None"
      using a by (cases "periods fd") (auto simp: ps_def)
    have p: "greaterEq (high (parseForecastPeriod rt now (elemAt ps i) (elemAt ps j)))
               (low (parseForecastPeriod rt now (elemAt ps i) (elemAt ps j)))" for i j
      using elemAt_numeric [OF n, of i] elemAt_numeric [OF n, of j]
      by (intro parseForecastPeriod_high_low) auto
    show "list_all (\<lambda>f. greaterEq (high f) (low f))
          (today (parseForecast rt now fd) # tomorrow (parseForecast rt now fd)
             # extended (parseForecast rt now fd))"
      using p extendedFrom_high_low [OF n, of rt now 4]
      by (simp add: parseForecast_def Let_def ps_def [symmetric])
  qed
  have 4: "list_all (\<lambda>f. greaterEq (high f) (low f))
       (today (getDefaultForecast rt now) # tomorrow (getDefaultForecast rt now)
          # extended (getDefaultForecast rt now))"
    by (simp add: getDefaultForecast_def getDefaultForecastDay_def greaterEq_def Let_def)
  show ?thesis
    by (intro conjI) (rule 1 2 3 4)+
qed

theorem forecast_high_ge_low_witness:
  "high (parseForecastPeriod testRuntime 0 (Some warmDay) (Some warmerNight)) = Some 75
   \<and> low (parseForecastPeriod testRuntime 0 (Some warmDay) (Some warmerNight)) = Some 68
   \<and> greaterEq (high (parseForecastPeriod testRuntime 0 (Some warmDay) (Some warmerNight)))
       (low (parseForecastPeriod testRuntime 0 (Some warmDay) (Some warmerNight)))
   \<and> list_all (\<lambda>f. greaterEq (high f) (low f))
       (today (parseForecast testRuntime 0 \<lparr>periods = Some [warmDay, warmerNight, warmDay]\<rparr>)
          # tomorrow (parseForecast testRuntime 0 \<lparr>periods = Some [warmDay, warmerNight, warmDay]\<rparr>)
          # extended (parseForecast testRuntime 0 \<lparr>periods = Some [warmDay, warmerNight, warmDay]\<rparr>))"
proof -
  have d: "\<forall>day. Some warmDay = Some day \<longrightarrow> temperature day \<noteq> None"
    by (simp add: warmDay_def)
  have n: "\<forall>night. Some warmerNight = Some night \<longrightarrow> temperature night \<noteq> None"
    by (simp add: warmerNight_def)
  have p: "\<forall>ps. periods \<lparr>periods = Some [warmDay, warmerNight, warmDay]\<rparr> = Some ps
             \<longrightarrow> (\<forall>p \<in> set ps. temperature p \<noteq> None)"
    by (simp add: warmDay_def warmerNight_def)
  have v: "high (parseForecastPeriod testRuntime 0 (Some warmDay) (Some warmerNight)) = Some 75
     \<and> low (parseForecastPeriod testRuntime 0 (Some warmDay) (Some warmerNight)) = Some 68"
    by (simp add: parseForecastPeriod_def extractTemperature_def Math_max_def Math_min_def
        warmDay_def warmerNight_def Let_def)
  from forecast_high_ge_low [where dayPeriod = "Some warmDay" and nightPeriod = "Some warmerNight"
      and rt = testRuntime and now = 0
      and fd = "\<lparr>periods = Some [warmDay, warmerNight, warmDay]\<rparr>"] d n p v
  show ?thesis by blast
qed

text \<open>
  The claim as stated fails when a period has no numeric temperature: with a day
  period of 68 degrees Fahrenheit and a night period that is an empty object, the
  night temperature reads as \<open>NaN\<close>, \<open>Math.max\<close> and \<open>Math.min\<close> both return \<open>NaN\<close>, and
  \<open>high >= low\<close> is false.
\<close>

theorem forecast_nan_counterexample:
  "high (parseForecastPeriod testRuntime 0 (Some warmDay) (Some emptyNight)) = None
   \<and> low (parseForecastPeriod testRuntime 0 (Some warmDay) (Some emptyNight)) = None
   \<and> \<not> greaterEq (high (parseForecastPeriod testRuntime 0 (Some warmDay) (Some emptyNight)))
         (low (parseForecastPeriod testRuntime 0 (Some warmDay) (Some emptyNight)))"
  by (simp add: parseForecastPeriod_def extractTemperature_def Math_max_def Math_min_def
      greaterEq_def warmDay_def emptyNight_def Let_def)

subsection \<open>Merging and deduplication\<close>

lemma find_append_eq:
  "find P (xs @ ys) = (case find P xs of Some x \<Rightarrow> Some x | None \<Rightarrow> find P ys)"
  by (induction xs) auto

lemma pushUnseen_inv:
  assumes "seen = key ` set acc" "distinct (map key acc)"
  shows "snd (pushUnseen key rs (acc, seen)) = key ` set (fst (pushUnseen key rs (acc, seen)))
       \<and> distinct (map key (fst (pushUnseen key rs (acc, seen))))
       \<and> (\<forall>k. find (\<lambda>x. key x = k) (fst (pushUnseen key rs (acc, seen)))
              = find (\<lambda>x. key x = k) (acc @ rs))"
  using assms
proof (induction rs arbitrary: acc seen)
  case Nil
  then show ?case by simp
next
  case (Cons r rs)
  show ?case
  proof (cases "key r \<in> seen")
    case True
    have f: "find (\<lambda>x. key x = k) (acc @ r # rs) = find (\<lambda>x. key x = k) (acc @ rs)" for k
    proof (cases "k = key r")
      case True
      with \<open>key r \<in> seen\<close> Cons.prems(1) have "\<exists>x. x \<in> set acc \<and> key x = k" by auto
      then have "find (\<lambda>x. key x = k) acc \<noteq> None" by (simp add: find_None_iff)
      then show ?thesis by (auto simp: find_append_eq)
    next
      case False
      then show ?thesis by (auto simp: find_append_eq split: option.splits)
    qed
    from Cons.IH [OF Cons.prems] True f show ?thesis by simp
  next
    case False
    have 1: "insert (key r) seen = key ` set (acc @ [r])" using Cons.prems(1) by auto
    have 2: "distinct (map key (acc @ [r]))" using Cons.prems False by auto
    from Cons.IH [OF 1 2] False show ?thesis by simp
  qed
qed

lemma mergeSettled_inv:
  assumes "seen = key ` set acc" "distinct (map key acc)"
  shows "distinct (map key (fst (mergeSettled key results (acc, seen))))
       \<and> (\<forall>k. find (\<lambda>x. key x = k) (fst (mergeSettled key results (acc, seen)))
              = find (\<lambda>x. key x = k) (acc @ flattenFulfilled results))"
  using assms
proof (induction results arbitrary: acc seen)
  case Nil
  then show ?case by (simp add: flattenFulfilled_def)
next
  case (Cons result results)
  show ?case
  proof (cases result)
    case (Inl e)
    with Cons.IH [OF Cons.prems] show ?thesis by (simp add: flattenFulfilled_def)
  next
    case (Inr v)
    obtain acc' seen' where p: "pushUnseen key v (acc, seen) = (acc', seen')"
      by (cases "pushUnseen key v (acc, seen)")
    from pushUnseen_inv [OF Cons.prems, of v] p
    have a: "seen' = key ` set acc'" and b: "distinct (map key acc')"
      and c: "\<And>k. find (\<lambda>x. key x = k) acc' = find (\<lambda>x. key x = k) (acc @ v)"
      by auto
    have d: "find (\<lambda>x. key x = k) (acc' @ ys) = find (\<lambda>x. key x = k) ((acc @ v) @ ys)" for k ys
      by (simp only: find_append_eq [of _ acc'] find_append_eq [of _ "acc @ v"] c)
    from Cons.IH [OF a b] Inr p d show ?thesis
      by (simp add: flattenFulfilled_def)
  qed
qed

lemma mergeSettled_first_wins:
  "distinct (map key (fst (mergeSettled key results ([], {}))))
   \<and> (\<forall>k. find (\<lambda>x. key x = k) (fst (mergeSettled key results ([], {})))
          = find (\<lambda>x. key x = k) (flattenFulfilled results))"
  using mergeSettled_inv [of "{}" key "[]" results] by simp

lemma find_same_key_set:
  assumes "\<forall>k. find (\<lambda>x. key x = k) xs = find (\<lambda>x. key x = k) ys"
  shows "key ` set xs = key ` set ys"
proof -
  have "(k \<in> key ` set xs) = (k \<in> key ` set ys)" for k
  proof -
    have "(k \<in> key ` set zs) = (find (\<lambda>x. key x = k) zs \<noteq> None)" for zs
      by (auto simp: find_None_iff)
    with assms show ?thesis by simp
  qed
  then show ?thesis by blast
qed

text \<open>
  C5.  The merge loop of \<open>fetchAllFeeds\<close> (key: the article's \<open>originalUrl\<close>) and of
  \<open>fetchFromAllSources\<close> (key: title, start date and location name joined by dashes)
  keeps exactly one record per identity key: the keys of the merged list are pairwise
  distinct, they are exactly the keys that the fulfilled sources returned, and for
  every key the survivor is the first record with that key in the concatenation of the
  sources' lists in configuration order.  With two sources returning \<open>a\<close> and \<open>b\<close>
  under one key, the merged list is \<open>[a]\<close>: the record of the source listed first.
\<close>

theorem merge_keeps_first_seen:
  "distinct (map key (fst (mergeSettled key results ([], {}))))
   \<and> key ` set (fst (mergeSettled key results ([], {}))) = key ` set (flattenFulfilled results)
   \<and> (\<forall>k. find (\<lambda>x. key x = k) (fst (mergeSettled key results ([], {})))
          = find (\<lambda>x. key x = k) (flattenFulfilled results))
   \<and> (key a = key b \<longrightarrow> fst (mergeSettled key [Inr [a], Inr [b]] ([], {})) = [a])
   \<and> (\<exists>merged. fetchAllFeeds rt now feeds rss = Inr merged
          \<and> distinct (map originalUrl merged)
          \<and> (\<forall>k. find (\<lambda>x. originalUrl x = k) merged
                 = find (\<lambda>x. originalUrl x = k)
                     (flattenFulfilled (map (fetchFeed rt now rss) (filter enabled feeds)))))
   \<and> (\<exists>merged. fetchFromAllSources rt now sources x daysAhead = Inr merged
          \<and> distinct (map eventKey merged)
          \<and> (\<forall>k. find (\<lambda>e. eventKey e = k) merged
                 = find (\<lambda>e. eventKey e = k)
                     (flattenFulfilled (map (fetchFromSource rt now x daysAhead)
                        (filter src_enabled sources)))))"
proof -
  note fw = mergeSettled_first_wins
  have 1: "key ` set (fst (mergeSettled key results ([], {}))) = key ` set (flattenFulfilled results)"
    by (rule find_same_key_set) (simp add: fw)
  have 2: "key a = key b \<longrightarrow> fst (mergeSettled key [Inr [a], Inr [b]] ([], {})) = [a]"
    by simp
  show ?thesis
    unfolding fetchAllFeeds_def fetchFromAllSources_def Let_def
    using 1 2 by (simp add: fw)
qed

theorem merge_keeps_first_seen_witness:
  "fst (mergeSettled eventKey [Inr [paidLaterEvent], Inr [paidLaterEvent\<lparr>ev_id := ''dup''\<rparr>]] ([], {}))
     = [paidLaterEvent]"
proof -
  have k: "eventKey paidLaterEvent = eventKey (paidLaterEvent\<lparr>ev_id := ''dup''\<rparr>)"
    by (simp add: eventKey_def)
  from merge_keeps_first_seen [of eventKey "[]" paidLaterEvent "paidLaterEvent\<lparr>ev_id := ''dup''\<rparr>"] k
  show ?thesis by blast
qed

subsection \<open>Order of the returned lists\<close>

lemma insertBy_set: "set (insertBy cmp x ys) = insert x (set ys)"
  by (induction ys) auto

lemma sortBy_set: "set (sortBy cmp xs) = set xs"
  by (induction xs) (auto simp: sortBy_def insertBy_set)

lemma insertBy_sorted:
  assumes "sorted_wrt R ys"
    and tot: "\<And>y. y \<in> set ys \<Longrightarrow> \<not> cmp x y \<le> 0 \<Longrightarrow> R y x"
    and le: "\<And>y. y \<in> set ys \<Longrightarrow> cmp x y \<le> 0 \<Longrightarrow> R x y"
    and tr: "\<And>y z. y \<in> set ys \<Longrightarrow> z \<in> set ys \<Longrightarrow> R x y \<Longrightarrow> R y z \<Longrightarrow> R x z"
  shows "sorted_wrt R (insertBy cmp x ys)"
  using assms
proof (induction ys)
  case Nil
  show ?case by simp
next
  case (Cons y ys)
  show ?case
  proof (cases "cmp x y \<le> 0")
    case True
    then have xy: "R x y" using Cons.prems(3) [of y] by simp
    have "R x z" if "z \<in> set ys" for z
      using Cons.prems(1) Cons.prems(4) [of y z] xy that by auto
    with True xy Cons.prems(1) show ?thesis by auto
  next
    case False
    then have yx: "R y x" using Cons.prems(2) [of y] by simp
    have "sorted_wrt R (insertBy cmp x ys)"
    proof (rule Cons.IH)
      show "sorted_wrt R ys" using Cons.prems(1) by simp
      fix a assume a: "a \<in> set ys"
      show "\<not> cmp x a \<le> 0 \<Longrightarrow> R a x" using a Cons.prems(2) [of a] by simp
      show "cmp x a \<le> 0 \<Longrightarrow> R x a" using a Cons.prems(3) [of a] by simp
      fix b assume "b \<in> set ys"
      then show "R x a \<Longrightarrow> R a b \<Longrightarrow> R x b" using a Cons.prems(4) [of a b] by simp
    qed
    with False yx Cons.prems(1) show ?thesis by (auto simp: insertBy_set)
  qed
qed

lemma sortBy_sorted:
  assumes tot: "\<And>x y. x \<in> set xs \<Longrightarrow> y \<in> set xs \<Longrightarrow> \<not> cmp x y \<le> 0 \<Longrightarrow> R y x"
    and le: "\<And>x y. x \<in> set xs \<Longrightarrow> y \<in> set xs \<Longrightarrow> cmp x y \<le> 0 \<Longrightarrow> R x y"
    and tr: "\<And>x y z. x \<in> set xs \<Longrightarrow> y \<in> set xs \<Longrightarrow> z \<in> set xs \<Longrightarrow> R x y \<Longrightarrow> R y z \<Longrightarrow> R x z"
  shows "sorted_wrt R (sortBy cmp xs)"
  using assms
proof (induction xs)
  case Nil
  show ?case by (simp add: sortBy_def)
next
  case (Cons x xs)
  have s: "sorted_wrt R (sortBy cmp xs)"
  proof (rule Cons.IH)
    fix a b assume ab: "a \<in> set xs" "b \<in> set xs"
    show "\<not> cmp a b \<le> 0 \<Longrightarrow> R b a"
      using ab Cons.prems(1) [of a b] by simp
    show "cmp a b \<le> 0 \<Longrightarrow> R a b"
      using ab Cons.prems(2) [of a b] by simp
    fix c assume "c \<in> set xs"
    then show "R a b \<Longrightarrow> R b c \<Longrightarrow> R a c"
      using ab Cons.prems(3) [of a b c] by simp
  qed
  have "sorted_wrt R (insertBy cmp x (sortBy cmp xs))"
  proof (rule insertBy_sorted [OF s])
    fix y assume y: "y \<in> set (sortBy cmp xs)"
    show "\<not> cmp x y \<le> 0 \<Longrightarrow> R y x"
      using y Cons.prems(1) [of x y] by (simp add: sortBy_set)
    show "cmp x y \<le> 0 \<Longrightarrow> R x y"
      using y Cons.prems(2) [of x y] by (simp add: sortBy_set)
    fix z assume "z \<in> set (sortBy cmp xs)"
    then show "R x y \<Longrightarrow> R y z \<Longrightarrow> R x z"
      using y Cons.prems(3) [of x y z] by (simp add: sortBy_set)
  qed
  then show ?case by (simp add: sortBy_def)
qed

lemma slice0_sorted: "sorted_wrt R xs \<Longrightarrow> sorted_wrt R (slice0 xs limit)"
  by (simp add: slice0_def)

lemma compareNews_le:
  assumes "parseDate rt (publishedAt a) = Some ta" "parseDate rt (publishedAt b) = Some tb"
  shows "(compareNews rt a b \<le> 0)
     = (relevanceScore b < relevanceScore a \<or> (relevanceScore a = relevanceScore b \<and> tb \<le> ta))"
  using assms by (auto simp: compareNews_def orNum_def Let_def)

lemma compareEvents_le:
  assumes "parseDate rt (startDate a) = Some ta" "parseDate rt (startDate b) = Some tb"
  shows "(compareEvents rt a b \<le> 0) = (ta \<le> tb)"
  using assms by (simp add: compareEvents_def)

lemma sortBy_news_sorted:
  assumes "\<forall>a \<in> set articles. parseDate rt (publishedAt a) \<noteq> None"
  shows "sorted_wrt (\<lambda>a b. relevanceScore b < relevanceScore a
            \<or> (relevanceScore a = relevanceScore b
                \<and> the (parseDate rt (publishedAt b)) \<le> the (parseDate rt (publishedAt a))))
          (sortBy (compareNews rt) articles)"
proof (rule sortBy_sorted)
  fix a b assume "a \<in> set articles" "b \<in> set articles"
  with assms have "parseDate rt (publishedAt a) \<noteq> None" "parseDate rt (publishedAt b) \<noteq> None"
    by blast+
  then obtain ta tb where t: "parseDate rt (publishedAt a) = Some ta"
    "parseDate rt (publishedAt b) = Some tb" by blast
  show "\<not> compareNews rt a b \<le> 0 \<Longrightarrow> relevanceScore a < relevanceScore b
     \<or> (relevanceScore b = relevanceScore a
         \<and> the (parseDate rt (publishedAt a)) \<le> the (parseDate rt (publishedAt b)))"
    using t by (auto simp: compareNews_le [OF t])
  show "compareNews rt a b \<le> 0 \<Longrightarrow> relevanceScore b < relevanceScore a
     \<or> (relevanceScore a = relevanceScore b
         \<and> the (parseDate rt (publishedAt b)) \<le> the (parseDate rt (publishedAt a)))"
    using t by (auto simp: compareNews_le [OF t])
next
  fix a b c :: NewsArticle
  assume "relevanceScore b < relevanceScore a
     \<or> (relevanceScore a = relevanceScore b
         \<and> the (parseDate rt (publishedAt b)) \<le> the (parseDate rt (publishedAt a)))"
    and "relevanceScore c < relevanceScore b
     \<or> (relevanceScore b = relevanceScore c
         \<and> the (parseDate rt (publishedAt c)) \<le> the (parseDate rt (publishedAt b)))"
  then show "relevanceScore c < relevanceScore a
     \<or> (relevanceScore a = relevanceScore c
         \<and> the (parseDate rt (publishedAt c)) \<le> the (parseDate rt (publishedAt a)))"
    by auto
qed

lemma sortBy_events_sorted:
  assumes "\<forall>e \<in> set evs. parseDate rt (startDate e) \<noteq> None"
  shows "sorted_wrt (\<lambda>a b. the (parseDate rt (startDate a)) \<le> the (parseDate rt (startDate b)))
          (sortBy (compareEvents rt) evs)"
proof (rule sortBy_sorted)
  fix a b assume "a \<in> set evs" "b \<in> set evs"
  with assms have "parseDate rt (startDate a) \<noteq> None" "parseDate rt (startDate b) \<noteq> None"
    by blast+
  then obtain ta tb where t: "parseDate rt (startDate a) = Some ta"
    "parseDate rt (startDate b) = Some tb" by blast
  show "\<not> compareEvents rt a b \<le> 0
     \<Longrightarrow> the (parseDate rt (startDate b)) \<le> the (parseDate rt (startDate a))"
    using t by (simp add: compareEvents_le [OF t])
  show "compareEvents rt a b \<le> 0
     \<Longrightarrow> the (parseDate rt (startDate a)) \<le> the (parseDate rt (startDate b))"
    using t by (simp add: compareEvents_le [OF t])
next
  fix a b c :: EventData
  assume "the (parseDate rt (startDate a)) \<le> the (parseDate rt (startDate b))"
    and "the (parseDate rt (startDate b)) \<le> the (parseDate rt (startDate c))"
  then show "the (parseDate rt (startDate a)) \<le> the (parseDate rt (startDate c))"
    by simp
qed

lemma sortBy_score_sorted:
  "sorted_wrt (\<lambda>a b. f b \<le> f a) (sortBy (\<lambda>a b. f b - f a) xs)"
proof (rule sortBy_sorted)
  fix a b
  show "\<not> f b - f a \<le> 0 \<Longrightarrow> f a \<le> f b" by simp
  show "f b - f a \<le> 0 \<Longrightarrow> f b \<le> f a" by simp
next
  fix a b c
  assume "f b \<le> f a" "f c \<le> f b"
  then show "f c \<le> f a" by simp
qed

lemma slice0_subset: "set (slice0 xs limit) \<subseteq> set xs"
  by (auto simp: slice0_def dest: in_set_takeD)

lemma featured_sorted:
  "sorted_wrt (\<lambda>a b. f b \<le> f a)
     (map fst (slice0 (sortBy (\<lambda>a b. snd b - snd a) (map (\<lambda>e. (e, f e)) evs)) limit))"
proof -
  let ?xs = "slice0 (sortBy (\<lambda>a b. snd b - snd a) (map (\<lambda>e. (e, f e)) evs)) limit"
  have s: "sorted_wrt (\<lambda>a b. snd b \<le> snd a) ?xs"
    by (simp add: slice0_sorted sortBy_score_sorted)
  have sub: "set ?xs \<subseteq> set (map (\<lambda>e. (e, f e)) evs)"
    using slice0_subset [of "sortBy (\<lambda>a b. snd b - snd a) (map (\<lambda>e. (e, f e)) evs)" limit]
    by (simp add: sortBy_set)
  have "sorted_wrt (\<lambda>p q. f (fst q) \<le> f (fst p)) ?xs"
  proof (rule sorted_wrt_mono_rel [OF _ s])
    fix p q assume pq: "p \<in> set ?xs" "q \<in> set ?xs" and le: "snd q \<le> snd p"
    from pq sub have "p \<in> (\<lambda>e. (e, f e)) ` set evs" "q \<in> (\<lambda>e. (e, f e)) ` set evs"
      by auto
    then have "snd p = f (fst p)" "snd q = f (fst q)" by auto
    with le show "f (fst q) \<le> f (fst p)" by simp
  qed
  then show ?thesis by (simp add: sorted_wrt_map)
qed

lemma filterEvents_subset: "set (filterEvents rt now evs island cat) \<subseteq> set evs"
  by (auto simp: filterEvents_def)

lemma getLatestNews_miss:
  assumes "\<forall>c. cache (newsCacheKey cat limit) = Some c \<longrightarrow> \<not> t0 - timestamp c < 15 * 60 * 1000"
  shows "getLatestNews rt cache feeds t0 t1 cat limit rss
           = getLatestNews_settle rt cache t1 cat limit (fetchAllFeeds rt t1 feeds rss)"
  using assms by (simp add: getLatestNews_def split: option.splits)

lemma getEvents_miss:
  assumes "\<forall>c. cache (eventsCacheKey island cat daysAhead limit) = Some c
             \<longrightarrow> \<not> t0 - timestamp c < 60 * 60 * 1000"
  shows "getEvents rt cache sources t0 t1 island cat daysAhead limit x
           = getEvents_settle rt cache t1 island cat daysAhead limit
               (fetchFromAllSources rt t1 sources x daysAhead)"
  using assms by (simp add: getEvents_def split: option.splits)

lemma getLatestNews_settle_sorted:
  assumes "\<forall>a \<in> set articles. parseDate rt (publishedAt a) \<noteq> None"
  shows "\<exists>result. fst (getLatestNews_settle rt ncache t1 ncat limit (Inr articles)) = Inr result
           \<and> sorted_wrt (\<lambda>a b. relevanceScore b < relevanceScore a
                  \<or> (relevanceScore a = relevanceScore b
                      \<and> the (parseDate rt (publishedAt b)) \<le> the (parseDate rt (publishedAt a))))
                result"
proof -
  have n: "\<forall>a \<in> set (case ncat of Some c \<Rightarrow> filter (\<lambda>article. category article = c) articles
                        | None \<Rightarrow> articles). parseDate rt (publishedAt a) \<noteq> None"
    using assms by (cases ncat) auto
  show ?thesis
    by (simp add: getLatestNews_settle_def Let_def slice0_sorted sortBy_news_sorted [OF n])
qed

lemma getEvents_settle_sorted:
  assumes "\<forall>e \<in> set allEvents. parseDate rt (startDate e) \<noteq> None"
  shows "\<exists>result. fst (getEvents_settle rt ecache t1 island ecat daysAhead limit (Inr allEvents))
                     = Inr result
           \<and> sorted_wrt (\<lambda>a b. the (parseDate rt (startDate a)) \<le> the (parseDate rt (startDate b)))
                result"
proof -
  have e: "\<forall>e \<in> set (filterEvents rt t1 allEvents island ecat). parseDate rt (startDate e) \<noteq> None"
    using assms filterEvents_subset [of rt t1 allEvents island ecat] by blast
  show ?thesis
    by (simp add: getEvents_settle_def Let_def slice0_sorted sortBy_events_sorted [OF e])
qed

text \<open>
  C7 (as amended).  On a fetch cycle (a call that finds no fresh entry for its key),
  \<open>getLatestNews\<close> returns its articles sorted by relevance score, highest first, and
  articles of equal score by publication time, most recent first, provided the
  publication date of every fetched article parses.  On a fetch cycle \<open>getEvents\<close>
  returns its events sorted by start time, soonest first, provided the start date of
  every fetched event parses.  The ranking of \<open>getTopSurfSpots\<close> is sorted by the sum
  of the quality score and the maximal wave height, highest first, and the list of
  \<open>getFeaturedEvents\<close> by event score, highest first.
\<close>

theorem returned_lists_order:
  "((\<forall>c. ncache (newsCacheKey ncat limit) = Some c \<longrightarrow> \<not> t0 - timestamp c < 15 * 60 * 1000)
      \<and> (\<forall>articles. fetchAllFeeds rt t1 feeds rss = Inr articles
            \<longrightarrow> (\<forall>a \<in> set articles. parseDate rt (publishedAt a) \<noteq> None))
    \<longrightarrow> (\<exists>result. fst (getLatestNews rt ncache feeds t0 t1 ncat limit rss) = Inr result
           \<and> sorted_wrt (\<lambda>a b. relevanceScore b < relevanceScore a
                  \<or> (relevanceScore a = relevanceScore b
                      \<and> the (parseDate rt (publishedAt b)) \<le> the (parseDate rt (publishedAt a))))
                result))
   \<and> ((\<forall>c. ecache (eventsCacheKey island ecat daysAhead limit) = Some c
             \<longrightarrow> \<not> t0 - timestamp c < 60 * 60 * 1000)
      \<and> (\<forall>allEvents. fetchFromAllSources rt t1 sources x daysAhead = Inr allEvents
            \<longrightarrow> (\<forall>e \<in> set allEvents. parseDate rt (startDate e) \<noteq> None))
    \<longrightarrow> (\<exists>result. fst (getEvents rt ecache sources t0 t1 island ecat daysAhead limit x) = Inr result
           \<and> sorted_wrt (\<lambda>a b. the (parseDate rt (startDate a)) \<le> the (parseDate rt (startDate b)))
                result))
   \<and> sorted_wrt (\<lambda>a b. spotScore b \<le> spotScore a) (rankSurfSpots allSpots limit)
   \<and> (\<exists>result. fst (getFeaturedEvents rt ecache sources t0 t1 limit x) = Inr result
         \<and> sorted_wrt (\<lambda>a b. calculateEventScore rt t1 b \<le> calculateEventScore rt t1 a) result)"
proof -
  have 1: "(\<forall>c. ncache (newsCacheKey ncat limit) = Some c \<longrightarrow> \<not> t0 - timestamp c < 15 * 60 * 1000)
      \<and> (\<forall>articles. fetchAllFeeds rt t1 feeds rss = Inr articles
            \<longrightarrow> (\<forall>a \<in> set articles. parseDate rt (publishedAt a) \<noteq> None))
    \<longrightarrow> (\<exists>result. fst (getLatestNews rt ncache feeds t0 t1 ncat limit rss) = Inr result
           \<and> sorted_wrt (\<lambda>a b. relevanceScore b < relevanceScore a
                  \<or> (relevanceScore a = relevanceScore b
                      \<and> the (parseDate rt (publishedAt b)) \<le> the (parseDate rt (publishedAt a))))
                result)"
  proof (intro impI, elim conjE)
    assume m: "\<forall>c. ncache (newsCacheKey ncat limit) = Some c \<longrightarrow> \<not> t0 - timestamp c < 15 * 60 * 1000"
      and d: "\<forall>articles. fetchAllFeeds rt t1 feeds rss = Inr articles
            \<longrightarrow> (\<forall>a \<in> set articles. parseDate rt (publishedAt a) \<noteq> None)"
    obtain articles where f: "fetchAllFeeds rt t1 feeds rss = Inr articles"
      by (simp add: fetchAllFeeds_def Let_def)
    with d have "\<forall>a \<in> set articles. parseDate rt (publishedAt a) \<noteq> None" by blast
    from getLatestNews_settle_sorted [OF this, of ncache t1 ncat limit]
    show "\<exists>result. fst (getLatestNews rt ncache feeds t0 t1 ncat limit rss) = Inr result
           \<and> sorted_wrt (\<lambda>a b. relevanceScore b < relevanceScore a
                  \<or> (relevanceScore a = relevanceScore b
                      \<and> the (parseDate rt (publishedAt b)) \<le> the (parseDate rt (publishedAt a))))
                result"
      by (simp only: getLatestNews_miss [where cache = ncache and cat = ncat and limit = limit and ?t0.0 = t0, OF m] f)
  qed
  have 2: "(\<forall>c. ecache (eventsCacheKey island ecat daysAhead limit) = Some c
             \<longrightarrow> \<not> t0 - timestamp c < 60 * 60 * 1000)
      \<and> (\<forall>allEvents. fetchFromAllSources rt t1 sources x daysAhead = Inr allEvents
            \<longrightarrow> (\<forall>e \<in> set allEvents. parseDate rt (startDate e) \<noteq> None))
    \<longrightarrow> (\<exists>result. fst (getEvents rt ecache sources t0 t1 island ecat daysAhead limit x) = Inr result
           \<and> sorted_wrt (\<lambda>a b. the (parseDate rt (startDate a)) \<le> the (parseDate rt (startDate b)))
                result)"
  proof (intro impI, elim conjE)
    assume m: "\<forall>c. ecache (eventsCacheKey island ecat daysAhead limit) = Some c
             \<longrightarrow> \<not> t0 - timestamp c < 60 * 60 * 1000"
      and d: "\<forall>allEvents. fetchFromAllSources rt t1 sources x daysAhead = Inr allEvents
            \<longrightarrow> (\<forall>e \<in> set allEvents. parseDate rt (startDate e) \<noteq> None)"
    obtain allEvents where f: "fetchFromAllSources rt t1 sources x daysAhead = Inr allEvents"
      by (simp add: fetchFromAllSources_def Let_def)
    with d have "\<forall>e \<in> set allEvents. parseDate rt (startDate e) \<noteq> None" by blast
    from getEvents_settle_sorted [OF this, of ecache t1 island ecat daysAhead limit]
    show "\<exists>result. fst (getEvents rt ecache sources t0 t1 island ecat daysAhead limit x) = Inr result
           \<and> sorted_wrt (\<lambda>a b. the (parseDate rt (startDate a)) \<le> the (parseDate rt (startDate b)))
                result"
      by (simp only: getEvents_miss [where cache = ecache and island = island and cat = ecat and daysAhead = daysAhead and limit = limit and ?t0.0 = t0, OF m] f)
  qed
  have 3: "sorted_wrt (\<lambda>a b. spotScore b \<le> spotScore a) (rankSurfSpots allSpots limit)"
    by (simp add: rankSurfSpots_def slice0_sorted sortBy_score_sorted)
  have 4: "\<exists>result. fst (getFeaturedEvents rt ecache sources t0 t1 limit x) = Inr result
           \<and> sorted_wrt (\<lambda>a b. calculateEventScore rt t1 b \<le> calculateEventScore rt t1 a) result"
    by (auto simp: getFeaturedEvents_def Let_def featured_sorted split: prod.splits sum.splits)
  show ?thesis
    by (intro conjI) (rule 1 2 3 4)+
qed

lemma twoItems_scores:
  "calculateRelevanceScore ''Hawaii Honolulu Oahu'' [] = 3 / 10"
  "calculateRelevanceScore ''Maui Kauai Lanai'' [] = 3 / 10"
  by code_simp+

lemma twoItems_fetched:
  "map_sum id (map (\<lambda>a. (title a, relevanceScore a, publishedAt a)))
     (fetchAllFeeds testRuntime 720000000 RSS_FEEDS twoItemsRss)
   = Inr [(''Hawaii Honolulu Oahu'', 3 / 10, ''1970-01-08T08:00:00.000Z''),
          (''Maui Kauai Lanai'', 3 / 10, ''1970-01-09T08:00:00.000Z'')]"
  by (simp add: fetchAllFeeds_def fetchFeed_def RSS_FEEDS_def twoItemsRss_def slice0_def
      orElse_def Date_toISOString_def processArticle_def twoItems_scores
      generateAISummary_def mockAICall_def testRuntime_def Let_def)

lemma testRuntime_parseDate:
  "parseDate testRuntime ''1970-01-08T08:00:00.000Z'' = Some 633600000"
  "parseDate testRuntime ''1970-01-09T08:00:00.000Z'' = Some 720000000"
  "parseDate testRuntime ''1970-01-05T04:00:00.000Z'' = Some 360000000"
  by (simp_all add: testRuntime_def)

theorem returned_lists_order_witness:
  "map_sum id (map (\<lambda>a. (title a, relevanceScore a, publishedAt a)))
     (fst (getLatestNews testRuntime Map.empty RSS_FEEDS 720000000 720000000 None 20 twoItemsRss))
   = Inr [(''Maui Kauai Lanai'', 3 / 10, ''1970-01-09T08:00:00.000Z''),
          (''Hawaii Honolulu Oahu'', 3 / 10, ''1970-01-08T08:00:00.000Z'')]
   \<and> (\<exists>result. fst (getLatestNews testRuntime Map.empty RSS_FEEDS 720000000 720000000 None 20
                       twoItemsRss) = Inr result
         \<and> sorted_wrt (\<lambda>a b. relevanceScore b < relevanceScore a
                \<or> (relevanceScore a = relevanceScore b
                    \<and> the (parseDate testRuntime (publishedAt b))
                        \<le> the (parseDate testRuntime (publishedAt a))))
              result)
   \<and> (\<exists>result. fst (getEvents testRuntime Map.empty (EVENT_SOURCES (Some ''key'') None) 0 0 None None
                       7 50 eventbriteTwoEvents) = Inr result
         \<and> sorted_wrt (\<lambda>a b. the (parseDate testRuntime (startDate a))
                               \<le> the (parseDate testRuntime (startDate b)))
              result)"
proof -
  have nm: "\<forall>c. (Map.empty :: NewsArticle list TimedCache) (newsCacheKey None 20) = Some c
              \<longrightarrow> \<not> 720000000 - timestamp c < 15 * 60 * 1000"
    by simp
  have nd: "\<forall>articles. fetchAllFeeds testRuntime 720000000 RSS_FEEDS twoItemsRss = Inr articles
              \<longrightarrow> (\<forall>a \<in> set articles. parseDate testRuntime (publishedAt a) \<noteq> None)"
  proof (intro allI impI)
    fix articles assume "fetchAllFeeds testRuntime 720000000 RSS_FEEDS twoItemsRss = Inr articles"
    with twoItems_fetched
    have "map publishedAt articles = [''1970-01-08T08:00:00.000Z'', ''1970-01-09T08:00:00.000Z'']"
      by auto
    then have "set (map publishedAt articles)
                 = {''1970-01-08T08:00:00.000Z'', ''1970-01-09T08:00:00.000Z''}"
      by simp
    then have "\<forall>a \<in> set articles. publishedAt a \<in> {''1970-01-08T08:00:00.000Z'',
                  ''1970-01-09T08:00:00.000Z''}"
      by auto
    then show "\<forall>a \<in> set articles. parseDate testRuntime (publishedAt a) \<noteq> None"
      by (auto simp: testRuntime_parseDate)
  qed
  have em: "\<forall>c. (Map.empty :: EventData list TimedCache) (eventsCacheKey None None 7 50) = Some c
              \<longrightarrow> \<not> 0 - timestamp c < 60 * 60 * 1000"
    by simp
  have ef: "map_sum id (map startDate)
              (fetchFromAllSources testRuntime 0 (EVENT_SOURCES (Some ''key'') None)
                 eventbriteTwoEvents 7)
            = Inr [''1970-01-09T08:00:00.000Z'', ''1970-01-05T04:00:00.000Z'']"
    by (simp add: fetchFromAllSources_def EVENT_SOURCES_def
        fetchFromSource_def fetchEventbriteEvents_def fetchJson_def eventbriteTwoEvents_def
        parseEventbriteEvents_def parseEventbriteEvent_def detectIsland_def ISLAND_KEYWORDS_def
        mapEventbriteCategory_def EVENTBRITE_CATEGORIES_def toLowerCase_def toLowerChar_def
        scrapeEvents_def scrapeHTAEvents_def scrapeHonoluluMagEvents_def newDate_def
        Date_toISOString_def eventKey_def orElse_def testRuntime_def Let_def)
  have ed: "\<forall>allEvents. fetchFromAllSources testRuntime 0 (EVENT_SOURCES (Some ''key'') None)
                eventbriteTwoEvents 7 = Inr allEvents
              \<longrightarrow> (\<forall>e \<in> set allEvents. parseDate testRuntime (startDate e) \<noteq> None)"
  proof (intro allI impI)
    fix allEvents
    assume "fetchFromAllSources testRuntime 0 (EVENT_SOURCES (Some ''key'') None)
              eventbriteTwoEvents 7 = Inr allEvents"
    with ef
    have "map startDate allEvents = [''1970-01-09T08:00:00.000Z'', ''1970-01-05T04:00:00.000Z'']"
      by auto
    then have "set (map startDate allEvents)
                 = {''1970-01-09T08:00:00.000Z'', ''1970-01-05T04:00:00.000Z''}"
      by simp
    then have "\<forall>e \<in> set allEvents. startDate e \<in> {''1970-01-09T08:00:00.000Z'',
                  ''1970-01-05T04:00:00.000Z''}"
      by auto
    then show "\<forall>e \<in> set allEvents. parseDate testRuntime (startDate e) \<noteq> None"
      by (auto simp: testRuntime_parseDate)
  qed
  have v: "map_sum id (map (\<lambda>a. (title a, relevanceScore a, publishedAt a)))
     (fst (getLatestNews testRuntime Map.empty RSS_FEEDS 720000000 720000000 None 20 twoItemsRss))
   = Inr [(''Maui Kauai Lanai'', 3 / 10, ''1970-01-09T08:00:00.000Z''),
          (''Hawaii Honolulu Oahu'', 3 / 10, ''1970-01-08T08:00:00.000Z'')]"
  proof -
    obtain a b where ab: "fetchAllFeeds testRuntime 720000000 RSS_FEEDS twoItemsRss = Inr [a, b]"
      and a: "title a = ''Hawaii Honolulu Oahu''" "relevanceScore a = 3 / 10"
        "publishedAt a = ''1970-01-08T08:00:00.000Z''"
      and b: "title b = ''Maui Kauai Lanai''" "relevanceScore b = 3 / 10"
        "publishedAt b = ''1970-01-09T08:00:00.000Z''"
      using twoItems_fetched
      by (cases "fetchAllFeeds testRuntime 720000000 RSS_FEEDS twoItemsRss") auto
    show ?thesis
      by (simp add: getLatestNews_def getLatestNews_settle_def ab a b sortBy_def compareNews_def
          orNum_def slice0_def testRuntime_parseDate Let_def)
  qed
  from returned_lists_order [where ncache = Map.empty and ncat = None and limit = 20
      and ?t0.0 = 720000000 and ?t1.0 = 720000000 and rt = testRuntime and feeds = RSS_FEEDS
      and rss = twoItemsRss, THEN conjunct1] nm nd
  have n: "\<exists>result. fst (getLatestNews testRuntime Map.empty RSS_FEEDS 720000000 720000000 None 20
                       twoItemsRss) = Inr result
         \<and> sorted_wrt (\<lambda>a b. relevanceScore b < relevanceScore a
                \<or> (relevanceScore a = relevanceScore b
                    \<and> the (parseDate testRuntime (publishedAt b))
                        \<le> the (parseDate testRuntime (publishedAt a))))
              result"
    by blast
  from returned_lists_order [where ecache = Map.empty and island = None and ecat = None
      and daysAhead = 7 and limit = 50 and ?t0.0 = 0 and ?t1.0 = 0 and rt = testRuntime
      and sources = "EVENT_SOURCES (Some ''key'') None" and x = eventbriteTwoEvents,
      THEN conjunct2, THEN conjunct1] em ed
  have e: "\<exists>result. fst (getEvents testRuntime Map.empty (EVENT_SOURCES (Some ''key'') None) 0 0 None None
                       7 50 eventbriteTwoEvents) = Inr result
         \<and> sorted_wrt (\<lambda>a b. the (parseDate testRuntime (startDate a))
                               \<le> the (parseDate testRuntime (startDate b)))
              result"
    by blast
  from v n e show ?thesis by blast
qed

text \<open>
  The claim as stated fails for events: when Eventbrite returns a free concert that
  starts in 200 hours and a paid trail run that starts in 100 hours, \<open>getEvents\<close>
  returns the trail run, of event score 0, before the concert, of event score 3.
\<close>

theorem getEvents_order_counterexample:
  "map_sum id (map (\<lambda>e. (ev_title e, calculateEventScore testRuntime 0 e)))
     (fst (getEvents testRuntime Map.empty (EVENT_SOURCES (Some ''key'') None) 0 0 None None 7 50
             eventbriteTwoEvents))
   = Inr [(''Trail Run'', 0), (''Slack Key Concert'', 3)]"
  by (simp add: getEvents_def getEvents_settle_def fetchFromAllSources_def EVENT_SOURCES_def
      fetchFromSource_def fetchEventbriteEvents_def fetchJson_def eventbriteTwoEvents_def
      parseEventbriteEvents_def parseEventbriteEvent_def detectIsland_def ISLAND_KEYWORDS_def
      mapEventbriteCategory_def EVENTBRITE_CATEGORIES_def toLowerCase_def toLowerChar_def
      scrapeEvents_def scrapeHTAEvents_def scrapeHonoluluMagEvents_def newDate_def
      Date_toISOString_def eventKey_def filterEvents_def sortBy_def compareEvents_def slice0_def
      calculateEventScore_def orElse_def testRuntime_def Let_def)

subsection \<open>The public operations never reject\<close>

lemma getWeatherData_fetch_fulfils:
  "\<exists>v c. getWeatherData_fetch rt pcc pal cache t1 island up = (Inr v, c)"
  by (simp add: getWeatherData_fetch_def split: sum.splits option.splits)

lemma getWeatherData_fulfils:
  "\<exists>v c. getWeatherData rt pcc pal cache t0 t1 island up = (Inr v, c)"
  using getWeatherData_fetch_fulfils [of rt pcc pal _ t1 island up]
  by (auto simp: getWeatherData_def split: prod.splits option.splits)

lemma getSurfData_fulfils:
  "\<exists>v c. getSurfData rt cache t0 t1 island up = (Inr v, c)"
  by (simp add: getSurfData_def getSurfData_fetch_def split: sum.splits option.splits)

lemma getLatestNews_fulfils:
  "\<exists>v c. getLatestNews rt cache feeds t0 t1 cat limit rss = (Inr v, c)"
  by (simp add: getLatestNews_def getLatestNews_settle_def Let_def
      split: sum.splits option.splits)

lemma getEvents_fulfils:
  "\<exists>v c. getEvents rt cache sources t0 t1 island cat daysAhead limit x = (Inr v, c)"
  by (simp add: getEvents_def getEvents_settle_def Let_def split: sum.splits option.splits)

lemma getWeatherData_fallback:
  assumes "fst (Cache_get cache t0 (weatherCacheKey island)) = None"
    and "fetchNOAAWeather rt pcc pal t1 up = Inl e"
  shows "fst (getWeatherData rt pcc pal cache t0 t1 island up)
           = Inr (getFallbackWeatherData rt t1 island)"
  using assms
  by (cases "Cache_get cache t0 (weatherCacheKey island)")
    (simp add: getWeatherData_def getWeatherData_fetch_def ISLAND_COORDINATES_def
      split: option.splits)

text \<open>
  C1.  Whatever the island, category, limits, clock readings, cache contents and
  upstream outcomes are (every awaited upstream operation settles, by fulfilling or
  by rejecting), \<open>getWeatherData\<close>, \<open>getSurfData\<close>, \<open>getLatestNews\<close> and \<open>getEvents\<close>
  fulfil with a value of their domain type and never reject.  An internal failure
  becomes a value: when the NOAA fetch raises after a cache miss, \<open>getWeatherData\<close>
  returns the fallback weather data; a surf spot or tide fetch that fails is replaced by
  the fallback spot or tide data; a feed or event source that fails contributes no
  records.
\<close>

theorem getters_never_reject:
  "(\<exists>v c. getWeatherData rt pcc pal wcache t0 t1 island wup = (Inr v, c))
   \<and> (\<exists>v c. getSurfData rt scache t0 t1 island surfUp = (Inr v, c))
   \<and> (\<exists>v c. getLatestNews rt ncache feeds t0 t1 ncat limit rss = (Inr v, c))
   \<and> (\<exists>v c. getEvents rt ecache sources t0 t1 oisland ecat daysAhead limit x = (Inr v, c))
   \<and> (fst (Cache_get wcache t0 (weatherCacheKey island)) = None
        \<and> fetchNOAAWeather rt pcc pal t1 wup = Inl e
      \<longrightarrow> fst (getWeatherData rt pcc pal wcache t0 t1 island wup)
            = Inr (getFallbackWeatherData rt t1 island))
   \<and> (outcome sx = Inl e \<longrightarrow> snd (fetchSpotData rt t1 spot sx) = Inr (getFallbackSpotData rt t1 spot))
   \<and> (outcome tx = Inl e
      \<longrightarrow> snd (fetchTideData rt t1 island tx) = Inr (getFallbackTideData rt t1 island))
   \<and> (rss (url feed) = Inl e \<longrightarrow> fetchFeed rt t1 rss feed = Inr [])
   \<and> (outcome x = Inl e \<longrightarrow> snd (fetchEventbriteEvents rt t1 source daysAhead x) = Inr [])"
proof -
  have 1: "outcome sx = Inl e \<longrightarrow> snd (fetchSpotData rt t1 spot sx) = Inr (getFallbackSpotData rt t1 spot)"
    by (simp add: fetchSpotData_def fetchJson_def)
  have 2: "outcome tx = Inl e
      \<longrightarrow> snd (fetchTideData rt t1 island tx) = Inr (getFallbackTideData rt t1 island)"
    by (cases island) (simp_all add: fetchTideData_def fetchJson_def TIDE_STATIONS_def)
  have 3: "rss (url feed) = Inl e \<longrightarrow> fetchFeed rt t1 rss feed = Inr []"
    by (simp add: fetchFeed_def)
  have 4: "outcome x = Inl e \<longrightarrow> snd (fetchEventbriteEvents rt t1 source daysAhead x) = Inr []"
    by (simp add: fetchEventbriteEvents_def fetchJson_def split: sum.splits)
  have 5: "fst (Cache_get wcache t0 (weatherCacheKey island)) = None
        \<and> fetchNOAAWeather rt pcc pal t1 wup = Inl e
      \<longrightarrow> fst (getWeatherData rt pcc pal wcache t0 t1 island wup)
            = Inr (getFallbackWeatherData rt t1 island)"
    using getWeatherData_fallback [of wcache t0 island rt pcc pal t1 wup e] by simp
  show ?thesis
    by (intro conjI) (rule getWeatherData_fulfils getSurfData_fulfils getLatestNews_fulfils
        getEvents_fulfils 1 2 3 4 5)+
qed

theorem getters_never_reject_witness:
  "fst (getWeatherData testRuntime (\<lambda>g. Inr getDefaultCurrent) (\<lambda>a. Inr []) Map.empty 0 50 oahu
          failingNoaa)
     = Inr (getFallbackWeatherData testRuntime 50 oahu)"
proof -
  have 1: "fst (Cache_get (Map.empty :: WeatherData Cache) 0 (weatherCacheKey oahu)) = None"
    by (simp add: Cache_get_def)
  have 2: "fetchNOAAWeather testRuntime (\<lambda>g. Inr getDefaultCurrent) (\<lambda>a. Inr []) 50 failingNoaa
             = Inl (Error ''ECONNREFUSED'')"
    by (simp add: fetchNOAAWeather_def fetchNOAAWeather_timed_def fetchWithTimeout_def failingNoaa_def failingExchange_def)
  from getters_never_reject [where rt = testRuntime and pcc = "\<lambda>g. Inr getDefaultCurrent"
      and pal = "\<lambda>a. Inr []" and wcache = Map.empty and ?t0.0 = 0 and ?t1.0 = 50 and island = oahu
      and wup = failingNoaa and e = "Error ''ECONNREFUSED''"] 1 2
  show ?thesis by simp
qed

subsection \<open>Reading a stale entry\<close>

lemma getLatestNews_settle_keeps:
  "cache k \<noteq> None \<Longrightarrow> snd (getLatestNews_settle rt cache t1 cat limit fetched) k \<noteq> None"
  by (simp add: getLatestNews_settle_def Let_def split: sum.splits option.splits)

lemma getEvents_settle_keeps:
  "cache k \<noteq> None \<Longrightarrow> snd (getEvents_settle rt cache t1 island cat daysAhead limit fetched) k \<noteq> None"
  by (simp add: getEvents_settle_def Let_def split: sum.splits option.splits)

lemma map_filter_all_Some:
  "\<forall>x \<in> set xs. f (h x) = Some (g x) \<Longrightarrow> List.map_filter f (map h xs) = map g xs"
  by (induction xs) (simp_all add: List.map_filter_simps)

lemma fetchSpotData_fails:
  "outcome x = Inl e \<Longrightarrow> snd (fetchSpotData rt now spot x) = Inr (getFallbackSpotData rt now spot)"
  by (simp add: fetchSpotData_def fetchJson_def)

lemma fetchTideData_fails:
  "outcome x = Inl e \<Longrightarrow> snd (fetchTideData rt now island x) = Inr (getFallbackTideData rt now island)"
  by (cases island) (simp_all add: fetchTideData_def TIDE_STATIONS_def fetchJson_def)

lemma getSurfData_try_all_fail:
  assumes s: "\<forall>spot \<in> set SURF_SPOTS. spot_island spot = island
                \<longrightarrow> (\<exists>e. outcome (spotExchange up (spot_id spot)) = Inl e)"
    and t: "\<exists>e. outcome (tideExchange up) = Inl e"
  shows "getSurfData_try rt t1 island up
           = Inr \<lparr>spots = map (getFallbackSpotData rt t1)
                             (filter (\<lambda>spot. spot_island spot = island) SURF_SPOTS),
                  surf_tides = getFallbackTideData rt t1 island,
                  surf_lastUpdated = toISOString rt t1\<rparr>"
proof -
  have "\<forall>spot \<in> set (filter (\<lambda>spot. spot_island spot = island) SURF_SPOTS).
          fulfilledValue (snd (fetchSpotData rt t1 spot (spotExchange up (spot_id spot))))
            = Some (getFallbackSpotData rt t1 spot)"
    using s by (auto simp: fetchSpotData_fails fulfilledValue_def)
  then have m: "List.map_filter fulfilledValue
                  (map (\<lambda>spot. snd (fetchSpotData rt t1 spot (spotExchange up (spot_id spot))))
                     (filter (\<lambda>spot. spot_island spot = island) SURF_SPOTS))
                = map (getFallbackSpotData rt t1)
                    (filter (\<lambda>spot. spot_island spot = island) SURF_SPOTS)"
    by (rule map_filter_all_Some)
  from t obtain e where "outcome (tideExchange up) = Inl e" by blast
  then have "snd (fetchTideData rt t1 island (tideExchange up))
               = Inr (getFallbackTideData rt t1 island)"
    by (rule fetchTideData_fails)
  with m show ?thesis
    by (simp add: getSurfData_try_def Let_def)
qed

text \<open>
  C3 (as amended).  A fresh entry for the requested key is returned by every getter
  without any fetch.  The news, events and surf getters never delete an entry: an
  expired entry stays in the store until it is overwritten or the store is cleared.
  The weather and the surf service have no stale read.  In the weather service
  \<open>Cache.get\<close> deletes an expired entry when it reads it; with an expired entry
  \<open>getWeatherData\<close> returns what it returns on an empty store, and when the NOAA fetch
  fails that is the static fallback data.  With an expired entry \<open>getSurfData\<close> returns
  what it returns on an empty store, and when the fetch of every spot of the island and
  the tide fetch fail that is the fallback record of every spot with the fallback tide
  table.
\<close>

theorem stale_entry_fallback:
  "(ncache (newsCacheKey ncat limit) = Some ncached \<and> t0 - timestamp ncached < 15 * 60 * 1000
      \<longrightarrow> getLatestNews rt ncache feeds t0 t1 ncat limit rss = (Inr (data ncached), ncache))
   \<and> (ecache (eventsCacheKey oisland ecat daysAhead limit) = Some ecached
        \<and> t0 - timestamp ecached < 60 * 60 * 1000
      \<longrightarrow> getEvents rt ecache sources t0 t1 oisland ecat daysAhead limit x
            = (Inr (data ecached), ecache))
   \<and> (scache (surfCacheKey island) = Some scached \<and> t0 - timestamp scached < 30 * 60 * 1000
      \<longrightarrow> getSurfData rt scache t0 t1 island surfUp = (Inr (data scached), scache))
   \<and> (wcache (weatherCacheKey island) = Some wcached \<and> t0 - timestamp wcached \<le> ttl wcached
      \<longrightarrow> getWeatherData rt pcc pal wcache t0 t1 island wup = (Inr (data wcached), wcache))
   \<and> (ncache k \<noteq> None \<longrightarrow> snd (getLatestNews rt ncache feeds t0 t1 ncat limit rss) k \<noteq> None)
   \<and> (ecache k \<noteq> None
      \<longrightarrow> snd (getEvents rt ecache sources t0 t1 oisland ecat daysAhead limit x) k \<noteq> None)
   \<and> (scache k \<noteq> None \<longrightarrow> snd (getSurfData rt scache t0 t1 island surfUp) k \<noteq> None)
   \<and> (wcache k = Some entry \<and> t0 - timestamp entry > ttl entry
      \<longrightarrow> fst (Cache_get wcache t0 k) = None \<and> snd (Cache_get wcache t0 k) k = None)
   \<and> (wcache (weatherCacheKey island) = Some wcached \<and> t0 - timestamp wcached > ttl wcached
      \<longrightarrow> fst (getWeatherData rt pcc pal wcache t0 t1 island wup)
            = fst (getWeatherData rt pcc pal Map.empty t0 t1 island wup))
   \<and> (fst (Cache_get wcache t0 (weatherCacheKey island)) = None
        \<and> fetchNOAAWeather rt pcc pal t1 wup = Inl e
      \<longrightarrow> fst (getWeatherData rt pcc pal wcache t0 t1 island wup)
            = Inr (getFallbackWeatherData rt t1 island))
   \<and> (scache (surfCacheKey island) = Some scached \<and> \<not> t0 - timestamp scached < 30 * 60 * 1000
      \<longrightarrow> fst (getSurfData rt scache t0 t1 island surfUp)
            = fst (getSurfData rt Map.empty t0 t1 island surfUp))
   \<and> ((\<forall>c. scache (surfCacheKey island) = Some c \<longrightarrow> \<not> t0 - timestamp c < 30 * 60 * 1000)
        \<and> (\<forall>spot \<in> set SURF_SPOTS. spot_island spot = island
              \<longrightarrow> (\<exists>e. outcome (spotExchange surfUp (spot_id spot)) = Inl e))
        \<and> (\<exists>e. outcome (tideExchange surfUp) = Inl e)
      \<longrightarrow> fst (getSurfData rt scache t0 t1 island surfUp)
            = Inr \<lparr>spots = map (getFallbackSpotData rt t1)
                              (filter (\<lambda>spot. spot_island spot = island) SURF_SPOTS),
                   surf_tides = getFallbackTideData rt t1 island,
                   surf_lastUpdated = toISOString rt t1\<rparr>)"
proof -
  have 1: "wcache (weatherCacheKey island) = Some wcached \<and> t0 - timestamp wcached > ttl wcached
      \<longrightarrow> fst (getWeatherData rt pcc pal wcache t0 t1 island wup)
            = fst (getWeatherData rt pcc pal Map.empty t0 t1 island wup)"
    by (simp add: getWeatherData_def getWeatherData_fetch_def Cache_get_def
        split: option.splits sum.splits)
  have 2: "scache (surfCacheKey island) = Some scached \<and> \<not> t0 - timestamp scached < 30 * 60 * 1000
      \<longrightarrow> fst (getSurfData rt scache t0 t1 island surfUp)
            = fst (getSurfData rt Map.empty t0 t1 island surfUp)"
    by (simp add: getSurfData_def getSurfData_fetch_def split: sum.splits)
  have 3: "ncache k \<noteq> None \<longrightarrow> snd (getLatestNews rt ncache feeds t0 t1 ncat limit rss) k \<noteq> None"
    using getLatestNews_settle_keeps [of ncache k rt t1 ncat limit]
    by (simp add: getLatestNews_def split: option.splits)
  have 4: "ecache k \<noteq> None
      \<longrightarrow> snd (getEvents rt ecache sources t0 t1 oisland ecat daysAhead limit x) k \<noteq> None"
    using getEvents_settle_keeps [of ecache k rt t1 oisland ecat daysAhead limit]
    by (simp add: getEvents_def split: option.splits)
  have 5: "scache k \<noteq> None \<longrightarrow> snd (getSurfData rt scache t0 t1 island surfUp) k \<noteq> None"
    by (simp add: getSurfData_def getSurfData_fetch_def split: option.splits sum.splits)
  have 6: "wcache k = Some entry \<and> t0 - timestamp entry > ttl entry
      \<longrightarrow> fst (Cache_get wcache t0 k) = None \<and> snd (Cache_get wcache t0 k) k = None"
    by (simp add: Cache_get_def)
  have 7: "fst (Cache_get wcache t0 (weatherCacheKey island)) = None
        \<and> fetchNOAAWeather rt pcc pal t1 wup = Inl e
      \<longrightarrow> fst (getWeatherData rt pcc pal wcache t0 t1 island wup)
            = Inr (getFallbackWeatherData rt t1 island)"
    using getWeatherData_fallback [of wcache t0 island rt pcc pal t1 wup e] by simp
  have 8: "ncache (newsCacheKey ncat limit) = Some ncached \<and> t0 - timestamp ncached < 15 * 60 * 1000
      \<longrightarrow> getLatestNews rt ncache feeds t0 t1 ncat limit rss = (Inr (data ncached), ncache)"
    by (simp add: getLatestNews_def)
  have 9: "ecache (eventsCacheKey oisland ecat daysAhead limit) = Some ecached
        \<and> t0 - timestamp ecached < 60 * 60 * 1000
      \<longrightarrow> getEvents rt ecache sources t0 t1 oisland ecat daysAhead limit x
            = (Inr (data ecached), ecache)"
    by (simp add: getEvents_def)
  have 10: "scache (surfCacheKey island) = Some scached \<and> t0 - timestamp scached < 30 * 60 * 1000
      \<longrightarrow> getSurfData rt scache t0 t1 island surfUp = (Inr (data scached), scache)"
    by (simp add: getSurfData_def)
  have 11: "wcache (weatherCacheKey island) = Some wcached \<and> t0 - timestamp wcached \<le> ttl wcached
      \<longrightarrow> getWeatherData rt pcc pal wcache t0 t1 island wup = (Inr (data wcached), wcache)"
    by (simp add: getWeatherData_def Cache_get_def)
  have 12: "(\<forall>c. scache (surfCacheKey island) = Some c \<longrightarrow> \<not> t0 - timestamp c < 30 * 60 * 1000)
        \<and> (\<forall>spot \<in> set SURF_SPOTS. spot_island spot = island
              \<longrightarrow> (\<exists>e. outcome (spotExchange surfUp (spot_id spot)) = Inl e))
        \<and> (\<exists>e. outcome (tideExchange surfUp) = Inl e)
      \<longrightarrow> fst (getSurfData rt scache t0 t1 island surfUp)
            = Inr \<lparr>spots = map (getFallbackSpotData rt t1)
                              (filter (\<lambda>spot. spot_island spot = island) SURF_SPOTS),
                   surf_tides = getFallbackTideData rt t1 island,
                   surf_lastUpdated = toISOString rt t1\<rparr>"
  proof (intro impI, elim conjE)
    assume m: "\<forall>c. scache (surfCacheKey island) = Some c \<longrightarrow> \<not> t0 - timestamp c < 30 * 60 * 1000"
      and s: "\<forall>spot \<in> set SURF_SPOTS. spot_island spot = island
              \<longrightarrow> (\<exists>e. outcome (spotExchange surfUp (spot_id spot)) = Inl e)"
      and t: "\<exists>e. outcome (tideExchange surfUp) = Inl e"
    from m have "getSurfData rt scache t0 t1 island surfUp
                   = getSurfData_fetch rt scache t1 island surfUp"
      by (simp add: getSurfData_def split: option.splits)
    then show "fst (getSurfData rt scache t0 t1 island surfUp)
            = Inr \<lparr>spots = map (getFallbackSpotData rt t1)
                              (filter (\<lambda>spot. spot_island spot = island) SURF_SPOTS),
                   surf_tides = getFallbackTideData rt t1 island,
                   surf_lastUpdated = toISOString rt t1\<rparr>"
      by (simp add: getSurfData_fetch_def getSurfData_try_all_fail [OF s t])
  qed
  show ?thesis
    by (intro conjI) (rule 1 2 3 4 5 6 7 8 9 10 11 12)+
qed

theorem stale_entry_fallback_witness:
  "fst (getSurfData testRuntime (Map.empty(surfCacheKey oahu \<mapsto> \<lparr>data = staleSurf, timestamp = 0\<rparr>))
          86400000 86400000 oahu failingSurf)
     = Inr \<lparr>spots = map (getFallbackSpotData testRuntime 86400000)
                       (filter (\<lambda>spot. spot_island spot = oahu) SURF_SPOTS),
            surf_tides = getFallbackTideData testRuntime 86400000 oahu,
            surf_lastUpdated = toISOString testRuntime 86400000\<rparr>
   \<and> snd (getSurfData testRuntime (Map.empty(surfCacheKey oahu \<mapsto> \<lparr>data = staleSurf, timestamp = 0\<rparr>))
            86400000 86400000 oahu failingSurf) (surfCacheKey oahu) \<noteq> None
   \<and> fst (Cache_get (Cache_set Map.empty 0 (weatherCacheKey oahu) staleWeather 15) 1000000
            (weatherCacheKey oahu)) = None
   \<and> snd (Cache_get (Cache_set Map.empty 0 (weatherCacheKey oahu) staleWeather 15) 1000000
            (weatherCacheKey oahu)) (weatherCacheKey oahu) = None
   \<and> fst (getWeatherData testRuntime (\<lambda>g. Inr getDefaultCurrent) (\<lambda>a. Inr [])
            (Cache_set Map.empty 0 (weatherCacheKey oahu) staleWeather 15) 1000000 1000050 oahu
            failingNoaa)
       = Inr (getFallbackWeatherData testRuntime 1000050 oahu)
   \<and> getLatestNews testRuntime
        (Map.empty(newsCacheKey None 20 \<mapsto> \<lparr>data = getFallbackNews testRuntime 0, timestamp = 0\<rparr>))
        RSS_FEEDS 60000 60000 None 20 twoItemsRss
       = (Inr (getFallbackNews testRuntime 0),
          Map.empty(newsCacheKey None 20 \<mapsto> \<lparr>data = getFallbackNews testRuntime 0, timestamp = 0\<rparr>))"
proof -
  let ?sc = "Map.empty(surfCacheKey oahu \<mapsto> \<lparr>data = staleSurf, timestamp = 0\<rparr>)"
  let ?wc = "Cache_set Map.empty 0 (weatherCacheKey oahu) staleWeather 15"
  let ?nc = "Map.empty(newsCacheKey None 20 \<mapsto> \<lparr>data = getFallbackNews testRuntime 0, timestamp = 0\<rparr>)"
  have s1: "\<forall>c. ?sc (surfCacheKey oahu) = Some c \<longrightarrow> \<not> 86400000 - timestamp c < 30 * 60 * 1000"
    by simp
  have s2: "\<forall>spot \<in> set SURF_SPOTS. spot_island spot = oahu
              \<longrightarrow> (\<exists>e. outcome (spotExchange failingSurf (spot_id spot)) = Inl e)"
    by (simp add: failingSurf_def failingExchange_def)
  have s3: "\<exists>e. outcome (tideExchange failingSurf) = Inl e"
    by (simp add: failingSurf_def failingExchange_def)
  from stale_entry_fallback [where scache = ?sc and island = oahu and ?t0.0 = 86400000
      and ?t1.0 = 86400000 and surfUp = failingSurf and rt = testRuntime,
      THEN conjunct2, THEN conjunct2, THEN conjunct2, THEN conjunct2, THEN conjunct2,
      THEN conjunct2, THEN conjunct2, THEN conjunct2, THEN conjunct2, THEN conjunct2,
      THEN conjunct2] s1 s2 s3
  have a: "fst (getSurfData testRuntime ?sc 86400000 86400000 oahu failingSurf)
     = Inr \<lparr>spots = map (getFallbackSpotData testRuntime 86400000)
                       (filter (\<lambda>spot. spot_island spot = oahu) SURF_SPOTS),
            surf_tides = getFallbackTideData testRuntime 86400000 oahu,
            surf_lastUpdated = toISOString testRuntime 86400000\<rparr>"
    by blast
  have "?sc (surfCacheKey oahu) \<noteq> None" by simp
  with stale_entry_fallback [where scache = ?sc and k = "surfCacheKey oahu" and island = oahu
      and ?t0.0 = 86400000 and ?t1.0 = 86400000 and surfUp = failingSurf and rt = testRuntime,
      THEN conjunct2, THEN conjunct2, THEN conjunct2, THEN conjunct2, THEN conjunct2,
      THEN conjunct2, THEN conjunct1]
  have b: "snd (getSurfData testRuntime ?sc 86400000 86400000 oahu failingSurf) (surfCacheKey oahu)
             \<noteq> None"
    by blast
  have w1: "?wc (weatherCacheKey oahu) = Some \<lparr>data = staleWeather, timestamp = 0, ttl = 900000\<rparr>"
    by (simp add: Cache_set_def)
  have w2: "1000000 - timestamp \<lparr>data = staleWeather, timestamp = 0, ttl = 900000\<rparr>
              > ttl \<lparr>data = staleWeather, timestamp = 0, ttl = 900000\<rparr>"
    by simp
  from stale_entry_fallback [where wcache = ?wc and k = "weatherCacheKey oahu"
      and entry = "\<lparr>data = staleWeather, timestamp = 0, ttl = 900000\<rparr>" and ?t0.0 = 1000000,
      THEN conjunct2, THEN conjunct2, THEN conjunct2, THEN conjunct2, THEN conjunct2,
      THEN conjunct2, THEN conjunct2, THEN conjunct1] w1 w2
  have c: "fst (Cache_get ?wc 1000000 (weatherCacheKey oahu)) = None
           \<and> snd (Cache_get ?wc 1000000 (weatherCacheKey oahu)) (weatherCacheKey oahu) = None"
    by blast
  have w3: "fetchNOAAWeather testRuntime (\<lambda>g. Inr getDefaultCurrent) (\<lambda>a. Inr []) 1000050 failingNoaa
              = Inl (Error ''ECONNREFUSED'')"
    by (simp add: fetchNOAAWeather_def fetchNOAAWeather_timed_def fetchWithTimeout_def
        failingNoaa_def failingExchange_def)
  from stale_entry_fallback [where wcache = ?wc and island = oahu and ?t0.0 = 1000000
      and ?t1.0 = 1000050 and rt = testRuntime and pcc = "\<lambda>g. Inr getDefaultCurrent"
      and pal = "\<lambda>a. Inr []" and wup = failingNoaa and e = "Error ''ECONNREFUSED''",
      THEN conjunct2, THEN conjunct2, THEN conjunct2, THEN conjunct2, THEN conjunct2,
      THEN conjunct2, THEN conjunct2, THEN conjunct2, THEN conjunct2, THEN conjunct1] c w3
  have d: "fst (getWeatherData testRuntime (\<lambda>g. Inr getDefaultCurrent) (\<lambda>a. Inr []) ?wc 1000000
                  1000050 oahu failingNoaa)
             = Inr (getFallbackWeatherData testRuntime 1000050 oahu)"
    by blast
  have n1: "?nc (newsCacheKey None 20) = Some \<lparr>data = getFallbackNews testRuntime 0, timestamp = 0\<rparr>"
    by simp
  have n2: "60000 - timestamp \<lparr>data = getFallbackNews testRuntime 0, timestamp = 0\<rparr> < 15 * 60 * 1000"
    by simp
  from stale_entry_fallback [where ncache = ?nc and ncat = None and limit = 20
      and ncached = "\<lparr>data = getFallbackNews testRuntime 0, timestamp = 0\<rparr>" and ?t0.0 = 60000
      and ?t1.0 = 60000 and rt = testRuntime and feeds = RSS_FEEDS and rss = twoItemsRss,
      THEN conjunct1] n1 n2
  have e: "getLatestNews testRuntime ?nc RSS_FEEDS 60000 60000 None 20 twoItemsRss
             = (Inr (data \<lparr>data = getFallbackNews testRuntime 0, timestamp = 0\<rparr>), ?nc)"
    by blast
  from a b c d e show ?thesis by simp
qed

text \<open>
  The claim as stated fails for the weather service: with an expired entry in the
  store and every NOAA exchange failing, \<open>getWeatherData\<close> returns the static fallback
  data, not the cached value, and the expired entry is gone from the store afterwards.
\<close>

theorem getWeatherData_stale_counterexample:
  "Cache_set Map.empty 0 (weatherCacheKey oahu) staleWeather 15 (weatherCacheKey oahu)
     = Some \<lparr>data = staleWeather, timestamp = 0, ttl = 900000\<rparr>
   \<and> fst (getWeatherData testRuntime (\<lambda>g. Inr getDefaultCurrent) (\<lambda>a. Inr [])
            (Cache_set Map.empty 0 (weatherCacheKey oahu) staleWeather 15) 1000000 1000050 oahu
            failingNoaa)
       = Inr (getFallbackWeatherData testRuntime 1000050 oahu)
   \<and> getFallbackWeatherData testRuntime 1000050 oahu \<noteq> staleWeather
   \<and> snd (getWeatherData testRuntime (\<lambda>g. Inr getDefaultCurrent) (\<lambda>a. Inr [])
            (Cache_set Map.empty 0 (weatherCacheKey oahu) staleWeather 15) 1000000 1000050 oahu
            failingNoaa) (weatherCacheKey oahu)
       = None"
  by (simp add: getWeatherData_def getWeatherData_fetch_def Cache_get_def Cache_set_def
      fetchNOAAWeather_def fetchNOAAWeather_timed_def fetchWithTimeout_def failingNoaa_def failingExchange_def
      ISLAND_COORDINATES_def getFallbackWeatherData_def staleWeather_def testRuntime_def)

subsection \<open>Every source failing\<close>

lemma mergeSettled_all_empty:
  "\<forall>r \<in> set results. r = Inr [] \<Longrightarrow> mergeSettled key results st = st"
  by (induction results arbitrary: st) auto

lemma fetchAllFeeds_all_fail:
  assumes "\<forall>feed \<in> set feeds. enabled feed \<longrightarrow> (\<exists>e. rss (url feed) = Inl e)"
  shows "fetchAllFeeds rt now feeds rss = Inr []"
proof -
  have "\<forall>r \<in> set (map (fetchFeed rt now rss) (filter enabled feeds)). r = Inr []"
    using assms by (auto simp: fetchFeed_def)
  then show ?thesis
    by (simp add: fetchAllFeeds_def Let_def mergeSettled_all_empty)
qed

lemma fetchEventbriteEvents_fail:
  "outcome x = Inl e \<Longrightarrow> snd (fetchEventbriteEvents rt now source daysAhead x) = Inr []"
  by (simp add: fetchEventbriteEvents_def fetchJson_def split: sum.splits)

lemma scrapeHTAEvents_beyond:
  assumes "\<forall>d. parseDate rt (toISOString rt (now + 10 * 24 * 60 * 60 * 1000)) = Some d
             \<longrightarrow> now + daysAhead * 24 * 60 * 60 * 1000 < d"
  shows "scrapeHTAEvents rt now daysAhead = Inr []"
  using assms
  by (auto simp: scrapeHTAEvents_def Let_def newDate_def split: option.splits)

lemma fetchFromAllSources_all_fail:
  assumes "outcome x = Inl e"
    and "\<forall>d. parseDate rt (toISOString rt (now + 10 * 24 * 60 * 60 * 1000)) = Some d
             \<longrightarrow> now + daysAhead * 24 * 60 * 60 * 1000 < d"
  shows "fetchFromAllSources rt now (EVENT_SOURCES k f) x daysAhead = Inr []"
  by (simp add: fetchFromAllSources_def EVENT_SOURCES_def fetchFromSource_def scrapeEvents_def
      scrapeHonoluluMagEvents_def fetchEventbriteEvents_fail [OF assms(1)]
      scrapeHTAEvents_beyond [OF assms(2)] Let_def)

text \<open>
  C4, the behaviour of the code.  When \<open>rssParser.parseURL\<close> rejects for every enabled
  feed and the store has no entry for the key, \<open>getLatestNews\<close> returns the empty list
  and stores it under the key; it does not return the static default of
  \<open>getFallbackNews\<close>, which is not empty.  Each \<open>fetchFeed\<close> turns its failure into an
  empty list, so \<open>fetchAllFeeds\<close> fulfils and the handler that returns the default is
  not entered.  \<open>getEvents\<close> does the same when the Eventbrite exchange fails and the
  mock scrapers have no event within \<open>daysAhead\<close> days: it returns and stores the empty
  list, not \<open>getFallbackEvents\<close>.
\<close>

theorem all_sources_fail_returns_empty:
  "((\<forall>feed \<in> set feeds. enabled feed \<longrightarrow> (\<exists>e. rss (url feed) = Inl e))
      \<and> ncache (newsCacheKey ncat limit) = None
    \<longrightarrow> getLatestNews rt ncache feeds t0 t1 ncat limit rss
          = (Inr [], ncache(newsCacheKey ncat limit \<mapsto> \<lparr>data = [], timestamp = t1\<rparr>))
        \<and> getFallbackNews rt t1 \<noteq> [])
   \<and> (outcome x = Inl e
      \<and> (\<forall>d. parseDate rt (toISOString rt (t1 + 10 * 24 * 60 * 60 * 1000)) = Some d
              \<longrightarrow> t1 + daysAhead * 24 * 60 * 60 * 1000 < d)
      \<and> ecache (eventsCacheKey oisland ecat daysAhead limit) = None
    \<longrightarrow> getEvents rt ecache (EVENT_SOURCES k f) t0 t1 oisland ecat daysAhead limit x
          = (Inr [], ecache(eventsCacheKey oisland ecat daysAhead limit
                              \<mapsto> \<lparr>data = [], timestamp = t1\<rparr>))
        \<and> getFallbackEvents rt t1 None \<noteq> [])"
proof -
  have 1: "(\<forall>feed \<in> set feeds. enabled feed \<longrightarrow> (\<exists>e. rss (url feed) = Inl e))
      \<and> ncache (newsCacheKey ncat limit) = None
    \<longrightarrow> getLatestNews rt ncache feeds t0 t1 ncat limit rss
          = (Inr [], ncache(newsCacheKey ncat limit \<mapsto> \<lparr>data = [], timestamp = t1\<rparr>))
        \<and> getFallbackNews rt t1 \<noteq> []"
  proof (intro impI, elim conjE)
    assume a: "\<forall>feed \<in> set feeds. enabled feed \<longrightarrow> (\<exists>e. rss (url feed) = Inl e)"
      and b: "ncache (newsCacheKey ncat limit) = None"
    from b show "getLatestNews rt ncache feeds t0 t1 ncat limit rss
          = (Inr [], ncache(newsCacheKey ncat limit \<mapsto> \<lparr>data = [], timestamp = t1\<rparr>))
        \<and> getFallbackNews rt t1 \<noteq> []"
      by (cases ncat)
        (simp_all add: getLatestNews_def getLatestNews_settle_def fetchAllFeeds_all_fail [OF a]
          Let_def sortBy_def slice0_def getFallbackNews_def)
  qed
  have 2: "outcome x = Inl e
      \<and> (\<forall>d. parseDate rt (toISOString rt (t1 + 10 * 24 * 60 * 60 * 1000)) = Some d
              \<longrightarrow> t1 + daysAhead * 24 * 60 * 60 * 1000 < d)
      \<and> ecache (eventsCacheKey oisland ecat daysAhead limit) = None
    \<longrightarrow> getEvents rt ecache (EVENT_SOURCES k f) t0 t1 oisland ecat daysAhead limit x
          = (Inr [], ecache(eventsCacheKey oisland ecat daysAhead limit
                              \<mapsto> \<lparr>data = [], timestamp = t1\<rparr>))
        \<and> getFallbackEvents rt t1 None \<noteq> []"
  proof (intro impI, elim conjE)
    assume a: "outcome x = Inl e"
      and b: "\<forall>d. parseDate rt (toISOString rt (t1 + 10 * 24 * 60 * 60 * 1000)) = Some d
              \<longrightarrow> t1 + daysAhead * 24 * 60 * 60 * 1000 < d"
      and c: "ecache (eventsCacheKey oisland ecat daysAhead limit) = None"
    from c show "getEvents rt ecache (EVENT_SOURCES k f) t0 t1 oisland ecat daysAhead limit x
          = (Inr [], ecache(eventsCacheKey oisland ecat daysAhead limit
                              \<mapsto> \<lparr>data = [], timestamp = t1\<rparr>))
        \<and> getFallbackEvents rt t1 None \<noteq> []"
      by (simp add: getEvents_def getEvents_settle_def fetchFromAllSources_all_fail [OF a b]
          filterEvents_def Let_def sortBy_def slice0_def getFallbackEvents_def)
  qed
  show ?thesis
    by (intro conjI) (rule 1 2)+
qed

theorem all_sources_fail_returns_empty_witness:
  "getLatestNews testRuntime Map.empty RSS_FEEDS 0 50 None 20 (\<lambda>u. Inl (Error ''ECONNREFUSED''))
     = (Inr [], Map.empty(newsCacheKey None 20 \<mapsto> \<lparr>data = [], timestamp = 50\<rparr>))
   \<and> getEvents testRuntime Map.empty (EVENT_SOURCES (Some ''key'') None) 0 0 None None 7 50
       failingExchange
     = (Inr [], Map.empty(eventsCacheKey None None 7 50 \<mapsto> \<lparr>data = [], timestamp = 0\<rparr>))"
proof -
  have 1: "\<forall>feed \<in> set RSS_FEEDS. enabled feed
             \<longrightarrow> (\<exists>e. (\<lambda>u. Inl (Error ''ECONNREFUSED'') :: error + RSSItem list) (url feed) = Inl e)"
    by simp
  have 2: "(Map.empty :: NewsArticle list TimedCache) (newsCacheKey None 20) = None"
    by simp
  have 3: "outcome (failingExchange :: EventbriteResponse Exchange) = Inl (Error ''ECONNREFUSED'')"
    by (simp add: failingExchange_def)
  have 4: "\<forall>d. parseDate testRuntime (toISOString testRuntime (0 + 10 * 24 * 60 * 60 * 1000)) = Some d
              \<longrightarrow> 0 + 7 * 24 * 60 * 60 * 1000 < d"
    by (simp add: testRuntime_def)
  have 5: "(Map.empty :: EventData list TimedCache) (eventsCacheKey None None 7 50) = None"
    by simp
  from all_sources_fail_returns_empty [where feeds = RSS_FEEDS
      and rss = "\<lambda>u. Inl (Error ''ECONNREFUSED'')" and ncache = Map.empty and ncat = None
      and limit = 20 and rt = testRuntime and ?t0.0 = 0 and ?t1.0 = 50, THEN conjunct1] 1 2
  have n: "getLatestNews testRuntime Map.empty RSS_FEEDS 0 50 None 20
             (\<lambda>u. Inl (Error ''ECONNREFUSED''))
           = (Inr [], Map.empty(newsCacheKey None 20 \<mapsto> \<lparr>data = [], timestamp = 50\<rparr>))"
    by blast
  from all_sources_fail_returns_empty [where x = failingExchange
      and e = "Error ''ECONNREFUSED''" and rt = testRuntime and ?t1.0 = 0 and daysAhead = 7
      and ecache = Map.empty and oisland = None and ecat = None and limit = 50
      and k = "Some ''key''" and f = None and ?t0.0 = 0, THEN conjunct2] 3 4 5
  have e: "getEvents testRuntime Map.empty (EVENT_SOURCES (Some ''key'') None) 0 0 None None 7 50
             failingExchange
           = (Inr [], Map.empty(eventsCacheKey None None 7 50 \<mapsto> \<lparr>data = [], timestamp = 0\<rparr>))"
    by blast
  from n e show ?thesis by simp
qed

subsection \<open>Scores and the clock\<close>

text \<open>
  C6 (as amended).  \<open>calculateRelevanceScore\<close> is a function of the title and the content
  alone: the score that \<open>processArticle\<close> stores in an article is the same under any two
  runtimes.  \<open>calculateEventScore\<close> is a function of four fields of the record
  (\<open>price.free\<close>, \<open>category\<close>, \<open>imageUrl\<close>, \<open>startDate\<close>) and of the clock: two records
  that agree on these fields score the same at two clock readings whenever the start
  lies within 72 hours of both readings or of neither.
\<close>

theorem scores_depend_on:
  "map_option relevanceScore (processArticle rt1 raw) = map_option relevanceScore (processArticle rt2 raw)
   \<and> (\<forall>a. processArticle rt1 raw = Some a
          \<longrightarrow> relevanceScore a = calculateRelevanceScore (raw_title raw) (raw_content raw))
   \<and> (free (price e1) = free (price e2) \<and> ev_category e1 = ev_category e2
        \<and> ev_imageUrl e1 = ev_imageUrl e2 \<and> startDate e1 = startDate e2
        \<and> (\<forall>t. parseDate rt (startDate e1) = Some t
               \<longrightarrow> (t - now1 \<le> 72 * 60 * 60 * 1000) = (t - now2 \<le> 72 * 60 * 60 * 1000))
      \<longrightarrow> calculateEventScore rt now1 e1 = calculateEventScore rt now2 e2)"
proof -
  have h: "((of_int (t - n) :: rat) / (1000 * 60 * 60) \<le> 72) = (t - n \<le> 72 * 60 * 60 * 1000)"
    for t n :: int
  proof -
    have "((of_int (t - n) :: rat) / (1000 * 60 * 60) \<le> 72)
            = ((of_int (t - n) :: rat) \<le> of_int (72 * 60 * 60 * 1000))"
      by (simp add: divide_le_eq)
    also have "\<dots> = (t - n \<le> 72 * 60 * 60 * 1000)"
      by (simp only: of_int_le_iff)
    finally show ?thesis .
  qed
  have 1: "map_option relevanceScore (processArticle rt1 raw)
             = map_option relevanceScore (processArticle rt2 raw)"
    by (simp add: processArticle_def Let_def)
  have 2: "\<forall>a. processArticle rt1 raw = Some a
          \<longrightarrow> relevanceScore a = calculateRelevanceScore (raw_title raw) (raw_content raw)"
    by (auto simp: processArticle_def Let_def generateAISummary_def mockAICall_def
        split: if_splits)
  have 3: "free (price e1) = free (price e2) \<and> ev_category e1 = ev_category e2
        \<and> ev_imageUrl e1 = ev_imageUrl e2 \<and> startDate e1 = startDate e2
        \<and> (\<forall>t. parseDate rt (startDate e1) = Some t
               \<longrightarrow> (t - now1 \<le> 72 * 60 * 60 * 1000) = (t - now2 \<le> 72 * 60 * 60 * 1000))
      \<longrightarrow> calculateEventScore rt now1 e1 = calculateEventScore rt now2 e2"
    by (cases "parseDate rt (startDate e2)")
      (auto simp add: calculateEventScore_def Let_def h simp del: of_int_diff)
  show ?thesis
    by (intro conjI) (rule 1 2 3)+
qed

theorem scores_depend_on_witness:
  "calculateEventScore testRuntime 0 freeConcert
     = calculateEventScore testRuntime 3600000 (freeConcert\<lparr>ev_id := ''other''\<rparr>)"
proof -
  have "\<forall>t. parseDate testRuntime (startDate freeConcert) = Some t
          \<longrightarrow> (t - 0 \<le> 72 * 60 * 60 * 1000) = (t - 3600000 \<le> 72 * 60 * 60 * 1000)"
    by (simp add: testRuntime_def freeConcert_def)
  with scores_depend_on [where ?e1.0 = freeConcert and ?e2.0 = "freeConcert\<lparr>ev_id := ''other''\<rparr>"
      and rt = testRuntime and ?now1.0 = 0 and ?now2.0 = 3600000, THEN conjunct2, THEN conjunct2]
  show ?thesis by simp
qed

text \<open>
  The claim as stated fails for the event score: the same record scores 3 when the
  clock reads 0 and 5 when it reads 600000000, less than 72 hours before the start.
\<close>

theorem calculateEventScore_clock_counterexample:
  "calculateEventScore testRuntime 0 freeConcert = 3
   \<and> calculateEventScore testRuntime 600000000 freeConcert = 5"
  by (simp add: calculateEventScore_def orElse_def testRuntime_def freeConcert_def Let_def)

subsection \<open>Deadlines of the upstream fetches\<close>

lemma fetchWithTimeout_le: "fst (fetchWithTimeout x timeoutMs) \<le> timeoutMs"
  by (simp add: fetchWithTimeout_def)

lemma fetchWithTimeout_abort:
  "timeoutMs \<le> latency x \<Longrightarrow> fetchWithTimeout x timeoutMs = (timeoutMs, Inl AbortError)"
  by (simp add: fetchWithTimeout_def)

lemma fetchNOAAWeather_timed_le:
  "fst (fetchNOAAWeather_timed rt pcc pal t1 up) \<le> 20000"
proof -
  obtain tp r where p: "fetchWithTimeout (pointsExchange up) 10000 = (tp, r)"
    by (cases "fetchWithTimeout (pointsExchange up) 10000")
  have tp: "tp \<le> 10000"
    using fetchWithTimeout_le [of "pointsExchange up" 10000] p by simp
  have g: "fst (fetchWithTimeout (gridpointsExchange up) 10000) \<le> 10000"
    and f: "fst (fetchWithTimeout (forecastExchange up) 10000) \<le> 10000"
    and a: "fst (fetchWithTimeout (alertsExchange up) 10000) \<le> 10000"
    by (rule fetchWithTimeout_le)+
  show ?thesis
  proof (cases r)
    case (Inl e)
    with p tp show ?thesis by (simp add: fetchNOAAWeather_timed_def)
  next
    case (Inr gridData)
    show ?thesis
    proof (cases "properties gridData")
      case None
      with p Inr tp show ?thesis by (simp add: fetchNOAAWeather_timed_def)
    next
      case (Some props)
      with p Inr tp g f a show ?thesis
        by (simp add: fetchNOAAWeather_timed_def Let_def)
    qed
  qed
qed

lemma fetchNOAAWeather_timed_points_abort:
  "10000 \<le> latency (pointsExchange up)
   \<Longrightarrow> fetchNOAAWeather_timed rt pcc pal t1 up = (10000, Inl AbortError)"
  by (simp add: fetchNOAAWeather_timed_def fetchWithTimeout_abort)

lemma fetchNOAAWeather_defaults:
  assumes "fetchNOAAWeather rt pcc pal t1 up = Inr w"
  shows "(10000 \<le> latency (gridpointsExchange up) \<longrightarrow> current w = getDefaultCurrent)
       \<and> (10000 \<le> latency (forecastExchange up) \<longrightarrow> forecast w = getDefaultForecast rt t1)
       \<and> (10000 \<le> latency (alertsExchange up) \<longrightarrow> alerts w = [])"
  using assms
  by (auto simp: fetchNOAAWeather_def fetchNOAAWeather_timed_def fetchWithTimeout_abort
      fulfilledValue_def Let_def split: prod.splits sum.splits option.splits)

text \<open>
  C8 (as amended).  Every upstream fetch of the weather service goes through
  \<open>fetchWithTimeout\<close>, which settles after at most \<open>timeoutMs\<close> milliseconds: an
  exchange that has not settled by then is aborted and the promise rejects with an
  AbortError.  \<open>fetchNOAAWeather\<close> uses 10000 milliseconds for each of its four fetches
  and settles within 20000: when the grid-point lookup times out it rejects after
  10000 milliseconds and \<open>getWeatherData\<close> returns the fallback weather data; when the
  gridpoints, the forecast or the alerts fetch times out, the default current
  conditions, the default forecast or no alerts take its place.  The fetches of the surf
  adapter (\<open>fetchSpotData\<close>, \<open>fetchTideData\<close>) and of the Eventbrite adapter pass no
  abort signal: they settle when the upstream exchange does, however long that takes.
\<close>

theorem upstream_fetch_deadlines:
  "fst (fetchWithTimeout wx timeoutMs) \<le> timeoutMs
   \<and> (timeoutMs \<le> latency wx \<longrightarrow> fetchWithTimeout wx timeoutMs = (timeoutMs, Inl AbortError))
   \<and> (latency wx < timeoutMs \<longrightarrow> fst (fetchWithTimeout wx timeoutMs) = latency wx)
   \<and> fst (fetchNOAAWeather_timed rt pcc pal t1 wup) \<le> 20000
   \<and> (10000 \<le> latency (pointsExchange wup)
      \<longrightarrow> fetchNOAAWeather_timed rt pcc pal t1 wup = (10000, Inl AbortError))
   \<and> (10000 \<le> latency (pointsExchange wup)
        \<and> fst (Cache_get wcache t0 (weatherCacheKey island)) = None
      \<longrightarrow> fst (getWeatherData rt pcc pal wcache t0 t1 island wup)
            = Inr (getFallbackWeatherData rt t1 island))
   \<and> (fetchNOAAWeather rt pcc pal t1 wup = Inr w
      \<longrightarrow> (10000 \<le> latency (gridpointsExchange wup) \<longrightarrow> current w = getDefaultCurrent)
          \<and> (10000 \<le> latency (forecastExchange wup) \<longrightarrow> forecast w = getDefaultForecast rt t1)
          \<and> (10000 \<le> latency (alertsExchange wup) \<longrightarrow> alerts w = []))
   \<and> fst (fetchSpotData rt now spot sx) = latency sx
   \<and> fst (fetchTideData rt now island tx) = latency tx
   \<and> (orElse (apiKey source) [] \<noteq> [] \<and> \<bar>now + daysAhead * 24 * 60 * 60 * 1000\<bar> \<le> 8640000000000000
      \<longrightarrow> fst (fetchEventbriteEvents rt now source daysAhead ex) = latency ex)"
proof -
  have 1: "fst (fetchWithTimeout wx timeoutMs) \<le> timeoutMs"
    by (rule fetchWithTimeout_le)
  have 2: "timeoutMs \<le> latency wx \<longrightarrow> fetchWithTimeout wx timeoutMs = (timeoutMs, Inl AbortError)"
    by (simp add: fetchWithTimeout_def)
  have 3: "latency wx < timeoutMs \<longrightarrow> fst (fetchWithTimeout wx timeoutMs) = latency wx"
    by (simp add: fetchWithTimeout_def)
  have 4: "fst (fetchSpotData rt now spot sx) = latency sx"
    by (simp add: fetchSpotData_def fetchJson_def)
  have 5: "fst (fetchTideData rt now island tx) = latency tx"
    by (cases island) (simp_all add: fetchTideData_def fetchJson_def TIDE_STATIONS_def)
  have 6: "orElse (apiKey source) [] \<noteq> [] \<and> \<bar>now + daysAhead * 24 * 60 * 60 * 1000\<bar> \<le> 8640000000000000
      \<longrightarrow> fst (fetchEventbriteEvents rt now source daysAhead ex) = latency ex"
    by (simp add: fetchEventbriteEvents_def fetchJson_def Date_toISOString_def newDate_def)
  have 7: "fst (fetchNOAAWeather_timed rt pcc pal t1 wup) \<le> 20000"
    by (rule fetchNOAAWeather_timed_le)
  have 8: "10000 \<le> latency (pointsExchange wup)
      \<longrightarrow> fetchNOAAWeather_timed rt pcc pal t1 wup = (10000, Inl AbortError)"
    by (simp add: fetchNOAAWeather_timed_points_abort)
  have 9: "10000 \<le> latency (pointsExchange wup)
        \<and> fst (Cache_get wcache t0 (weatherCacheKey island)) = None
      \<longrightarrow> fst (getWeatherData rt pcc pal wcache t0 t1 island wup)
            = Inr (getFallbackWeatherData rt t1 island)"
  proof (intro impI, elim conjE)
    assume a: "10000 \<le> latency (pointsExchange wup)"
      and b: "fst (Cache_get wcache t0 (weatherCacheKey island)) = None"
    have "fetchNOAAWeather rt pcc pal t1 wup = Inl AbortError"
      by (simp add: fetchNOAAWeather_def fetchNOAAWeather_timed_points_abort [OF a])
    with b show "fst (getWeatherData rt pcc pal wcache t0 t1 island wup)
            = Inr (getFallbackWeatherData rt t1 island)"
      by (rule getWeatherData_fallback)
  qed
  have 10: "fetchNOAAWeather rt pcc pal t1 wup = Inr w
      \<longrightarrow> (10000 \<le> latency (gridpointsExchange wup) \<longrightarrow> current w = getDefaultCurrent)
          \<and> (10000 \<le> latency (forecastExchange wup) \<longrightarrow> forecast w = getDefaultForecast rt t1)
          \<and> (10000 \<le> latency (alertsExchange wup) \<longrightarrow> alerts w = [])"
    using fetchNOAAWeather_defaults [of rt pcc pal t1 wup w] by blast
  show ?thesis
    by (intro conjI) (rule 1 2 3 4 5 6 7 8 9 10)+
qed

theorem upstream_fetch_deadlines_witness:
  "fetchNOAAWeather_timed testRuntime (\<lambda>g. Inr getDefaultCurrent) (\<lambda>a. Inr []) 0 slowPointsNoaa
     = (10000, Inl AbortError)
   \<and> fst (getWeatherData testRuntime (\<lambda>g. Inr getDefaultCurrent) (\<lambda>a. Inr []) Map.empty 0 10000 oahu
            slowPointsNoaa)
     = Inr (getFallbackWeatherData testRuntime 10000 oahu)
   \<and> fetchNOAAWeather_timed testRuntime (\<lambda>g. Inr getDefaultCurrent) (\<lambda>a. Inr []) 0 slowForecastNoaa
     = (10300, Inr (getFallbackWeatherData testRuntime 0 oahu))"
proof -
  have p: "10000 \<le> latency (pointsExchange slowPointsNoaa)"
    by (simp add: slowPointsNoaa_def slowExchange_def)
  have c: "fst (Cache_get (Map.empty :: WeatherData Cache) 0 (weatherCacheKey oahu)) = None"
    by (simp add: Cache_get_def)
  have v: "fetchNOAAWeather_timed testRuntime (\<lambda>g. Inr getDefaultCurrent) (\<lambda>a. Inr []) 0
             slowForecastNoaa
           = (10300, Inr (getFallbackWeatherData testRuntime 0 oahu))"
    by (simp add: fetchNOAAWeather_timed_def fetchWithTimeout_def slowForecastNoaa_def
        slowExchange_def failingExchange_def fulfilledValue_def getFallbackWeatherData_def Let_def)
  from upstream_fetch_deadlines [where wup = slowPointsNoaa and rt = testRuntime
      and pcc = "\<lambda>g. Inr getDefaultCurrent" and pal = "\<lambda>a. Inr []" and ?t1.0 = 0,
      THEN conjunct2, THEN conjunct2, THEN conjunct2, THEN conjunct2, THEN conjunct1] p
  have a: "fetchNOAAWeather_timed testRuntime (\<lambda>g. Inr getDefaultCurrent) (\<lambda>a. Inr []) 0
             slowPointsNoaa = (10000, Inl AbortError)"
    by simp
  from upstream_fetch_deadlines [where wup = slowPointsNoaa and rt = testRuntime
      and pcc = "\<lambda>g. Inr getDefaultCurrent" and pal = "\<lambda>a. Inr []" and ?t1.0 = 10000
      and wcache = Map.empty and ?t0.0 = 0 and island = oahu,
      THEN conjunct2, THEN conjunct2, THEN conjunct2, THEN conjunct2, THEN conjunct2,
      THEN conjunct1] p c
  have b: "fst (getWeatherData testRuntime (\<lambda>g. Inr getDefaultCurrent) (\<lambda>a. Inr []) Map.empty 0 10000
                 oahu slowPointsNoaa)
           = Inr (getFallbackWeatherData testRuntime 10000 oahu)"
    by simp
  from a b v show ?thesis by simp
qed

text \<open>
  The claim as stated fails for the surf adapter: when the Surfline exchange takes 60
  seconds to fail, \<open>fetchSpotData\<close> settles after 60 seconds, not within 10.
\<close>

theorem fetchSpotData_unbounded_counterexample:
  "fst (fetchSpotData testRuntime 0 (hd SURF_SPOTS) slowExchange) = 60000
   \<and> \<not> (60000 \<le> (10000 :: nat))"
  by (simp add: fetchSpotData_def fetchJson_def slowExchange_def)

subsection \<open>Simultaneous calls\<close>

lemma weatherStep_invoke_miss:
  "cache (weatherCacheKey island) = None
   \<Longrightarrow> weatherStep rt pcc pal (cache, fanouts) (InvokeWeather island t0)
         = (cache, fanouts @ [weatherCacheKey island])"
  by (simp add: weatherStep_def Cache_get_def)

lemma weatherStep_invokes:
  "cache (weatherCacheKey island) = None
   \<Longrightarrow> foldl (weatherStep rt pcc pal) (cache, fanouts) (replicate n (InvokeWeather island t0))
         = (cache, fanouts @ replicate n (weatherCacheKey island))"
proof (induction n arbitrary: fanouts)
  case 0
  show ?case by simp
next
  case (Suc n)
  show ?case
    using Suc.prems Suc.IH [OF Suc.prems, of "fanouts @ [weatherCacheKey island]"]
    by (simp add: weatherStep_invoke_miss replicate_app_Cons_same)
qed

lemma eventsStep_invoke_miss:
  "cache (eventsCacheKey island cat daysAhead limit) = None
   \<Longrightarrow> eventsStep rt sources (cache, fanouts) (InvokeEvents island cat daysAhead limit t0)
         = (cache, fanouts @ [eventsCacheKey island cat daysAhead limit])"
  by (simp add: eventsStep_def)

lemma eventsStep_invokes:
  "cache (eventsCacheKey island cat daysAhead limit) = None
   \<Longrightarrow> foldl (eventsStep rt sources) (cache, fanouts)
           (replicate n (InvokeEvents island cat daysAhead limit t0))
         = (cache, fanouts @ replicate n (eventsCacheKey island cat daysAhead limit))"
proof (induction n arbitrary: fanouts)
  case 0
  show ?case by simp
next
  case (Suc n)
  show ?case
    using Suc.prems Suc.IH [OF Suc.prems, of "fanouts @ [eventsCacheKey island cat daysAhead limit]"]
    by (simp add: eventsStep_invoke_miss replicate_app_Cons_same)
qed

text \<open>
  C9 (as amended).  The services do not coalesce calls: every call that finds no fresh
  entry for its key starts a fan-out of its own, whether or not another call for the
  same key is in flight.  When \<open>n\<close> calls for one key are made before any entry exists
  for it, \<open>n\<close> fan-outs are started, in the weather service and in the events service
  alike.  A call made while the store holds a fresh entry for the key starts none; and
  one call that runs alone is the Invoke step followed by the Settle step.
\<close>

theorem no_coalescing:
  "(wcache (weatherCacheKey island) = None
      \<longrightarrow> foldl (weatherStep rt pcc pal) (wcache, fanouts) (replicate n (InvokeWeather island t0))
            = (wcache, fanouts @ replicate n (weatherCacheKey island)))
   \<and> (ecache (eventsCacheKey oisland ecat daysAhead limit) = None
      \<longrightarrow> foldl (eventsStep rt sources) (ecache, fanouts)
              (replicate n (InvokeEvents oisland ecat daysAhead limit t0))
            = (ecache, fanouts @ replicate n (eventsCacheKey oisland ecat daysAhead limit)))
   \<and> (wcache (weatherCacheKey island) = Some entry \<and> t0 - timestamp entry \<le> ttl entry
      \<longrightarrow> weatherStep rt pcc pal (wcache, fanouts) (InvokeWeather island t0) = (wcache, fanouts))
   \<and> (ecache (eventsCacheKey oisland ecat daysAhead limit) = Some cached
        \<and> t0 - timestamp cached < 60 * 60 * 1000
      \<longrightarrow> eventsStep rt sources (ecache, fanouts) (InvokeEvents oisland ecat daysAhead limit t0)
            = (ecache, fanouts))
   \<and> (fst (Cache_get wcache t0 (weatherCacheKey island)) = None
      \<longrightarrow> fst (foldl (weatherStep rt pcc pal) (wcache, fanouts)
                 [InvokeWeather island t0, SettleWeather island t1 wup])
            = snd (getWeatherData rt pcc pal wcache t0 t1 island wup))"
proof -
  have 1: "wcache (weatherCacheKey island) = None
      \<longrightarrow> foldl (weatherStep rt pcc pal) (wcache, fanouts) (replicate n (InvokeWeather island t0))
            = (wcache, fanouts @ replicate n (weatherCacheKey island))"
    using weatherStep_invokes by blast
  have 2: "ecache (eventsCacheKey oisland ecat daysAhead limit) = None
      \<longrightarrow> foldl (eventsStep rt sources) (ecache, fanouts)
              (replicate n (InvokeEvents oisland ecat daysAhead limit t0))
            = (ecache, fanouts @ replicate n (eventsCacheKey oisland ecat daysAhead limit))"
    using eventsStep_invokes by blast
  have 3: "wcache (weatherCacheKey island) = Some entry \<and> t0 - timestamp entry \<le> ttl entry
      \<longrightarrow> weatherStep rt pcc pal (wcache, fanouts) (InvokeWeather island t0) = (wcache, fanouts)"
    by (simp add: weatherStep_def Cache_get_def)
  have 4: "ecache (eventsCacheKey oisland ecat daysAhead limit) = Some cached
        \<and> t0 - timestamp cached < 60 * 60 * 1000
      \<longrightarrow> eventsStep rt sources (ecache, fanouts) (InvokeEvents oisland ecat daysAhead limit t0)
            = (ecache, fanouts)"
    by (simp add: eventsStep_def)
  have 5: "fst (Cache_get wcache t0 (weatherCacheKey island)) = None
      \<longrightarrow> fst (foldl (weatherStep rt pcc pal) (wcache, fanouts)
                 [InvokeWeather island t0, SettleWeather island t1 wup])
            = snd (getWeatherData rt pcc pal wcache t0 t1 island wup)"
    by (cases "Cache_get wcache t0 (weatherCacheKey island)")
      (simp add: weatherStep_def getWeatherData_def)
  show ?thesis
    by (intro conjI) (rule 1 2 3 4 5)+
qed

theorem no_coalescing_witness:
  "foldl (weatherStep testRuntime (\<lambda>g :: unit. Inr getDefaultCurrent) (\<lambda>a :: unit. Inr []))
     (Map.empty, []) (replicate 3 (InvokeWeather oahu 0))
   = (Map.empty, replicate 3 (weatherCacheKey oahu))"
proof -
  have "(Map.empty :: WeatherData Cache) (weatherCacheKey oahu) = None" by simp
  with no_coalescing [where wcache = Map.empty and island = oahu and rt = testRuntime
      and pcc = "\<lambda>g :: unit. Inr getDefaultCurrent" and pal = "\<lambda>a :: unit. Inr []"
      and fanouts = "[]" and n = 3 and ?t0.0 = 0, THEN conjunct1]
  show ?thesis by simp
qed

text \<open>
  The claim as stated fails: two calls of \<open>getWeatherData\<close> for O'ahu made before any
  entry exists both miss the cache, and each starts its own fan-out.
\<close>

theorem simultaneous_calls_counterexample:
  "snd (foldl (weatherStep testRuntime (\<lambda>g :: unit. Inr getDefaultCurrent) (\<lambda>a :: unit. Inr []))
          (Map.empty, []) [InvokeWeather oahu 0, InvokeWeather oahu 0])
     = [''weather-oahu'', ''weather-oahu'']"
  by (simp add: weatherStep_def Cache_get_def weatherCacheKey_def)

end
